(* ===== verification/Gamepad_Prelude.thy ===== *)
theory Gamepad_Prelude
  imports
    Main
    "HOL-Library.Word"
    "HOL-Library.Signed_Division"
    "HOL-Library.State_Monad"
begin

unbundle bit_operations_syntax

text \<open>
  Shared vocabulary of the development: the C integer types the driver uses, the
  arithmetic of C's \<^verbatim>\<open>int\<close> (range, truncating division), and the lemma collections
  that carry the component proofs.

  \<^item> \<open>u8\<close>, \<open>u16\<close>, \<open>u32\<close> are \<^verbatim>\<open>uint8_t\<close>, \<^verbatim>\<open>__u16\<close> and \<^verbatim>\<open>uint32_t\<close>, as words of
    that width. C's \<^verbatim>\<open>int\<close> is modelled as a mathematical integer together with the
    predicate \<open>is_cint\<close>; wherever the driver computes on \<^verbatim>\<open>int\<close>, a lemma shows that
    the value stays inside the range, so that no signed overflow (undefined in C) is
    hidden by the model.
  \<^item> \<open>c_div\<close> is the \<^verbatim>\<open>/\<close> of C99 on \<^verbatim>\<open>int\<close>: it truncates towards zero, where HOL's
    \<open>div\<close> rounds down.
  \<^item> \<open>gp_consts\<close> collects the defining equations of the driver's constants
    (\<^verbatim>\<open>#define\<close>s); \<open>gp_eval\<close> collects the equations that evaluate a closed model term.
\<close>

named_theorems gp_consts "defining equations of the driver's constants"
named_theorems gp_eval "equations that evaluate closed terms of the model"

type_synonym u8 = "8 word"
type_synonym u16 = "16 word"
type_synonym u32 = "32 word"

definition INT_MAX :: int where
  [gp_consts]: "INT_MAX = 2147483647"

definition INT_MIN :: int where
  [gp_consts]: "INT_MIN = - 2147483648"

definition is_cint :: "int \<Rightarrow> bool" where
  "is_cint x \<longleftrightarrow> INT_MIN \<le> x \<and> x \<le> INT_MAX"

definition c_div :: "int \<Rightarrow> int \<Rightarrow> int" where
  "c_div a b = a sdiv b"

definition c_bool :: "bool \<Rightarrow> int" where
  "c_bool b = (if b then 1 else 0)"

subsection \<open>Lists\<close>

lemma length_takeWhile_less_mem:
  "x \<in> set xs \<Longrightarrow> \<not> P x \<Longrightarrow> length (takeWhile P xs) < length xs"
  by (induction xs) auto

lemma takeWhile_neq_append [simp]:
  "c \<notin> set a \<Longrightarrow> takeWhile (\<lambda>d. d \<noteq> c) (a @ c # b) = a"
  by (induction a) auto

lemma take_Suc_update: "i < length xs \<Longrightarrow> take (Suc i) (xs[i := x]) = take i xs @ [x]"
  by (simp add: take_Suc_conv_app_nth)

lemma take_update_beyond: "n \<le> i \<Longrightarrow> take n (xs[i := x]) = take n xs"
  by simp

lemma take_bit_int_small: "0 \<le> k \<Longrightarrow> k < 2 ^ n \<Longrightarrow> take_bit n k = k" for k :: int
  by (simp add: take_bit_int_eq_self)

lemma take_length_takeWhile [simp]: "take (length (takeWhile P xs)) xs = takeWhile P xs"
  by (rule takeWhile_eq_take [symmetric])

lemma drop_length_takeWhile [simp]: "drop (length (takeWhile P xs)) xs = dropWhile P xs"
  by (rule dropWhile_eq_drop [symmetric])

subsection \<open>Integer division against a bound\<close>

lemma div_le_iff_int: "0 < b \<Longrightarrow> a div b \<le> k \<longleftrightarrow> a < (k + 1) * b" for a b k :: int
proof
  assume b: "0 < b" and le: "a div b \<le> k"
  from b have "a mod b < b" by simp
  moreover have "b * (a div b) + a mod b = a" by simp
  ultimately have "a < b * (a div b) + b" by linarith
  also have "\<dots> = (a div b + 1) * b" by (simp add: algebra_simps)
  also from b le have "\<dots> \<le> (k + 1) * b" by (intro mult_right_mono) simp_all
  finally show "a < (k + 1) * b" .
next
  assume b: "0 < b" and lt: "a < (k + 1) * b"
  show "a div b \<le> k"
  proof (rule ccontr)
    assume "\<not> a div b \<le> k"
    then have "k + 1 \<le> a div b" by simp
    with b have "(k + 1) * b \<le> (a div b) * b" by (intro mult_right_mono) simp_all
    moreover from b have "0 \<le> a mod b" by simp
    moreover have "(a div b) * b + a mod b = a" by simp
    ultimately show False using lt by linarith
  qed
qed

lemma div_ge_iff_int: "0 < b \<Longrightarrow> k \<le> a div b \<longleftrightarrow> k * b \<le> a" for a b k :: int
  using div_le_iff_int [of b a "k - 1"] by auto

subsection \<open>Truncating division\<close>

lemma c_div_nonneg [simp]: "0 \<le> a \<Longrightarrow> 0 < b \<Longrightarrow> c_div a b = a div b"
  by (simp add: c_div_def signed_divide_int_def sgn_if)

lemma c_div_neg: "a < 0 \<Longrightarrow> 0 < b \<Longrightarrow> c_div a b = - ((- a) div b)"
  by (simp add: c_div_def signed_divide_int_def sgn_if)

lemma c_div_minus [simp]: "c_div (- a) b = - c_div a b"
  by (simp add: c_div_def minus_sdiv_eq)

lemma c_div_zero [simp]: "c_div 0 b = 0"
  by (simp add: c_div_def)

lemma c_div_mono:
  assumes "a \<le> a'" and "0 < b"
  shows "c_div a b \<le> c_div a' b"
proof (cases "0 \<le> a")
  case True
  with assms show ?thesis by (simp add: zdiv_mono1)
next
  case a: False
  show ?thesis
  proof (cases "0 \<le> a'")
    case True
    from a assms(2) have "c_div a b \<le> 0"
      by (simp add: c_div_neg pos_imp_zdiv_nonneg_iff)
    also from True assms(2) have "0 \<le> c_div a' b"
      by (simp add: pos_imp_zdiv_nonneg_iff)
    finally show ?thesis .
  next
    case False
    with assms have "(- a') div b \<le> (- a) div b"
      by (intro zdiv_mono1) simp_all
    with a False assms(2) show ?thesis by (simp add: c_div_neg)
  qed
qed

lemma c_div_abs_le: "0 < b \<Longrightarrow> \<bar>c_div a b\<bar> \<le> \<bar>a\<bar>"
  using sdiv_int_range [of a b] by (auto simp: c_div_def)

lemma is_cint_c_div:
  assumes "is_cint a" and "0 < b"
  shows "is_cint (c_div a b)"
proof -
  from assms have "c_div INT_MIN b \<le> c_div a b" and "c_div a b \<le> c_div INT_MAX b"
    by (simp_all add: is_cint_def c_div_mono)
  moreover from assms(2) have "\<bar>c_div INT_MIN b\<bar> \<le> \<bar>INT_MIN\<bar>" and "\<bar>c_div INT_MAX b\<bar> \<le> \<bar>INT_MAX\<bar>"
    by (simp_all add: c_div_abs_le)
  ultimately show ?thesis
    unfolding is_cint_def gp_consts by linarith
qed

subsection \<open>The range of \<^verbatim>\<open>int\<close>\<close>

lemma is_cintI: "- 2147483648 \<le> x \<Longrightarrow> x \<le> 2147483647 \<Longrightarrow> is_cint x"
  by (simp add: is_cint_def gp_consts)

lemma is_cintD: "is_cint x \<Longrightarrow> - 2147483648 \<le> x \<and> x \<le> 2147483647"
  by (simp add: is_cint_def gp_consts)

lemma is_cint_numeral [simp]: "is_cint 0" "is_cint 1" "is_cint (- 1)"
  by (simp_all add: is_cint_def gp_consts)

lemma c_bool_simps [simp]:
  "c_bool True = 1" "c_bool False = 0" "c_bool b \<noteq> 0 \<longleftrightarrow> b" "c_bool b = 1 \<longleftrightarrow> b"
  "c_bool b = 0 \<longleftrightarrow> \<not> b"
  by (simp_all add: c_bool_def)

lemma c_bool_range: "c_bool b \<in> {0, 1}"
  by (simp add: c_bool_def)

end
