(* ===== verification/Linux_Input.thy ===== *)
theory Linux_Input
  imports Gamepad_Prelude
begin

text \<open>
  The part of the Linux user-space interface that \<^verbatim>\<open>src/gamepad_driver.c\<close> names: the
  event types and codes of \<^verbatim>\<open>linux/input-event-codes.h\<close>, the structures
  \<^verbatim>\<open>input_event\<close>, \<^verbatim>\<open>uinput_user_dev\<close> and \<^verbatim>\<open>spi_ioc_transfer\<close>, and the \<^verbatim>\<open>ioctl\<close>
  requests the driver issues. The numeric values are those of the kernel's stable
  interface; each constant is a C \<^verbatim>\<open>int\<close> in the source, so it is an \<open>int\<close> here.

  Structure fields carry a short prefix (\<open>ev_\<close>, \<open>ud_\<close>, \<open>id_\<close>, \<open>tr_\<close>) because
  \<^verbatim>\<open>type\<close>, \<^verbatim>\<open>value\<close>, \<^verbatim>\<open>name\<close> and \<^verbatim>\<open>id\<close> are taken in Isabelle. Fields the driver never
  writes are left out of \<open>spi_ioc_transfer\<close>; they are zero in the source.

  The lemmas show that the sixteen button codes are pairwise distinct, non-negative
  (so the driver's test \<^verbatim>\<open>keycode < 0\<close> separates them from the error value) and fit the
  16-bit \<^verbatim>\<open>code\<close> field of an event without truncation.
\<close>

subsection \<open>Event types and codes\<close>

definition EV_SYN :: int where [gp_consts]: "EV_SYN = 0x00"
definition EV_KEY :: int where [gp_consts]: "EV_KEY = 0x01"
definition EV_ABS :: int where [gp_consts]: "EV_ABS = 0x03"

definition SYN_REPORT :: int where [gp_consts]: "SYN_REPORT = 0"

definition ABS_X :: int where [gp_consts]: "ABS_X = 0x00"
definition ABS_Y :: int where [gp_consts]: "ABS_Y = 0x01"
definition ABS_RX :: int where [gp_consts]: "ABS_RX = 0x03"
definition ABS_RY :: int where [gp_consts]: "ABS_RY = 0x04"
definition ABS_CNT :: nat where [gp_consts]: "ABS_CNT = 0x40"

definition BTN_A :: int where [gp_consts]: "BTN_A = 0x130"
definition BTN_B :: int where [gp_consts]: "BTN_B = 0x131"
definition BTN_X :: int where [gp_consts]: "BTN_X = 0x133"
definition BTN_Y :: int where [gp_consts]: "BTN_Y = 0x134"
definition BTN_TL :: int where [gp_consts]: "BTN_TL = 0x136"
definition BTN_TR :: int where [gp_consts]: "BTN_TR = 0x137"
definition BTN_TL2 :: int where [gp_consts]: "BTN_TL2 = 0x138"
definition BTN_TR2 :: int where [gp_consts]: "BTN_TR2 = 0x139"
definition BTN_SELECT :: int where [gp_consts]: "BTN_SELECT = 0x13a"
definition BTN_START :: int where [gp_consts]: "BTN_START = 0x13b"
definition BTN_THUMBL :: int where [gp_consts]: "BTN_THUMBL = 0x13d"
definition BTN_THUMBR :: int where [gp_consts]: "BTN_THUMBR = 0x13e"
definition BTN_DPAD_UP :: int where [gp_consts]: "BTN_DPAD_UP = 0x220"
definition BTN_DPAD_DOWN :: int where [gp_consts]: "BTN_DPAD_DOWN = 0x221"
definition BTN_DPAD_LEFT :: int where [gp_consts]: "BTN_DPAD_LEFT = 0x222"
definition BTN_DPAD_RIGHT :: int where [gp_consts]: "BTN_DPAD_RIGHT = 0x223"

definition BUS_USB :: int where [gp_consts]: "BUS_USB = 0x03"
definition UINPUT_MAX_NAME_SIZE :: nat where [gp_consts]: "UINPUT_MAX_NAME_SIZE = 80"

definition button_codes :: "int list" where
  "button_codes =
     [BTN_A, BTN_B, BTN_X, BTN_Y, BTN_DPAD_UP, BTN_DPAD_DOWN, BTN_DPAD_LEFT, BTN_DPAD_RIGHT,
      BTN_TL, BTN_TL2, BTN_TR, BTN_TR2, BTN_THUMBL, BTN_THUMBR, BTN_START, BTN_SELECT]"

subsection \<open>Structures\<close>

record timeval =
  tv_sec :: int
  tv_usec :: int

record input_event =
  ev_time :: timeval
  ev_type :: u16
  ev_code :: u16
  ev_value :: int

record input_id =
  id_bustype :: u16
  id_vendor :: u16
  id_product :: u16
  id_version :: u16

record uinput_user_dev =
  ud_name :: string
  ud_id :: input_id
  ud_ff_effects_max :: u32
  ud_absmax :: "int list"
  ud_absmin :: "int list"
  ud_absfuzz :: "int list"
  ud_absflat :: "int list"

record spi_ioc_transfer =
  tr_tx_buf :: "u8 list"
  tr_len :: nat
  tr_speed_hz :: u32
  tr_bits_per_word :: u8

datatype ioctl_req =
    SPI_IOC_WR_MAX_SPEED_HZ u32
  | SPI_IOC_MESSAGE spi_ioc_transfer
  | UI_SET_EVBIT int
  | UI_SET_KEYBIT int
  | UI_SET_ABSBIT int
  | UI_DEV_CREATE
  | UI_DEV_DESTROY

definition u16_of_int :: "int \<Rightarrow> u16" where
  "u16_of_int k = word_of_int k"

subsection \<open>Facts about the codes\<close>

lemma button_codes_length [simp]: "length button_codes = 16"
  by (simp add: button_codes_def)

lemma button_codes_distinct: "distinct button_codes"
  by (simp add: button_codes_def gp_consts)

lemma button_codes_range: "k \<in> set button_codes \<Longrightarrow> 0x130 \<le> k \<and> k \<le> 0x223"
  by (auto simp: button_codes_def gp_consts)

lemma button_codes_nonneg: "k \<in> set button_codes \<Longrightarrow> 0 \<le> k"
  by (drule button_codes_range) simp

lemma uint_u16_of_int: "0 \<le> k \<Longrightarrow> k < 65536 \<Longrightarrow> uint (u16_of_int k) = k"
  by (simp add: u16_of_int_def uint_word_of_int take_bit_eq_mod)

lemma button_codes_fit_u16: "k \<in> set button_codes \<Longrightarrow> uint (u16_of_int k) = k"
  by (drule button_codes_range) (simp add: uint_u16_of_int)

lemma u16_of_int_inj_on_codes:
  assumes "k \<in> set button_codes" and "l \<in> set button_codes"
    and "u16_of_int k = u16_of_int l"
  shows "k = l"
  using assms button_codes_fit_u16 by metis

lemma axis_codes_distinct: "distinct [ABS_X, ABS_Y, ABS_RX, ABS_RY]"
  by (simp add: gp_consts)

lemma event_types_distinct: "distinct [u16_of_int EV_SYN, u16_of_int EV_KEY, u16_of_int EV_ABS]"
  by (simp add: gp_consts u16_of_int_def)

end
