(* ===== verification/C_String.thy ===== *)
theory C_String
  imports Gamepad_Prelude
begin

text \<open>
  The C library routines that \<^verbatim>\<open>src/gamepad_driver.c\<close> calls on strings, as functions on
  \<open>string\<close> (a list of bytes): \<^verbatim>\<open>strlen\<close>, \<^verbatim>\<open>strcspn\<close>, \<^verbatim>\<open>strchr\<close>, \<^verbatim>\<open>strncpy\<close>, \<^verbatim>\<open>atoi\<close>,
  \<^verbatim>\<open>fgets\<close>, and the \<^verbatim>\<open>%d\<close> conversion and truncation of \<^verbatim>\<open>snprintf\<close>.

  A buffer is the list of bytes before the terminator that the library wrote; it may
  hold NUL bytes that came from a file. \<open>cstr\<close> gives the string C sees in it (the bytes
  before the first NUL). All other routines take such a string.

  \<^item> \<open>fgets n s\<close> reads from the unread rest \<open>s\<close> of a stream: at most \<open>n - 1\<close> bytes, up to
    and including the first newline; \<open>None\<close> at end of file.
  \<^item> \<open>atoi_val\<close> is the value \<^verbatim>\<open>atoi\<close> denotes (white space, an optional sign, decimal
    digits); \<open>atoi\<close> returns it when it is a value of \<^verbatim>\<open>int\<close> and \<open>None\<close> otherwise,
    where C leaves the behaviour undefined.
  \<^item> \<open>show_int\<close> is what \<^verbatim>\<open>%d\<close> prints; \<open>snprintf n s\<close> keeps the first \<open>n - 1\<close> bytes.

  The lemmas: \<open>fgets\<close> splits the stream and makes progress, \<open>atoi_val\<close> inverts
  \<open>show_int\<close>, \<open>show_int\<close> is injective and at most 11 bytes long on \<^verbatim>\<open>int\<close>.
\<close>

abbreviation NUL :: char where "NUL \<equiv> CHR 0x00"
abbreviation LF :: char where "LF \<equiv> CHR 0x0A"
abbreviation CR :: char where "CR \<equiv> CHR 0x0D"

definition cstr :: "string \<Rightarrow> string" where
  "cstr buf = takeWhile (\<lambda>c. c \<noteq> NUL) buf"

definition strlen :: "string \<Rightarrow> nat" where
  "strlen s = length s"

definition strcspn :: "string \<Rightarrow> string \<Rightarrow> nat" where
  "strcspn s reject = length (takeWhile (\<lambda>c. c \<notin> set reject) s)"

definition strchr :: "string \<Rightarrow> char \<Rightarrow> nat option" where
  "strchr s c = (if c \<in> set s then Some (length (takeWhile (\<lambda>d. d \<noteq> c) s)) else None)"

definition char_at :: "string \<Rightarrow> nat \<Rightarrow> char" where
  "char_at s i = (if i < length s then s ! i else NUL)"

definition strncpy :: "string \<Rightarrow> nat \<Rightarrow> string" where
  "strncpy src n = take n src"

subsection \<open>Reading lines\<close>

fun fgets_take :: "nat \<Rightarrow> string \<Rightarrow> string \<times> string" where
  "fgets_take 0 s = ([], s)"
| "fgets_take (Suc k) [] = ([], [])"
| "fgets_take (Suc k) (c # s) =
     (if c = LF then ([c], s) else (case fgets_take k s of (l, r) \<Rightarrow> (c # l, r)))"

definition fgets :: "nat \<Rightarrow> string \<Rightarrow> (string \<times> string) option" where
  "fgets n s = (if s = [] then None else Some (fgets_take (n - 1) s))"

subsection \<open>Numbers\<close>

definition isspace :: "char \<Rightarrow> bool" where
  "isspace c \<longleftrightarrow> c = CHR '' '' \<or> (9 \<le> (of_char c :: nat) \<and> (of_char c :: nat) \<le> 13)"

definition isdigit :: "char \<Rightarrow> bool" where
  "isdigit c \<longleftrightarrow> 48 \<le> (of_char c :: nat) \<and> (of_char c :: nat) \<le> 57"

definition digit_val :: "char \<Rightarrow> int" where
  "digit_val c = int (of_char c) - 48"

definition digit_char :: "nat \<Rightarrow> char" where
  "digit_char d = ''0123456789'' ! d"

fun atoi_digits :: "int \<Rightarrow> string \<Rightarrow> int" where
  "atoi_digits acc [] = acc"
| "atoi_digits acc (c # s) = (if isdigit c then atoi_digits (acc * 10 + digit_val c) s else acc)"

definition atoi_val :: "string \<Rightarrow> int" where
  "atoi_val s =
     (case dropWhile isspace s of
        [] \<Rightarrow> 0
      | c # t \<Rightarrow> if c = CHR ''-'' then - atoi_digits 0 t
                else if c = CHR ''+'' then atoi_digits 0 t
                else atoi_digits 0 (c # t))"

definition atoi :: "string \<Rightarrow> int option" where
  "atoi s = (if is_cint (atoi_val s) then Some (atoi_val s) else None)"

fun show_nat :: "nat \<Rightarrow> string" where
  "show_nat n = (if n < 10 then [digit_char n] else show_nat (n div 10) @ [digit_char (n mod 10)])"

definition show_int :: "int \<Rightarrow> string" where
  "show_int i = (if i < 0 then CHR ''-'' # show_nat (nat (- i)) else show_nat (nat i))"

definition snprintf :: "nat \<Rightarrow> string \<Rightarrow> string" where
  "snprintf n s = take (n - 1) s"

declare show_nat.simps [simp del]

subsection \<open>Strings\<close>

lemma cstr_no_NUL [simp]: "NUL \<notin> set (cstr buf)"
  by (auto simp: cstr_def dest: set_takeWhileD)

lemma cstr_idem [simp]: "cstr (cstr buf) = cstr buf"
  by (simp add: cstr_def)

lemma cstr_id: "NUL \<notin> set s \<Longrightarrow> cstr s = s"
  by (auto simp: cstr_def)

lemma cstr_length_le: "length (cstr buf) \<le> length buf"
  by (simp add: cstr_def length_takeWhile_le)

lemma strcspn_le: "strcspn s reject \<le> length s"
  by (simp add: strcspn_def length_takeWhile_le)

lemma take_strcspn: "take (strcspn s reject) s = takeWhile (\<lambda>c. c \<notin> set reject) s"
  by (simp add: strcspn_def)

lemma strchr_None_iff: "strchr s c = None \<longleftrightarrow> c \<notin> set s"
  by (simp add: strchr_def)

lemma strchr_Some:
  assumes "strchr s c = Some k"
  shows "k < length s \<and> s ! k = c \<and> c \<notin> set (take k s) \<and> take k s = takeWhile (\<lambda>d. d \<noteq> c) s"
proof -
  from assms have c: "c \<in> set s" and k: "k = length (takeWhile (\<lambda>d. d \<noteq> c) s)"
    by (auto simp: strchr_def split: if_splits)
  from c have lt: "length (takeWhile (\<lambda>d. d \<noteq> c) s) < length s"
    by (simp add: length_takeWhile_less_mem)
  have tk: "take k s = takeWhile (\<lambda>d. d \<noteq> c) s"
    by (simp add: k)
  from lt have "s ! k = c"
    unfolding k using nth_length_takeWhile [of "\<lambda>d. d \<noteq> c" s] by simp
  moreover have "c \<notin> set (take k s)"
    unfolding tk by (auto dest: set_takeWhileD)
  ultimately show ?thesis using lt k tk by simp
qed

lemma strchr_split:
  "strchr s c = Some k \<Longrightarrow> s = take k s @ c # drop (Suc k) s"
  by (metis strchr_Some id_take_nth_drop)

lemma strchr_append [simp]:
  "c \<notin> set a \<Longrightarrow> strchr (a @ c # b) c = Some (length a)"
  by (simp add: strchr_def)

lemma char_at_simps [simp]:
  "char_at [] i = NUL" "char_at (c # s) 0 = c"
  by (simp_all add: char_at_def)

subsection \<open>fgets\<close>

lemma fgets_take_append: "fgets_take k s = (l, r) \<Longrightarrow> l @ r = s"
  by (induction k s arbitrary: l r rule: fgets_take.induct) (auto split: if_splits prod.splits)

lemma fgets_take_length: "fgets_take k s = (l, r) \<Longrightarrow> length l \<le> k"
  by (induction k s arbitrary: l r rule: fgets_take.induct) (auto split: if_splits prod.splits)

lemma fgets_take_nonempty: "fgets_take (Suc k) (c # s) = (l, r) \<Longrightarrow> l \<noteq> []"
  by (auto split: if_splits prod.splits)

lemma fgets_take_LF:
  "fgets_take k s = (l, r) \<Longrightarrow> LF \<notin> set (butlast l)"
  by (induction k s arbitrary: l r rule: fgets_take.induct) (auto split: if_splits prod.splits)

lemma fgets_take_line:
  "LF \<notin> set a \<Longrightarrow> length a < k \<Longrightarrow> fgets_take k (a @ LF # s) = (a @ [LF], s)"
  by (induction k "a @ LF # s" arbitrary: a rule: fgets_take.induct) (auto simp: Cons_eq_append_conv)

lemma fgets_take_last:
  "LF \<notin> set a \<Longrightarrow> length a \<le> k \<Longrightarrow> fgets_take k a = (a, [])"
  by (induction k a rule: fgets_take.induct) auto

lemma fgets_None_iff [simp]: "fgets n s = None \<longleftrightarrow> s = []"
  by (simp add: fgets_def)

lemma fgets_Some_append: "fgets n s = Some (l, r) \<Longrightarrow> l @ r = s"
  by (auto simp: fgets_def fgets_take_append split: if_splits)

lemma fgets_Some_length: "fgets n s = Some (l, r) \<Longrightarrow> length l \<le> n - 1"
  by (auto simp: fgets_def fgets_take_length split: if_splits)

lemma fgets_progress:
  assumes "fgets n s = Some (l, r)" and "2 \<le> n"
  shows "length r < length s"
proof -
  from assms obtain c t k where s: "s = c # t" and n: "n - 1 = Suc k"
    by (cases s; cases "n - 1") (auto simp: fgets_def)
  with assms(1) have "fgets_take (Suc k) (c # t) = (l, r)"
    by (simp add: fgets_def)
  then have "l \<noteq> []" and "l @ r = c # t"
    by (rule fgets_take_nonempty, rule fgets_take_append)
  with s show ?thesis
    by (cases l) (auto simp: Cons_eq_append_conv)
qed

lemma fgets_line:
  "LF \<notin> set a \<Longrightarrow> Suc (length a) < n \<Longrightarrow> fgets n (a @ LF # s) = Some (a @ [LF], s)"
  by (simp add: fgets_def fgets_take_line)

lemma fgets_last:
  "LF \<notin> set a \<Longrightarrow> a \<noteq> [] \<Longrightarrow> length a < n \<Longrightarrow> fgets n a = Some (a, [])"
  by (simp add: fgets_def fgets_take_last)

subsection \<open>Digits\<close>

lemma digit_cases: "d < 10 \<Longrightarrow> d \<in> {0, 1, 2, 3, 4, 5, 6, 7, 8, 9}" for d :: nat
  by auto

lemma of_char_digit_char [simp]: "d < 10 \<Longrightarrow> (of_char (digit_char d) :: nat) = 48 + d"
  by (drule digit_cases) (auto simp: digit_char_def)

lemma isdigit_digit_char [simp]: "d < 10 \<Longrightarrow> isdigit (digit_char d)"
  by (simp add: isdigit_def)

lemma digit_val_digit_char [simp]: "d < 10 \<Longrightarrow> digit_val (digit_char d) = int d"
  by (simp add: digit_val_def)

lemma not_isspace_digit_char [simp]: "d < 10 \<Longrightarrow> \<not> isspace (digit_char d)"
  by (drule digit_cases) (auto simp: isspace_def digit_char_def)

lemma isdigit_not_sign: "isdigit c \<Longrightarrow> \<not> isspace c \<and> c \<noteq> CHR ''-'' \<and> c \<noteq> CHR ''+''"
  by (auto simp: isdigit_def isspace_def)

subsection \<open>Printing and parsing integers\<close>

lemma show_nat_nonempty [simp]: "show_nat n \<noteq> []"
  by (subst show_nat.simps) simp

lemma show_nat_digits: "c \<in> set (show_nat n) \<Longrightarrow> isdigit c"
  by (induction n rule: show_nat.induct) (subst (asm) show_nat.simps, auto split: if_splits)

lemma atoi_digits_append:
  "\<forall>c \<in> set a. isdigit c \<Longrightarrow> atoi_digits acc (a @ b) = atoi_digits (atoi_digits acc a) b"
  by (induction a arbitrary: acc) auto

lemma atoi_digits_show_nat:
  "atoi_digits acc (show_nat n) = acc * 10 ^ length (show_nat n) + int n"
proof (induction n arbitrary: acc rule: show_nat.induct)
  case (1 n)
  show ?case
  proof (cases "n < 10")
    case True
    then show ?thesis by (subst (1 2) show_nat.simps) simp
  next
    case False
    have "atoi_digits acc (show_nat n) =
        atoi_digits acc (show_nat (n div 10) @ [digit_char (n mod 10)])"
      using False by (subst show_nat.simps) simp
    also have "\<dots> = atoi_digits (atoi_digits acc (show_nat (n div 10))) [digit_char (n mod 10)]"
      by (simp add: atoi_digits_append show_nat_digits)
    also have "\<dots> = (acc * 10 ^ length (show_nat (n div 10)) + int (n div 10)) * 10 + int (n mod 10)"
      using False by (simp add: "1.IH")
    also have "\<dots> = acc * 10 ^ length (show_nat n) + int n"
      using False by (subst (2) show_nat.simps) (simp add: algebra_simps zdiv_int zmod_int)
    finally show ?thesis .
  qed
qed

lemma atoi_val_show_nat: "atoi_val (show_nat n) = int n"
proof -
  obtain c t where ct: "show_nat n = c # t" by (cases "show_nat n") simp_all
  then have "isdigit c" using show_nat_digits [of c n] by simp
  then have "\<not> isspace c \<and> c \<noteq> CHR ''-'' \<and> c \<noteq> CHR ''+''"
    by (rule isdigit_not_sign)
  with ct have "atoi_val (show_nat n) = atoi_digits 0 (show_nat n)"
    by (simp add: atoi_val_def)
  then show ?thesis by (simp add: atoi_digits_show_nat)
qed

lemma atoi_val_show_int [simp]: "atoi_val (show_int i) = i"
  by (simp add: show_int_def atoi_val_show_nat)
    (simp add: atoi_val_def isspace_def atoi_digits_show_nat)

lemma atoi_digits_stop:
  assumes "\<forall>c \<in> set a. isdigit c" and "\<not> isdigit x"
  shows "atoi_digits acc (a @ x # r) = atoi_digits acc a"
  using assms by (simp add: atoi_digits_append)

lemma atoi_val_show_nat_stop:
  assumes "\<not> isdigit x"
  shows "atoi_val (show_nat n @ x # r) = int n"
proof -
  obtain c t where ct: "show_nat n = c # t" by (cases "show_nat n") simp_all
  then have "isdigit c" using show_nat_digits [of c n] by simp
  then have "\<not> isspace c \<and> c \<noteq> CHR ''-'' \<and> c \<noteq> CHR ''+''"
    by (rule isdigit_not_sign)
  with ct have "atoi_val (show_nat n @ x # r) = atoi_digits 0 (show_nat n @ x # r)"
    by (simp add: atoi_val_def)
  also from assms have "\<dots> = atoi_digits 0 (show_nat n)"
    by (intro atoi_digits_stop) (auto dest: show_nat_digits)
  finally show ?thesis by (simp add: atoi_digits_show_nat)
qed

lemma atoi_val_show_int_stop:
  assumes "\<not> isdigit x"
  shows "atoi_val (show_int i @ x # r) = i"
proof (cases "i < 0")
  case True
  from assms have "atoi_digits 0 (show_nat (nat (- i)) @ x # r) = atoi_digits 0 (show_nat (nat (- i)))"
    by (intro atoi_digits_stop) (auto dest: show_nat_digits)
  with True show ?thesis
    by (simp add: show_int_def atoi_val_def isspace_def atoi_digits_show_nat)
next
  case False
  with atoi_val_show_nat_stop [OF assms, of "nat i" r] show ?thesis
    by (simp add: show_int_def)
qed

lemma show_int_inj: "show_int i = show_int j \<Longrightarrow> i = j"
  by (metis atoi_val_show_int)

lemma atoi_show_int: "is_cint i \<Longrightarrow> atoi (show_int i) = Some i"
  by (simp add: atoi_def)

lemma atoi_Some_cint: "atoi s = Some i \<Longrightarrow> is_cint i"
  by (auto simp: atoi_def split: if_splits)

lemma length_show_nat_le: "n < 10 ^ k \<Longrightarrow> 0 < k \<Longrightarrow> length (show_nat n) \<le> k"
proof (induction n arbitrary: k rule: show_nat.induct)
  case (1 n)
  show ?case
  proof (cases "n < 10")
    case True
    with "1.prems" show ?thesis by (subst show_nat.simps) simp
  next
    case False
    with "1.prems" obtain j where k: "k = Suc j" and j: "0 < j"
      by (cases k; cases "k - 1") auto
    with "1.prems" have "n div 10 < 10 ^ j"
      by (simp add: less_mult_imp_div_less mult.commute)
    with False j have "length (show_nat (n div 10)) \<le> j" by (intro "1.IH") simp_all
    with False k show ?thesis by (subst show_nat.simps) simp
  qed
qed

lemma length_show_int_le:
  assumes "is_cint i"
  shows "length (show_int i) \<le> 11"
proof -
  from assms have "nat i < 10 ^ 10" and "nat (- i) < 10 ^ 10"
    by (auto dest!: is_cintD)
  then have "length (show_nat (nat i)) \<le> 10" and "length (show_nat (nat (- i))) \<le> 10"
    by (simp_all add: length_show_nat_le)
  then show ?thesis by (simp add: show_int_def)
qed

lemma show_int_no_NUL [simp]: "NUL \<notin> set (show_int i)"
  by (auto simp: show_int_def isdigit_def dest!: show_nat_digits)

lemma show_int_nonempty [simp]: "show_int i \<noteq> []"
  by (simp add: show_int_def)

lemma length_show_int_pos [simp]: "0 < length (show_int i)"
  by simp

lemma snprintf_fits: "length s < n \<Longrightarrow> snprintf n s = s"
  by (simp add: snprintf_def)

lemmas c_string_eval [gp_eval] =
  show_int_def show_nat.simps digit_char_def atoi_def atoi_val_def isspace_def isdigit_def
  digit_val_def snprintf_def cstr_def strlen_def strcspn_def strchr_def strncpy_def fgets_def

subsection \<open>Properties\<close>

text \<open>
  C40 (termination). What one successful call of \<^verbatim>\<open>fgets\<close> with a buffer of at least two bytes
  does to the stream: the buffer and the unread rest make up the stream that was there, the
  buffer is not empty and holds at most \<open>n - 1\<close> bytes, a line feed can only be its last
  byte, and the rest is shorter than before. The last fact is why the loop over \<^verbatim>\<open>fgets\<close>
  ends.
\<close>

theorem fgets_chunk:
  assumes "fgets n s = Some (l, r)" and "2 \<le> n"
  shows "l @ r = s \<and> l \<noteq> [] \<and> length l \<le> n - 1 \<and> LF \<notin> set (butlast l) \<and> length r < length s"
proof -
  from assms(1) have a: "l @ r = s" and b: "length l \<le> n - 1"
    by (rule fgets_Some_append, rule fgets_Some_length)
  from assms have c: "length r < length s"
    by (rule fgets_progress)
  from assms(1) have "fgets_take (n - 1) s = (l, r)"
    by (simp add: fgets_def split: if_splits)
  then have "LF \<notin> set (butlast l)"
    by (rule fgets_take_LF)
  with a b c show ?thesis by auto
qed

theorem fgets_chunk_witness:
  "fgets 128 ''A=17\<newline>B=27\<newline>'' = Some (''A=17\<newline>'', ''B=27\<newline>'') \<and>
   length ''B=27\<newline>'' < length ''A=17\<newline>B=27\<newline>''"
  using fgets_chunk [of 128 "''A=17\<newline>B=27\<newline>''" "''A=17\<newline>''" "''B=27\<newline>''"]
    fgets_line [of "''A=17''" 128 "''B=27\<newline>''"]
  by simp

text \<open>
  \<^verbatim>\<open>atoi\<close> reads back what \<^verbatim>\<open>%d\<close> prints: for every value of \<^verbatim>\<open>int\<close>, the
  decimal text of the value has between 1 and 11 characters and \<^verbatim>\<open>atoi\<close> of it is defined
  and is the value.
\<close>

theorem atoi_print:
  assumes "is_cint i"
  shows "atoi (show_int i) = Some i \<and> 0 < length (show_int i) \<and> length (show_int i) \<le> 11"
  using assms by (simp add: atoi_show_int length_show_int_le)

theorem atoi_print_witness:
  "is_cint (- 2147483648) \<and> show_int (- 2147483648) = ''-2147483648'' \<and>
   atoi ''-2147483648'' = Some (- 2147483648)"
  using atoi_print [of "- 2147483648"]
  by (simp add: is_cint_def gp_consts show_int_def show_nat.simps digit_char_def)

text \<open>
  What is no number reads as zero. A text that does not start with white space, a sign or
  a digit is no number, and \<^verbatim>\<open>atoi\<close> returns 0 for it without reporting anything: a line of the
  configuration with such a value binds the button to line 0.
\<close>

theorem atoi_no_number:
  assumes "\<not> isspace c" and "\<not> isdigit c" and "c \<noteq> CHR ''-''" and "c \<noteq> CHR ''+''"
  shows "atoi (c # s) = Some 0"
  using assms by (simp add: atoi_def atoi_val_def)

theorem atoi_no_number_witness: "atoi ''x12'' = Some 0"
  using atoi_no_number [of "CHR ''x''" "''12''"]
  by (simp add: isspace_def isdigit_def)

end
