(* ===== verification/Sys_World.thy ===== *)
theory Sys_World
  imports Linux_Input C_String
begin

text \<open>
  The interface between the driver and its environment. Every library or system call of
  \<^verbatim>\<open>src/gamepad_driver.c\<close> that touches the outside world is one operation of the state
  monad over a \<open>world\<close>:

  \<^item> \<open>trace\<close> is the list of calls made so far, oldest first, each with its arguments:
    what an observer of the process sees.
  \<^item> \<open>env\<close> answers the calls whose result the driver reads (\<^verbatim>\<open>fopen\<close>, \<^verbatim>\<open>access\<close>,
    \<^verbatim>\<open>open\<close>, \<^verbatim>\<open>read\<close>, the SPI transfer, \<^verbatim>\<open>gettimeofday\<close>). An answer may depend on the
    arguments and on the time \<open>now\<close>, the number of calls made before: the environment is
    arbitrary but deterministic. No theorem assumes anything about the answers unless it
    says so.
  \<^item> Calls whose result the driver ignores (\<^verbatim>\<open>write\<close>, \<^verbatim>\<open>close\<close>, \<^verbatim>\<open>usleep\<close>, the other
    \<^verbatim>\<open>ioctl\<close>s, \<^verbatim>\<open>printf\<close>, \<^verbatim>\<open>fclose\<close>) take their result from the answer \<open>status\<close> of the
    environment (\<open>call_status\<close>) and drop it, as the expression statement of the source does
    (\<open>discard\<close>); \<^verbatim>\<open>perror\<close> returns nothing.

  \<^verbatim>\<open>fopen\<close> answers with the content of the file (or \<open>None\<close> for a null pointer); the
  stream is then read with \<open>fgets\<close> of theory \<open>C_String\<close>. \<open>world\<close> is an extensible
  record: the driver's global variables extend it in theory \<open>Button_Config\<close>, and the
  operations here work on every extension.

  \<open>logs\<close> appends a list of calls to the trace, as \<open>log\<close> appends one.
  \<open>quiet_env\<close> is the environment in which every call fails; the closed instances of the
  theorems start from it and change the answers they need.

  \<open>exec\<close> and \<open>eval\<close> project a run on its final world and on its result;
  \<open>for_each\<close> is a C \<^verbatim>\<open>for\<close> loop over a list of indices. The lemma collection \<open>sys_run\<close>
  holds the characteristic equation of each operation.
\<close>

named_theorems sys_run "characteristic equations of the system calls"

datatype oflag = O_RDONLY | O_WRONLY | O_RDWR | O_NONBLOCK

datatype payload =
    Bytes string
  | Event input_event
  | User_dev uinput_user_dev

datatype sys_call =
    Fopen string string
  | Fclose
  | Perror string
  | Printf string
  | Access string
  | Open string "oflag list"
  | Close int
  | Read int nat
  | Write int payload
  | Ioctl int ioctl_req
  | Usleep nat
  | Gettimeofday

record environment =
  fopen_file :: "nat \<Rightarrow> string \<Rightarrow> string option"
  access_ok :: "nat \<Rightarrow> string \<Rightarrow> bool"
  open_fd :: "nat \<Rightarrow> string \<Rightarrow> int"
  read_byte :: "nat \<Rightarrow> int \<Rightarrow> char option"
  spi_rx :: "nat \<Rightarrow> int \<Rightarrow> u8 list \<Rightarrow> (u8 \<times> u8 \<times> u8) option"
  clock :: "nat \<Rightarrow> timeval"
  status :: "nat \<Rightarrow> int"

record world =
  env :: environment
  trace :: "sys_call list"

definition quiet_env :: environment where
  "quiet_env =
     \<lparr>fopen_file = (\<lambda>_ _. None), access_ok = (\<lambda>_ _. False), open_fd = (\<lambda>_ _. - 1),
      read_byte = (\<lambda>_ _. None), spi_rx = (\<lambda>_ _ _. None),
      clock = (\<lambda>_. \<lparr>tv_sec = 0, tv_usec = 0\<rparr>), status = (\<lambda>_. - 1)\<rparr>"

definition idle_env :: environment where
  "idle_env = quiet_env\<lparr>open_fd := \<lambda>_ _. 3\<rparr>"

definition now :: "'a world_scheme \<Rightarrow> nat" where
  "now w = length (trace w)"

definition log :: "sys_call \<Rightarrow> 'a world_scheme \<Rightarrow> 'a world_scheme" where
  "log c w = w\<lparr>trace := trace w @ [c]\<rparr>"

definition logs :: "sys_call list \<Rightarrow> 'a world_scheme \<Rightarrow> 'a world_scheme" where
  "logs cs w = w\<lparr>trace := trace w @ cs\<rparr>"

definition exec :: "('s, 'a) state \<Rightarrow> 's \<Rightarrow> 's" where
  "exec m w = snd (run_state m w)"

definition eval :: "('s, 'a) state \<Rightarrow> 's \<Rightarrow> 'a" where
  "eval m w = fst (run_state m w)"

fun for_each :: "'i list \<Rightarrow> ('i \<Rightarrow> ('s, unit) state) \<Rightarrow> ('s, unit) state" where
  "for_each [] body = State_Monad.return ()"
| "for_each (i # is) body = do { body i; for_each is body }"

subsection \<open>The calls\<close>

definition call_status :: "sys_call \<Rightarrow> ('a world_scheme, int) state" where
  "call_status c = State (\<lambda>w. (status (env w) (now w), log c w))"

definition discard :: "('s, 'a) state \<Rightarrow> ('s, unit) state" where
  "discard m = do { r \<leftarrow> m; State_Monad.return () }"

definition sys_fopen :: "string \<Rightarrow> string \<Rightarrow> ('a world_scheme, string option) state" where
  "sys_fopen path mode = State (\<lambda>w. (fopen_file (env w) (now w) path, log (Fopen path mode) w))"

definition sys_fclose :: "('a world_scheme, unit) state" where
  "sys_fclose = discard (call_status Fclose)"

definition sys_perror :: "string \<Rightarrow> ('a world_scheme, unit) state" where
  "sys_perror msg = State (\<lambda>w. ((), log (Perror msg) w))"

definition sys_printf :: "string \<Rightarrow> ('a world_scheme, unit) state" where
  "sys_printf s = discard (call_status (Printf s))"

definition sys_access :: "string \<Rightarrow> ('a world_scheme, bool) state" where
  "sys_access path = State (\<lambda>w. (access_ok (env w) (now w) path, log (Access path) w))"

definition sys_open :: "string \<Rightarrow> oflag list \<Rightarrow> ('a world_scheme, int) state" where
  "sys_open path flags = State (\<lambda>w. (open_fd (env w) (now w) path, log (Open path flags) w))"

definition sys_close :: "int \<Rightarrow> ('a world_scheme, unit) state" where
  "sys_close fd = discard (call_status (Close fd))"

definition sys_read1 :: "int \<Rightarrow> ('a world_scheme, char option) state" where
  "sys_read1 fd = State (\<lambda>w. (read_byte (env w) (now w) fd, log (Read fd 1) w))"

definition sys_write :: "int \<Rightarrow> payload \<Rightarrow> ('a world_scheme, unit) state" where
  "sys_write fd p = discard (call_status (Write fd p))"

definition sys_ioctl :: "int \<Rightarrow> ioctl_req \<Rightarrow> ('a world_scheme, unit) state" where
  "sys_ioctl fd req = discard (call_status (Ioctl fd req))"

definition sys_spi_message ::
    "int \<Rightarrow> spi_ioc_transfer \<Rightarrow> ('a world_scheme, (u8 \<times> u8 \<times> u8) option) state" where
  "sys_spi_message fd tr =
     State (\<lambda>w. (spi_rx (env w) (now w) fd (tr_tx_buf tr), log (Ioctl fd (SPI_IOC_MESSAGE tr)) w))"

definition sys_usleep :: "nat \<Rightarrow> ('a world_scheme, unit) state" where
  "sys_usleep us = discard (call_status (Usleep us))"

definition sys_gettimeofday :: "('a world_scheme, timeval) state" where
  "sys_gettimeofday = State (\<lambda>w. (clock (env w) (now w), log Gettimeofday w))"

subsection \<open>Observations of a trace\<close>

fun written :: "int \<Rightarrow> sys_call \<Rightarrow> payload option" where
  "written fd (Write fd' p) = (if fd' = fd then Some p else None)"
| "written fd _ = None"

definition writes_to :: "int \<Rightarrow> sys_call list \<Rightarrow> payload list" where
  "writes_to fd t = List.map_filter (written fd) t"

fun event_of :: "payload \<Rightarrow> input_event option" where
  "event_of (Event e) = Some e"
| "event_of _ = None"

definition events_to :: "int \<Rightarrow> sys_call list \<Rightarrow> input_event list" where
  "events_to fd t = List.map_filter event_of (writes_to fd t)"

subsection \<open>The log\<close>

lemma trace_log [simp]: "trace (log c w) = trace w @ [c]"
  by (simp add: log_def)

lemma env_log [simp]: "env (log c w) = env w"
  by (simp add: log_def)

lemma now_log [simp]: "now (log c w) = Suc (now w)"
  by (simp add: now_def)

lemma more_log [simp]: "world.more (log c w) = world.more w"
  by (simp add: log_def)

lemma trace_logs [simp]: "trace (logs cs w) = trace w @ cs"
  and env_logs [simp]: "env (logs cs w) = env w"
  and more_logs [simp]: "world.more (logs cs w) = world.more w"
  and now_logs [simp]: "now (logs cs w) = now w + length cs"
  by (simp_all add: logs_def now_def)

lemma logs_Nil [simp]: "logs [] w = w"
  and logs_logs [simp]: "logs cs (logs ds w) = logs (ds @ cs) w"
  and logs_log [simp]: "logs cs (log c w) = logs (c # cs) w"
  and log_logs [simp]: "log c (logs cs w) = logs (cs @ [c]) w"
  by (simp_all add: logs_def log_def)

lemma log_eq_logs: "log c w = logs [c] w"
  by (simp add: logs_def log_def)

lemma quiet_env_simps [simp]:
  "fopen_file quiet_env n p = None" "access_ok quiet_env n p = False" "open_fd quiet_env n p = - 1"
  "read_byte quiet_env n fd = None" "spi_rx quiet_env n fd tx = None"
  "clock quiet_env n = \<lparr>tv_sec = 0, tv_usec = 0\<rparr>" "status quiet_env n = - 1"
  by (simp_all add: quiet_env_def)

lemma idle_env_simps [simp]:
  "fopen_file idle_env n p = None" "access_ok idle_env n p = False" "open_fd idle_env n p = 3"
  "read_byte idle_env n fd = None" "spi_rx idle_env n fd tx = None"
  "clock idle_env n = \<lparr>tv_sec = 0, tv_usec = 0\<rparr>" "status idle_env n = - 1"
  by (simp_all add: idle_env_def)

subsection \<open>Running the monad\<close>

lemma exec_return [simp]: "exec (State_Monad.return x) w = w"
  and eval_return [simp]: "eval (State_Monad.return x) w = x"
  by (simp_all add: exec_def eval_def)

lemma exec_bind: "exec (State_Monad.bind m f) w = exec (f (eval m w)) (exec m w)"
  and eval_bind: "eval (State_Monad.bind m f) w = eval (f (eval m w)) (exec m w)"
  by (simp_all add: exec_def eval_def split: prod.splits)

lemma run_state_exec_eval: "run_state m w = (eval m w, exec m w)"
  by (simp add: exec_def eval_def)

lemma exec_if: "exec (if b then m else n) w = (if b then exec m w else exec n w)"
  and eval_if: "eval (if b then m else n) w = (if b then eval m w else eval n w)"
  by simp_all

lemma sys_run_state [sys_run]:
  "run_state (sys_fopen path mode) w = (fopen_file (env w) (now w) path, log (Fopen path mode) w)"
  "run_state sys_fclose w = ((), log Fclose w)"
  "run_state (sys_perror msg) w = ((), log (Perror msg) w)"
  "run_state (sys_printf s) w = ((), log (Printf s) w)"
  "run_state (sys_access path) w = (access_ok (env w) (now w) path, log (Access path) w)"
  "run_state (sys_open path flags) w = (open_fd (env w) (now w) path, log (Open path flags) w)"
  "run_state (sys_close fd) w = ((), log (Close fd) w)"
  "run_state (sys_read1 fd) w = (read_byte (env w) (now w) fd, log (Read fd 1) w)"
  "run_state (sys_write fd p) w = ((), log (Write fd p) w)"
  "run_state (sys_ioctl fd req) w = ((), log (Ioctl fd req) w)"
  "run_state (sys_spi_message fd tr) w =
     (spi_rx (env w) (now w) fd (tr_tx_buf tr), log (Ioctl fd (SPI_IOC_MESSAGE tr)) w)"
  "run_state (sys_usleep us) w = ((), log (Usleep us) w)"
  "run_state sys_gettimeofday w = (clock (env w) (now w), log Gettimeofday w)"
  by (simp_all add: sys_fopen_def sys_fclose_def sys_perror_def sys_printf_def sys_access_def
      sys_open_def sys_close_def sys_read1_def sys_write_def sys_ioctl_def sys_spi_message_def
      sys_usleep_def sys_gettimeofday_def call_status_def discard_def)

subsection \<open>Loops\<close>

lemma for_each_append:
  "for_each (is @ js) body = do { for_each is body; for_each js body }"
  by (induction "is") simp_all

declare for_each.simps [simp del]

lemma exec_for_each_Nil [simp]: "exec (for_each [] body) w = w"
  by (simp add: for_each.simps)

lemma exec_for_each_Cons [simp]:
  "exec (for_each (i # is) body) w = exec (for_each is body) (exec (body i) w)"
  by (simp add: for_each.simps exec_bind)

lemma run_state_for_each [sys_run]:
  "run_state (for_each [] body) w = ((), w)"
  "run_state (for_each (i # is) body) w = run_state (for_each is body) (exec (body i) w)"
  by (simp_all add: for_each.simps exec_def split: prod.splits)

lemma exec_for_each_append:
  "exec (for_each (is @ js) body) w = exec (for_each js body) (exec (for_each is body) w)"
  by (simp add: for_each_append exec_bind)

lemma for_each_invariant:
  assumes "P w" and "\<And>i w. i \<in> set is \<Longrightarrow> P w \<Longrightarrow> P (exec (body i) w)"
  shows "P (exec (for_each is body) w)"
  using assms by (induction "is" arbitrary: w) simp_all

subsection \<open>Observations\<close>

lemma writes_to_Nil [simp]: "writes_to fd [] = []"
  by (simp add: writes_to_def)

lemma writes_to_append [simp]: "writes_to fd (s @ t) = writes_to fd s @ writes_to fd t"
  by (simp add: writes_to_def map_filter_def)

lemma writes_to_Cons: "writes_to fd (c # t) = (case written fd c of None \<Rightarrow> [] | Some p \<Rightarrow> [p]) @ writes_to fd t"
  by (simp add: writes_to_def split: option.splits)

lemma writes_to_single [simp]:
  "writes_to fd [Write fd' p] = (if fd' = fd then [p] else [])"
  "writes_to fd [Fopen path mode] = []"
  "writes_to fd [Fclose] = []"
  "writes_to fd [Perror msg] = []"
  "writes_to fd [Printf s] = []"
  "writes_to fd [Access path] = []"
  "writes_to fd [Open path flags] = []"
  "writes_to fd [Close fd'] = []"
  "writes_to fd [Read fd' n] = []"
  "writes_to fd [Ioctl fd' req] = []"
  "writes_to fd [Usleep us] = []"
  "writes_to fd [Gettimeofday] = []"
  by (simp_all add: writes_to_def)

lemma events_to_Nil [simp]: "events_to fd [] = []"
  by (simp add: events_to_def)

lemma events_to_append [simp]: "events_to fd (s @ t) = events_to fd s @ events_to fd t"
  by (simp add: events_to_def map_filter_def)

lemma events_to_single [simp]:
  "events_to fd [Write fd' (Event e)] = (if fd' = fd then [e] else [])"
  "events_to fd [Write fd' (Bytes b)] = []"
  "events_to fd [Write fd' (User_dev d)] = []"
  "events_to fd [Fopen path mode] = []"
  "events_to fd [Fclose] = []"
  "events_to fd [Perror msg] = []"
  "events_to fd [Printf s] = []"
  "events_to fd [Access path] = []"
  "events_to fd [Open path flags] = []"
  "events_to fd [Close fd'] = []"
  "events_to fd [Read fd' n] = []"
  "events_to fd [Ioctl fd' req] = []"
  "events_to fd [Usleep us] = []"
  "events_to fd [Gettimeofday] = []"
  by (simp_all add: events_to_def)

lemma events_to_Cons: "events_to fd (c # t) = events_to fd [c] @ events_to fd t"
  using events_to_append [of fd "[c]" t] by simp

lemma events_to_Cons_simps [simp]:
  "events_to fd (Write fd' (Event e) # t) = (if fd' = fd then e # events_to fd t else events_to fd t)"
  "events_to fd (Write fd' (Bytes b) # t) = events_to fd t"
  "events_to fd (Write fd' (User_dev d) # t) = events_to fd t"
  "events_to fd (Fopen path mode # t) = events_to fd t"
  "events_to fd (Fclose # t) = events_to fd t"
  "events_to fd (Perror msg # t) = events_to fd t"
  "events_to fd (Printf s # t) = events_to fd t"
  "events_to fd (Access path # t) = events_to fd t"
  "events_to fd (Open path flags # t) = events_to fd t"
  "events_to fd (Close fd' # t) = events_to fd t"
  "events_to fd (Read fd' n # t) = events_to fd t"
  "events_to fd (Ioctl fd' req # t) = events_to fd t"
  "events_to fd (Usleep us # t) = events_to fd t"
  "events_to fd (Gettimeofday # t) = events_to fd t"
  by (simp_all add: events_to_Cons [of fd _ t])

end
