(* ===== verification/Axis_Scaler.thy ===== *)
theory Axis_Scaler
  imports Gamepad_Prelude
begin

text \<open>
  The axis scaler: \<^verbatim>\<open>scale_axis\<close> of \<^verbatim>\<open>src/gamepad_driver.c\<close> with the two constants it
  reads. The function is pure; its argument is the sample \<^verbatim>\<open>read_adc\<close> returns and
  \<open>invert\<close> is a C truth value (non-zero is true).

  The lemmas give the function on both branches, its range and its exact image on the
  half range \<open>[0, ADC_MAX)\<close> that the constants assume, its range on the full 12-bit range
  \<open>[0, 4095]\<close> that the converter delivers, monotonicity, the complement law of inversion,
  and the absence of signed overflow in the product \<^verbatim>\<open>val * UINPUT_AXIS_MAX\<close>, with the
  range of samples on which the integer model and the \<^verbatim>\<open>int\<close> arithmetic of the source
  agree.
\<close>

definition ADC_MAX :: int where
  [gp_consts]: "ADC_MAX = 2048"

definition UINPUT_AXIS_MAX :: int where
  [gp_consts]: "UINPUT_AXIS_MAX = 255"

definition scale_axis :: "int \<Rightarrow> int \<Rightarrow> int" where
  "scale_axis val invert =
     (let scaled = c_div (val * UINPUT_AXIS_MAX) ADC_MAX
      in if invert \<noteq> 0 then UINPUT_AXIS_MAX - scaled else scaled)"

subsection \<open>The two branches\<close>

lemma scale_axis_plain: "scale_axis val 0 = c_div (val * 255) 2048"
  by (simp add: scale_axis_def gp_consts)

lemma scale_axis_inverted:
  "invert \<noteq> 0 \<Longrightarrow> scale_axis val invert = 255 - c_div (val * 255) 2048"
  by (simp add: scale_axis_def gp_consts)

lemma scale_axis_nonneg_arg [gp_eval]:
  "0 \<le> val \<Longrightarrow> scale_axis val invert =
     (if invert \<noteq> 0 then 255 - val * 255 div 2048 else val * 255 div 2048)"
  by (simp add: scale_axis_def gp_consts)

subsection \<open>The scaled value against a bound\<close>

lemma scaled_le_iff: "val * 255 div 2048 \<le> k \<longleftrightarrow> val * 255 < (k + 1) * 2048" for val k :: int
  by (rule div_le_iff_int) simp

lemma scaled_ge_iff: "k \<le> val * 255 div 2048 \<longleftrightarrow> k * 2048 \<le> val * 255" for val k :: int
  by (rule div_ge_iff_int) simp

lemma scaled_half_range:
  "0 \<le> val \<Longrightarrow> val < 2048 \<Longrightarrow> 0 \<le> val * 255 div 2048 \<and> val * 255 div 2048 \<le> 254" for val :: int
  by (simp add: scaled_le_iff scaled_ge_iff)

lemma scaled_full_range:
  "0 \<le> val \<Longrightarrow> val \<le> 4095 \<Longrightarrow> 0 \<le> val * 255 div 2048 \<and> val * 255 div 2048 \<le> 509" for val :: int
  by (simp add: scaled_le_iff scaled_ge_iff)

lemma scale_axis_in_range_iff:
  assumes "0 \<le> val"
  shows "0 \<le> scale_axis val invert \<and> scale_axis val invert \<le> UINPUT_AXIS_MAX \<longleftrightarrow> val \<le> 2056"
proof -
  have "val * 255 < 256 * 2048 \<longleftrightarrow> val \<le> 2056" by linarith
  moreover from assms have "0 \<le> val * 255 div 2048"
    by (simp add: scaled_ge_iff)
  ultimately show ?thesis
    using assms by (auto simp: scale_axis_nonneg_arg gp_consts scaled_le_iff)
qed

subsection \<open>The image of the half range\<close>

lemma scale_axis_onto:
  assumes "0 \<le> v" and "v \<le> 254"
  shows "\<exists>val. 0 \<le> val \<and> val < ADC_MAX \<and> scale_axis val 0 = v"
proof (intro exI conjI)
  let ?r = "(v * 2048 + 254) div 255"
  from assms show r0: "0 \<le> ?r" by (simp add: div_ge_iff_int)
  from assms show "?r < ADC_MAX"
    using div_le_iff_int [of 255 "v * 2048 + 254" 2047] by (simp add: gp_consts)
  have lo: "v * 2048 \<le> ?r * 255"
    using div_le_iff_int [of 255 "v * 2048 + 254" "?r - 1"] div_ge_iff_int [of 255 "?r" "v * 2048 + 254"]
    by simp
  have hi: "?r * 255 \<le> v * 2048 + 254"
    using div_ge_iff_int [of 255 "?r" "v * 2048 + 254"] by simp
  from lo hi have "?r * 255 div 2048 = v"
    by (intro antisym) (simp_all add: scaled_le_iff scaled_ge_iff)
  with r0 show "scale_axis ?r 0 = v"
    by (simp add: scale_axis_nonneg_arg)
qed

lemma scale_axis_plain_image: "(\<lambda>val. scale_axis val 0) ` {0..<ADC_MAX} = {0..254}"
proof (intro equalityI subsetI)
  fix v assume "v \<in> (\<lambda>val. scale_axis val 0) ` {0..<ADC_MAX}"
  then obtain val where "0 \<le> val" "val < 2048" "v = scale_axis val 0"
    by (auto simp: gp_consts)
  with scaled_half_range [of val] show "v \<in> {0..254}"
    by (simp add: scale_axis_nonneg_arg)
next
  fix v :: int assume "v \<in> {0..254}"
  with scale_axis_onto [of v] show "v \<in> (\<lambda>val. scale_axis val 0) ` {0..<ADC_MAX}"
    by auto
qed

lemma complement_image: "(\<lambda>x. 255 - x) ` {0..254} = {1..255::int}"
proof (intro equalityI subsetI)
  fix v :: int assume "v \<in> {1..255}"
  then have "v = 255 - (255 - v)" and "255 - v \<in> {0..254}"
    by simp_all
  then show "v \<in> (\<lambda>x. 255 - x) ` {0..254}"
    by (rule image_eqI)
qed auto

subsection \<open>Where the model is exact\<close>

text \<open>
  The argument and the result of \<open>scale_axis\<close> are mathematical integers. The function of
  the source computes on \<^verbatim>\<open>int\<close>, and the two agree as long as the product
  \<^verbatim>\<open>val * UINPUT_AXIS_MAX\<close> is a value of \<^verbatim>\<open>int\<close>, which is the case exactly for the samples
  of absolute value up to 8421504; outside this range the product of the source overflows
  and the source has no defined result. Every sample that \<^verbatim>\<open>read_adc\<close> returns lies in
  \<open>[0, 4095]\<close>, far inside.
\<close>

lemma product_is_cint_iff:
  "is_cint (val * UINPUT_AXIS_MAX) \<longleftrightarrow> - 8421504 \<le> val \<and> val \<le> 8421504"
  by (auto simp: is_cint_def gp_consts)

subsection \<open>Properties\<close>

text \<open>
  C5 (range on the assumed sample range). For a raw sample in \<open>[0, ADC_MAX)\<close> the scaled
  value lies in \<open>[0, UINPUT_AXIS_MAX]\<close>, whether or not the axis is inverted: inside the
  range the constants assume, no clamping is needed.
\<close>
theorem scale_axis_range:
  assumes "0 \<le> val" and "val < ADC_MAX"
  shows "0 \<le> scale_axis val invert \<and> scale_axis val invert \<le> UINPUT_AXIS_MAX"
proof -
  from assms have "0 \<le> val * 255 div 2048 \<and> val * 255 div 2048 \<le> 254"
    by (intro scaled_half_range) (simp_all add: gp_consts)
  with assms(1) show ?thesis
    by (simp add: scale_axis_nonneg_arg gp_consts)
qed

theorem scale_axis_range_witness:
  "(0::int) \<le> 1000 \<and> 1000 < ADC_MAX \<and> 0 \<le> scale_axis 1000 1 \<and> scale_axis 1000 1 \<le> UINPUT_AXIS_MAX"
  using scale_axis_range [of 1000 1] by (simp add: gp_consts)

text \<open>
  Inversion is the complement. For every sample, the inverted and the plain scaled
  value add up to \<open>UINPUT_AXIS_MAX\<close>: inversion mirrors the axis and loses nothing.
\<close>
theorem scale_axis_complement:
  assumes "invert \<noteq> 0"
  shows "scale_axis val 0 + scale_axis val invert = UINPUT_AXIS_MAX"
  using assms by (simp add: scale_axis_def)

theorem scale_axis_complement_witness:
  "(1::int) \<noteq> 0 \<and> scale_axis 700 0 + scale_axis 700 1 = UINPUT_AXIS_MAX"
  using scale_axis_complement [of 1 700] by simp

text \<open>
  Monotonicity. A larger sample never gives a smaller plain value and never gives
  a larger inverted value; this holds for every pair of integers, negative ones
  included, because C's division truncates monotonically.
\<close>
theorem scale_axis_mono:
  assumes "val \<le> val'"
  shows "scale_axis val 0 \<le> scale_axis val' 0 \<and>
         (invert \<noteq> 0 \<longrightarrow> scale_axis val' invert \<le> scale_axis val invert)"
proof -
  from assms have "c_div (val * 255) 2048 \<le> c_div (val' * 255) 2048"
    by (intro c_div_mono) simp_all
  then show ?thesis
    by (simp add: scale_axis_plain scale_axis_inverted)
qed

theorem scale_axis_mono_witness:
  "(100::int) \<le> 200 \<and> scale_axis 100 0 \<le> scale_axis 200 0 \<and>
   scale_axis 200 1 \<le> scale_axis 100 1"
  using scale_axis_mono [of 100 200 1] by simp

text \<open>
  C31 (the full converter range exceeds the axis range). The plain scaled value of a
  non-negative sample stays within \<open>UINPUT_AXIS_MAX\<close> exactly when the sample is at most
  2056. The converter delivers 12 bits, so every sample in \<open>[2057, 4095]\<close> is reported
  above the maximum that the device declares for the axis. (For the function of the
  source the statement is about the samples up to 8421504, where its product is defined,
  see \<open>product_is_cint_iff\<close>; the samples of the driver are at most 4095.)
\<close>
theorem scale_axis_within_max_iff:
  assumes "0 \<le> val"
  shows "scale_axis val 0 \<le> UINPUT_AXIS_MAX \<longleftrightarrow> val \<le> 2056"
proof -
  have "val * 255 < 256 * 2048 \<longleftrightarrow> val \<le> 2056" by linarith
  with assms show ?thesis
    by (simp add: scale_axis_nonneg_arg gp_consts scaled_le_iff)
qed

theorem scale_axis_within_max_iff_witness:
  "(0::int) \<le> 4095 \<and> (scale_axis 4095 0 \<le> UINPUT_AXIS_MAX \<longleftrightarrow> (4095::int) \<le> 2056)"
  using scale_axis_within_max_iff [of 4095] by simp

text \<open>
  C32 (no signed overflow). For every sample that \<^verbatim>\<open>read_adc\<close> can return (12 bits), the
  product, the quotient and the result of \<^verbatim>\<open>scale_axis\<close> are values of C's \<^verbatim>\<open>int\<close>,
  and the result lies in \<open>[-254, 509]\<close>.
\<close>
theorem scale_axis_no_overflow:
  assumes "0 \<le> val" and "val \<le> 4095"
  shows "is_cint (val * UINPUT_AXIS_MAX) \<and> is_cint (c_div (val * UINPUT_AXIS_MAX) ADC_MAX) \<and>
         - 254 \<le> scale_axis val invert \<and> scale_axis val invert \<le> 509"
proof -
  from assms have r: "0 \<le> val * 255 div 2048 \<and> val * 255 div 2048 \<le> 509"
    by (rule scaled_full_range)
  from assms have "is_cint (val * 255)"
    by (intro is_cintI) simp_all
  moreover from r have "is_cint (val * 255 div 2048)"
    by (intro is_cintI) simp_all
  ultimately show ?thesis
    using assms(1) r by (simp add: scale_axis_nonneg_arg gp_consts)
qed

theorem scale_axis_no_overflow_witness:
  "(0::int) \<le> 4095 \<and> (4095::int) \<le> 4095 \<and>
   is_cint (4095 * UINPUT_AXIS_MAX) \<and> is_cint (c_div (4095 * UINPUT_AXIS_MAX) ADC_MAX) \<and>
   - 254 \<le> scale_axis 4095 1 \<and> scale_axis 4095 1 \<le> 509"
  using scale_axis_no_overflow [of 4095 1] by simp

text \<open>
  C36 (the image of the assumed range). On the half range \<open>[0, ADC_MAX)\<close> a plain axis takes
  exactly the values from 0 to 254 and an inverted axis exactly the values from 1 to 255:
  every level in between is the value of some sample, the plain axis never reports the
  declared maximum 255, and the inverted axis never reports the declared minimum 0.
\<close>
theorem scale_axis_image:
  "(\<lambda>val. scale_axis val 0) ` {0..<ADC_MAX} = {0..254} \<and>
   (invert \<noteq> 0 \<longrightarrow> (\<lambda>val. scale_axis val invert) ` {0..<ADC_MAX} = {1..255})"
proof (intro conjI impI)
  show "(\<lambda>val. scale_axis val 0) ` {0..<ADC_MAX} = {0..254}"
    by (rule scale_axis_plain_image)
  assume "invert \<noteq> 0"
  then have "(\<lambda>val. scale_axis val invert) = (\<lambda>x. 255 - x) \<circ> (\<lambda>val. scale_axis val 0)"
    by (simp add: fun_eq_iff scale_axis_plain scale_axis_inverted)
  then show "(\<lambda>val. scale_axis val invert) ` {0..<ADC_MAX} = {1..255}"
    by (simp only: image_comp [symmetric] scale_axis_plain_image complement_image)
qed

theorem scale_axis_image_witness:
  "(\<lambda>val. scale_axis val 0) ` {0..<ADC_MAX} = {0..254} \<and>
   (\<lambda>val. scale_axis val 1) ` {0..<ADC_MAX} = {1..255}"
  using scale_axis_image [of 1] by simp

end
