(* ===== verification/Adc_Reader.thy ===== *)
theory Adc_Reader
  imports Sys_World
begin

text \<open>
  The analog channel reader: \<^verbatim>\<open>read_adc\<close> of \<^verbatim>\<open>src/gamepad_driver.c\<close>, the table
  \<^verbatim>\<open>axis_channels\<close> and the bus speed \<^verbatim>\<open>MAX_SPEED\<close>.

  \<^item> \<open>adc_command\<close> is the control byte \<^verbatim>\<open>0x8F | (channel << 4)\<close>: the operands are promoted
    to \<^verbatim>\<open>int\<close>, the result is converted to \<^verbatim>\<open>uint8_t\<close>.
  \<^item> \<open>adc_sample\<close> is the returned expression \<^verbatim>\<open>(rx[1] << 4) | (rx[2] >> 4)\<close> on the three
    received bytes, computed on \<^verbatim>\<open>int\<close>.
  \<^item> \<open>read_adc\<close> builds the transfer, issues the one \<^verbatim>\<open>ioctl\<close> and returns the sample. The
    receive buffer is zero-initialised; when the transfer fails the environment answers
    \<open>None\<close> and the buffer keeps its zeros, since the source does not look at the result
    of \<^verbatim>\<open>ioctl\<close>.

  The lemmas give the value of the control byte (\<open>143 + 16 * (channel mod 8)\<close>), the
  value and the range of the sample (12 bits), and the effect of \<open>read_adc\<close> on the world
  (exactly one call; the environment and the program variables are untouched).
\<close>

definition MAX_SPEED :: nat where
  [gp_consts]: "MAX_SPEED = 2000000"

definition axis_channels :: "int list" where
  "axis_channels = [0, 4, 1, 5]"

definition adc_command :: "u8 \<Rightarrow> u8" where
  "adc_command channel = word_of_int (0x8F OR push_bit 4 (uint channel))"

definition adc_tx :: "u8 \<Rightarrow> u8 list" where
  "adc_tx channel = [adc_command channel, 0x00, 0x00]"

definition adc_sample :: "u8 \<times> u8 \<times> u8 \<Rightarrow> int" where
  "adc_sample rx = (case rx of (rx0, rx1, rx2) \<Rightarrow> push_bit 4 (uint rx1) OR drop_bit 4 (uint rx2))"

definition adc_transfer :: "u8 \<Rightarrow> spi_ioc_transfer" where
  "adc_transfer channel =
     \<lparr>tr_tx_buf = adc_tx channel, tr_len = 3, tr_speed_hz = of_nat MAX_SPEED, tr_bits_per_word = 8\<rparr>"

definition read_adc :: "int \<Rightarrow> u8 \<Rightarrow> ('a world_scheme, int) state" where
  "read_adc fd channel = do {
     let tr = adc_transfer channel;
     r \<leftarrow> sys_spi_message fd tr;
     let rx = (case r of None \<Rightarrow> (0, 0, 0) | Some b \<Rightarrow> b);
     State_Monad.return (adc_sample rx)
   }"

subsection \<open>The control byte\<close>

lemma adc_command_word: "adc_command c = 0x8F OR push_bit 4 c"
  unfolding adc_command_def
  by (metis push_bit_of_int word_of_int_numeral word_of_int_uint word_wi_log_defs(3))

lemma uint_and_mask3: "uint (c AND mask 3) = uint c mod 8" for c :: u8
  by (simp add: unsigned_and_eq uint_mask_eq take_bit_eq_mod uint_mod_distrib flip: take_bit_eq_mask)

lemma uint_push_bit4:
  fixes w :: u8
  assumes "uint w < 8"
  shows "uint (push_bit 4 w) = 16 * uint w"
proof -
  have "uint (push_bit 4 w) = take_bit 8 (push_bit 4 (uint w))"
    by (simp only: unsigned_push_bit_eq) simp
  also have "\<dots> = (16 * uint w) mod 256"
    by (simp add: take_bit_eq_mod push_bit_eq_mult mult.commute)
  also from assms have "\<dots> = 16 * uint w"
    by simp
  finally show ?thesis .
qed

lemma command_ignores_bit3: "0x8F OR push_bit 4 c = 0x8F OR push_bit 4 (c AND mask 3)" for c :: u8
proof (rule bit_word_eqI)
  fix n assume n: "n < LENGTH(8)"
  show "bit (0x8F OR push_bit 4 c) n \<longleftrightarrow> bit (0x8F OR push_bit 4 (c AND mask 3)) n"
  proof (cases "n = 7")
    case True
    then show ?thesis by (simp add: bit_simps)
  next
    case False
    with n have "n - 4 < 3 \<or> n < 4" by auto
    then show ?thesis by (auto simp: bit_simps)
  qed
qed

lemma no_bit_8F: "n \<in> {4, 5, 6} \<Longrightarrow> \<not> bit (0x8F :: u8) n"
  by auto

lemma command_or_is_add:
  "0x8F OR push_bit 4 (c AND mask 3) = 0x8F + push_bit 4 (c AND mask 3)" for c :: u8
proof (rule disjunctive_add [symmetric])
  fix n
  show "\<not> bit (0x8F :: u8) n \<or> \<not> bit (push_bit 4 (c AND mask 3)) n"
  proof (cases "4 \<le> n \<and> n - 4 < 3")
    case True
    then have "n \<in> {4, 5, 6}" by auto
    then show ?thesis by (simp only: no_bit_8F simp_thms)
  next
    case False
    then show ?thesis by (auto simp: bit_simps)
  qed
qed

lemma uint_adc_command: "uint (adc_command c) = 143 + 16 * (uint c mod 8)"
proof -
  let ?x = "push_bit 4 (c AND mask 3)"
  have "uint (c AND mask 3) < 8" by (simp add: uint_and_mask3)
  then have x: "uint ?x = 16 * (uint c mod 8)"
    by (simp only: uint_push_bit4 uint_and_mask3)
  have "uint (0x8F + ?x) = (143 + uint ?x) mod 256"
    by (simp add: uint_word_ariths)
  also have "\<dots> = 143 + 16 * (uint c mod 8)"
  proof -
    have "0 \<le> uint c mod 8 \<and> uint c mod 8 < 8" by simp
    then have "(143 + 16 * (uint c mod 8)) mod 256 = 143 + 16 * (uint c mod 8)"
      by (intro mod_pos_pos_trivial) auto
    then show ?thesis by (simp only: x)
  qed
  finally have "uint (0x8F + ?x) = 143 + 16 * (uint c mod 8)" .
  moreover have "adc_command c = 0x8F + ?x"
    unfolding adc_command_word using command_ignores_bit3 [of c] command_or_is_add [of c]
    by (rule trans)
  ultimately show ?thesis by simp
qed

subsection \<open>The sample\<close>

lemma adc_sample_eq: "adc_sample (rx0, rx1, rx2) = uint rx1 * 16 + uint rx2 div 16"
proof -
  have "push_bit 4 (uint rx1) + drop_bit 4 (uint rx2) = push_bit 4 (uint rx1) OR drop_bit 4 (uint rx2)"
    by (rule disjunctive_add) (auto simp: bit_simps dest: bit_imp_le_length)
  then show ?thesis by (simp add: adc_sample_def push_bit_eq_mult drop_bit_eq_div)
qed

lemma adc_sample_bounds: "0 \<le> adc_sample rx \<and> adc_sample rx \<le> 4095"
proof -
  obtain rx0 rx1 rx2 where rx: "rx = (rx0, rx1, rx2)" by (cases rx)
  have "uint rx1 < 256" and "uint rx2 < 256"
    using uint_bounded [of rx1] uint_bounded [of rx2] by simp_all
  moreover from this have "uint rx2 div 16 \<le> 15" and "0 \<le> uint rx2 div 16"
    by (simp_all add: div_le_iff_int div_ge_iff_int)
  moreover have "0 \<le> uint rx1" by simp
  ultimately show ?thesis unfolding rx adc_sample_eq by linarith
qed

lemma adc_sample_zero [simp]: "adc_sample (0, 0, 0) = 0"
  by (simp add: adc_sample_eq)

subsection \<open>The transaction\<close>

lemma run_read_adc [sys_run]:
  "run_state (read_adc fd ch) w =
     (adc_sample (case spi_rx (env w) (now w) fd (adc_tx ch) of None \<Rightarrow> (0, 0, 0) | Some b \<Rightarrow> b),
      log (Ioctl fd (SPI_IOC_MESSAGE (adc_transfer ch))) w)"
  by (simp add: read_adc_def sys_run adc_transfer_def)

lemma exec_read_adc [simp]:
  "exec (read_adc fd ch) w = log (Ioctl fd (SPI_IOC_MESSAGE (adc_transfer ch))) w"
  by (simp add: exec_def run_read_adc)

lemma eval_read_adc:
  "eval (read_adc fd ch) w =
     adc_sample (case spi_rx (env w) (now w) fd (adc_tx ch) of None \<Rightarrow> (0, 0, 0) | Some b \<Rightarrow> b)"
  by (simp add: eval_def run_read_adc)

lemma eval_read_adc_bounds: "0 \<le> eval (read_adc fd ch) w \<and> eval (read_adc fd ch) w \<le> 4095"
  unfolding eval_read_adc by (rule adc_sample_bounds)

subsection \<open>Properties\<close>

text \<open>
  C6 (one transaction, a 12-bit sample). In every world, \<open>read_adc\<close> makes exactly one
  call, the SPI message with the three-byte frame of the channel, and returns a value in
  \<open>[0, 4095]\<close>; it changes neither the environment nor any program variable.
\<close>
theorem read_adc_effect:
  "trace (exec (read_adc fd ch) w) = trace w @ [Ioctl fd (SPI_IOC_MESSAGE (adc_transfer ch))] \<and>
   env (exec (read_adc fd ch) w) = env w \<and>
   world.more (exec (read_adc fd ch) w) = world.more w \<and>
   0 \<le> eval (read_adc fd ch) w \<and> eval (read_adc fd ch) w \<le> 4095"
  by (simp add: eval_read_adc_bounds)

text \<open>
  C33 (only three channel bits reach the converter). The control byte of channel \<open>c + 8\<close>
  is the control byte of channel \<open>c\<close>: bit 3 of the channel falls on the start bit, which
  \<^verbatim>\<open>0x8F\<close> sets anyway, so channels 8 to 15 select the inputs 0 to 7.
\<close>
theorem adc_command_alias: "adc_command (c + 8) = adc_command c"
proof (rule word_uint_eqI)
  have "uint (c + 8) mod 8 = (uint c + 8) mod 256 mod 8"
    by (simp add: uint_word_ariths)
  also have "\<dots> = uint c mod 8"
    by (simp add: mod_mod_cancel)
  finally show "uint (adc_command (c + 8)) = uint (adc_command c)"
    by (simp add: uint_adc_command)
qed

text \<open>
  The eight channels are told apart. Two channels below 8 with the same control
  byte are the same channel; in particular the four channels of \<^verbatim>\<open>axis_channels\<close> are
  read with four different commands.
\<close>
theorem adc_command_inj:
  assumes "uint c < 8" and "uint d < 8" and "adc_command c = adc_command d"
  shows "c = d"
proof (rule word_uint_eqI)
  from assms(3) have "uint (adc_command c) = uint (adc_command d)" by simp
  then have "uint c mod 8 = uint d mod 8" by (simp add: uint_adc_command)
  with assms(1,2) show "uint c = uint d" by simp
qed

theorem adc_command_inj_witness:
  "uint (4 :: u8) < 8 \<and> uint (word_of_int (axis_channels ! 1) :: u8) < 8 \<and>
   adc_command 4 = adc_command (word_of_int (axis_channels ! 1)) \<and>
   (4 :: u8) = word_of_int (axis_channels ! 1)"
  using adc_command_inj [of 4 "word_of_int (axis_channels ! 1)"]
  by (simp add: axis_channels_def)

text \<open>
  C34 (a failed transfer reads as zero). When the SPI transfer fails, \<open>read_adc\<close>
  returns 0: the receive buffer was zero-initialised and the result of \<^verbatim>\<open>ioctl\<close> is not
  examined, so the failure is indistinguishable from a sample of 0.
\<close>
theorem read_adc_failure:
  assumes "spi_rx (env w) (now w) fd (adc_tx ch) = None"
  shows "eval (read_adc fd ch) w = 0"
  using assms by (simp add: eval_read_adc)

theorem read_adc_failure_witness:
  "spi_rx (env \<lparr>env = idle_env, trace = []\<rparr>) 0 3 (adc_tx 0) = None \<and>
   eval (read_adc 3 0) \<lparr>env = idle_env, trace = []\<rparr> = 0"
  using read_adc_failure [of "\<lparr>env = idle_env, trace = []\<rparr>" 3 0]
  by (simp add: now_def)

text \<open>
  All twelve bits are delivered. Every value from 0 to 4095 is the sample of some
  received frame: \<open>read_adc\<close> reconstructs the full 12-bit range of the converter, twice
  the range \<open>[0, ADC_MAX)\<close> that the scaler assumes.
\<close>
theorem adc_sample_onto:
  assumes "0 \<le> v" and "v \<le> 4095"
  shows "\<exists>rx. adc_sample rx = v"
proof
  let ?hi = "word_of_int (v div 16) :: u8" and ?lo = "word_of_int (v mod 16 * 16) :: u8"
  from assms have "0 \<le> v div 16" and "v div 16 < 256"
    by (simp_all add: div_le_iff_int [of 16 v 255, simplified] div_ge_iff_int)
  then have hi: "uint ?hi = v div 16"
    by (simp add: uint_word_of_int)
  have "0 \<le> v mod 16 * 16" and "v mod 16 * 16 < 256"
    by simp_all
  then have "v mod 16 * 16 mod 2 ^ LENGTH(8) = v mod 16 * 16"
    by (intro mod_pos_pos_trivial) simp_all
  then have lo: "uint ?lo = v mod 16 * 16"
    by (simp only: uint_word_of_int)
  show "adc_sample (0, ?hi, ?lo) = v"
    unfolding adc_sample_eq hi lo by simp
qed

theorem adc_sample_onto_witness:
  "(0::int) \<le> 4095 \<and> (4095::int) \<le> 4095 \<and> (\<exists>rx. adc_sample rx = 4095)"
  using adc_sample_onto [of 4095] by simp

end
