(* ===== verification/Button_Config.thy ===== *)
theory Button_Config
  imports Sys_World
begin

text \<open>
  The configuration model of \<^verbatim>\<open>src/gamepad_driver.c\<close>: the structure \<^verbatim>\<open>ButtonConfig\<close>, the
  global table \<^verbatim>\<open>buttons\<close> with its \<^verbatim>\<open>button_count\<close>, the name table \<^verbatim>\<open>map_button_name\<close>,
  and the body of the loop of \<^verbatim>\<open>load_config\<close>, one line at a time.

  \<^item> \<open>driver\<close> extends \<open>world\<close> by the two global variables. \<open>buttons\<close> is the array of
    \<open>MAX_BUTTONS\<close> entries as a list of that length, zero-initialised (\<open>init_driver\<close>);
    \<open>table\<close> is its used part, the first \<open>button_count\<close> entries.
  \<^item> \<open>map_button_name\<close> is the chain of \<^verbatim>\<open>strcmp\<close> tests, in the order of the source.
  \<^item> \<open>chomp\<close> is the statement that cuts the buffer at the first carriage return or line
    feed (or at the NUL that ends the string).
  \<^item> \<open>parse_line\<close> is the part of the loop body that only reads: it takes the buffer
    \<^verbatim>\<open>fgets\<close> filled and returns \<open>Skip\<close> for each \<^verbatim>\<open>continue\<close>, \<open>Binding\<close> with the name, the
    number and the key code otherwise, and \<open>Bad_number\<close> where \<^verbatim>\<open>atoi\<close> is undefined.
  \<^item> \<open>add_button\<close> is the part that writes: the three stores into
    \<^verbatim>\<open>buttons[button_count]\<close>, the \<^verbatim>\<open>printf\<close>, the increment. The source does not compare
    \<^verbatim>\<open>button_count\<close> with \<open>MAX_BUTTONS\<close>; a store past the end of the array is undefined
    in C and is the fault \<open>Buffer_overflow\<close> here, after which nothing more is executed.
  \<^item> \<open>config_line\<close> is the whole body: \<open>parse_line\<close>, then \<open>add_button\<close>.

  The lemmas: \<open>map_button_name\<close> agrees with the table of names and codes, is negative
  exactly on unknown names and injective on known ones; \<open>add_button\<close> appends one entry
  to \<open>table\<close> or faults when the array is full; every operation keeps \<open>wf_driver\<close> and
  \<open>table_ok\<close>.
\<close>

subsection \<open>Data\<close>

definition MAX_BUTTONS :: nat where
  [gp_consts]: "MAX_BUTTONS = 32"

definition MAX_LINE :: nat where
  [gp_consts]: "MAX_LINE = 128"

definition CONFIG_PATH :: string where
  [gp_consts]: "CONFIG_PATH = ''gamepad.conf''"

record ButtonConfig =
  name :: string
  gpio :: int
  keycode :: int

record driver = world +
  buttons :: "ButtonConfig list"
  button_count :: int

datatype fault = Buffer_overflow | Atoi_overflow

definition zero_button :: ButtonConfig where
  "zero_button = \<lparr>name = [], gpio = 0, keycode = 0\<rparr>"

definition init_driver :: "environment \<Rightarrow> driver" where
  "init_driver e =
     \<lparr>env = e, trace = [], buttons = replicate MAX_BUTTONS zero_button, button_count = 0\<rparr>"

definition table :: "driver \<Rightarrow> ButtonConfig list" where
  "table d = take (nat (button_count d)) (buttons d)"

subsection \<open>Names\<close>

definition map_button_name :: "string \<Rightarrow> int" where
  "map_button_name n =
    (if n = ''A'' then BTN_A
     else if n = ''B'' then BTN_B
     else if n = ''X'' then BTN_X
     else if n = ''Y'' then BTN_Y
     else if n = ''DPAD_UP'' then BTN_DPAD_UP
     else if n = ''DPAD_DOWN'' then BTN_DPAD_DOWN
     else if n = ''DPAD_LEFT'' then BTN_DPAD_LEFT
     else if n = ''DPAD_RIGHT'' then BTN_DPAD_RIGHT
     else if n = ''LEFT_TRIG1'' then BTN_TL
     else if n = ''LEFT_TRIG2'' then BTN_TL2
     else if n = ''RIGHT_TRIG1'' then BTN_TR
     else if n = ''RIGHT_TRIG2'' then BTN_TR2
     else if n = ''THUMBL'' then BTN_THUMBL
     else if n = ''THUMBR'' then BTN_THUMBR
     else if n = ''STRT'' then BTN_START
     else if n = ''SEL'' then BTN_SELECT
     else - 1)"

definition button_names :: "string list" where
  "button_names =
     [''A'', ''B'', ''X'', ''Y'', ''DPAD_UP'', ''DPAD_DOWN'', ''DPAD_LEFT'', ''DPAD_RIGHT'',
      ''LEFT_TRIG1'', ''LEFT_TRIG2'', ''RIGHT_TRIG1'', ''RIGHT_TRIG2'', ''THUMBL'', ''THUMBR'',
      ''STRT'', ''SEL'']"

subsection \<open>One line\<close>

datatype line_result = Skip | Bad_number | Binding string int int

definition eol :: "char \<Rightarrow> bool" where
  "eol x \<longleftrightarrow> x = NUL \<or> x = CR \<or> x = LF"

definition chomp :: "string \<Rightarrow> string" where
  "chomp chunk = (let line = cstr chunk in take (strcspn line [CR, LF]) line)"

definition parse_line :: "string \<Rightarrow> line_result" where
  "parse_line chunk =
     (let line = chomp chunk
      in if char_at line 0 = CHR ''#'' \<or> char_at line 0 = CHR ''['' \<or> strlen line < 3 then Skip
         else case strchr line (CHR ''='') of
           None \<Rightarrow> Skip
         | Some eq \<Rightarrow>
             let nm = take eq line;
                 val = drop (Suc eq) line;
                 kc = map_button_name nm
             in if kc < 0 then Skip
                else case atoi val of
                  None \<Rightarrow> Bad_number
                | Some g \<Rightarrow> Binding nm g kc)"

definition button_message :: "int \<Rightarrow> string \<Rightarrow> int \<Rightarrow> int \<Rightarrow> string" where
  "button_message n nm g kc =
     ''Button '' @ show_int n @ '' ('' @ nm @ '') = GPIO '' @ show_int g @
     '' (keycode '' @ show_int kc @ '')'' @ [LF]"

definition binding :: "string \<Rightarrow> int \<Rightarrow> int \<Rightarrow> ButtonConfig" where
  "binding nm g kc = \<lparr>name = strncpy nm 31, gpio = g, keycode = kc\<rparr>"

definition add_button :: "string \<Rightarrow> int \<Rightarrow> int \<Rightarrow> (driver, fault option) state" where
  "add_button nm g kc = do {
     d \<leftarrow> State_Monad.get;
     let n = button_count d;
     if n < 0 \<or> int MAX_BUTTONS \<le> n then State_Monad.return (Some Buffer_overflow)
     else do {
       State_Monad.update (\<lambda>d. d\<lparr>buttons := (buttons d)[nat n := binding nm g kc]\<rparr>);
       sys_printf (button_message n nm g kc);
       State_Monad.update (\<lambda>d. d\<lparr>button_count := button_count d + 1\<rparr>);
       State_Monad.return None
     }
   }"

definition config_line :: "string \<Rightarrow> (driver, fault option) state" where
  "config_line chunk =
     (case parse_line chunk of
        Skip \<Rightarrow> State_Monad.return None
      | Bad_number \<Rightarrow> State_Monad.return (Some Atoi_overflow)
      | Binding nm g kc \<Rightarrow> add_button nm g kc)"

subsection \<open>Invariants\<close>

definition wf_driver :: "driver \<Rightarrow> bool" where
  "wf_driver d \<longleftrightarrow>
     length (buttons d) = MAX_BUTTONS \<and> 0 \<le> button_count d \<and> button_count d \<le> int MAX_BUTTONS"

definition entry_ok :: "ButtonConfig \<Rightarrow> bool" where
  "entry_ok b \<longleftrightarrow>
     name b \<in> set button_names \<and> keycode b = map_button_name (name b) \<and> is_cint (gpio b)"

definition table_ok :: "driver \<Rightarrow> bool" where
  "table_ok d \<longleftrightarrow> wf_driver d \<and> list_all entry_ok (table d)"

subsection \<open>The name table\<close>

lemma map_button_name_table: "map map_button_name button_names = button_codes"
  by (simp add: button_names_def button_codes_def map_button_name_def)

lemma map_button_name_unknown: "n \<notin> set button_names \<Longrightarrow> map_button_name n = - 1"
  by (simp add: button_names_def map_button_name_def)

lemma map_button_name_known: "n \<in> set button_names \<Longrightarrow> map_button_name n \<in> set button_codes"
  using map_button_name_table by (metis image_eqI list.set_map)

lemma map_button_name_neg_iff: "map_button_name n < 0 \<longleftrightarrow> n \<notin> set button_names"
  using map_button_name_known [of n] map_button_name_unknown [of n] button_codes_nonneg
  by fastforce

lemma button_names_distinct: "distinct button_names"
  by (simp add: button_names_def)

lemma map_button_name_inj_on: "inj_on map_button_name (set button_names)"
  using button_codes_distinct by (simp add: distinct_map flip: map_button_name_table)

lemma button_names_short: "n \<in> set button_names \<Longrightarrow> length n \<le> 11"
  by (auto simp: button_names_def)

lemma button_names_clean:
  "n \<in> set button_names \<Longrightarrow> set n \<inter> {NUL, CR, LF, CHR ''='', CHR ''#'', CHR ''[''} = {}"
  by (auto simp: button_names_def)

lemma strncpy_button_name [simp]: "n \<in> set button_names \<Longrightarrow> strncpy n 31 = n"
  by (drule button_names_short) (simp add: strncpy_def)

subsection \<open>The driver state\<close>

lemma buttons_log [simp]: "buttons (log c d) = buttons d"
  and button_count_log [simp]: "button_count (log c d) = button_count d"
  by (simp_all add: log_def)

lemma buttons_logs [simp]: "buttons (logs cs d) = buttons d"
  and button_count_logs [simp]: "button_count (logs cs d) = button_count d"
  by (simp_all add: logs_def)

lemma table_log [simp]: "table (log c d) = table d"
  and table_logs [simp]: "table (logs cs d) = table d"
  by (simp_all add: table_def)

lemma wf_driver_log [simp]: "wf_driver (log c d) = wf_driver d"
  by (simp add: wf_driver_def)

lemma table_ok_log [simp]: "table_ok (log c d) = table_ok d"
  by (simp add: table_ok_def)

lemma wf_driver_logs [simp]: "wf_driver (logs cs d) = wf_driver d"
  by (simp add: wf_driver_def)

lemma table_ok_logs [simp]: "table_ok (logs cs d) = table_ok d"
  by (simp add: table_ok_def)

lemma init_driver_simps [simp]:
  "env (init_driver e) = e" "trace (init_driver e) = []" "button_count (init_driver e) = 0"
  "length (buttons (init_driver e)) = MAX_BUTTONS" "table (init_driver e) = []"
  by (simp_all add: init_driver_def table_def)

lemma table_ok_init [simp]: "table_ok (init_driver e)"
  by (simp add: table_ok_def wf_driver_def)

lemma wf_driver_init [simp]: "wf_driver (init_driver e)"
  by (simp add: wf_driver_def)

lemma length_table: "wf_driver d \<Longrightarrow> length (table d) = nat (button_count d)"
  by (auto simp: wf_driver_def table_def)

lemma table_nth: "wf_driver d \<Longrightarrow> i < nat (button_count d) \<Longrightarrow> table d ! i = buttons d ! i"
  by (simp add: table_def)

subsection \<open>Storing an entry\<close>

lemma run_add_button:
  "run_state (add_button nm g kc) d =
     (if button_count d < 0 \<or> int MAX_BUTTONS \<le> button_count d then (Some Buffer_overflow, d)
      else (None, (log (Printf (button_message (button_count d) nm g kc))
              (d\<lparr>buttons := (buttons d)[nat (button_count d) := binding nm g kc]\<rparr>))
              \<lparr>button_count := button_count d + 1\<rparr>))"
  by (simp add: add_button_def sys_run State_Monad.update_def Let_def)

lemma add_button_full:
  "button_count d = int MAX_BUTTONS \<Longrightarrow> run_state (add_button nm g kc) d = (Some Buffer_overflow, d)"
  by (simp add: run_add_button)

lemma add_button_fits:
  assumes "wf_driver d" and "button_count d < int MAX_BUTTONS"
  shows "eval (add_button nm g kc) d = None"
    and "table (exec (add_button nm g kc) d) = table d @ [binding nm g kc]"
    and "trace (exec (add_button nm g kc) d) =
           trace d @ [Printf (button_message (button_count d) nm g kc)]"
    and "env (exec (add_button nm g kc) d) = env d"
    and "button_count (exec (add_button nm g kc) d) = button_count d + 1"
    and "wf_driver (exec (add_button nm g kc) d)"
proof -
  from assms have i: "nat (button_count d) < length (buttons d)"
    by (simp add: wf_driver_def nat_less_iff)
  from assms show "eval (add_button nm g kc) d = None"
    and "trace (exec (add_button nm g kc) d) =
           trace d @ [Printf (button_message (button_count d) nm g kc)]"
    and "env (exec (add_button nm g kc) d) = env d"
    and "button_count (exec (add_button nm g kc) d) = button_count d + 1"
    and "wf_driver (exec (add_button nm g kc) d)"
    by (simp_all add: eval_def exec_def run_add_button wf_driver_def)
  from assms i show "table (exec (add_button nm g kc) d) = table d @ [binding nm g kc]"
    by (simp add: exec_def run_add_button wf_driver_def table_def nat_add_distrib take_Suc_update)
qed

lemma wf_driver_add_button: "wf_driver d \<Longrightarrow> wf_driver (exec (add_button nm g kc) d)"
  by (cases "button_count d < int MAX_BUTTONS")
    (simp_all add: add_button_fits, simp add: exec_def run_add_button)

subsection \<open>Cutting the line\<close>

lemma chomp_eq: "chomp c = takeWhile (\<lambda>x. \<not> eol x) c"
  by (simp add: chomp_def cstr_def strcspn_def takeWhile_takeWhile eol_def)

lemma chomp_line: "\<forall>x \<in> set l. \<not> eol x \<Longrightarrow> eol t \<Longrightarrow> chomp (l @ t # r) = l"
  by (induction l) (auto simp: chomp_eq)

lemma chomp_last: "\<forall>x \<in> set l. \<not> eol x \<Longrightarrow> chomp l = l"
  by (auto simp: chomp_eq)

lemma chomp_clean: "x \<in> set (chomp c) \<Longrightarrow> \<not> eol x"
  by (auto simp: chomp_eq dest: set_takeWhileD)

lemma eol_simps [simp]: "eol NUL" "eol CR" "eol LF"
  by (simp_all add: eol_def)

subsection \<open>Reading a line\<close>

lemma parse_line_comment: "parse_line (CHR ''#'' # r) = Skip" "parse_line (CHR ''['' # r) = Skip"
  by (simp_all add: parse_line_def chomp_eq eol_def)

lemma parse_line_short: "length c < 3 \<Longrightarrow> parse_line c = Skip"
  using length_takeWhile_le [of "\<lambda>x. \<not> eol x" c]
  by (simp add: parse_line_def chomp_eq strlen_def)

lemma parse_line_Binding:
  assumes "parse_line c = Binding nm g kc"
  shows "nm \<in> set button_names \<and> kc = map_button_name nm \<and> is_cint g"
  using assms
  by (auto simp: parse_line_def Let_def map_button_name_neg_iff split: if_splits option.splits
      dest: atoi_Some_cint)

lemma parse_line_assign:
  assumes "nm \<in> set button_names" and "\<forall>x \<in> set v. \<not> eol x" and "3 \<le> length nm + 1 + length v"
    and "c = nm @ CHR ''='' # v"
  shows "parse_line (c @ LF # r) =
           (case atoi v of None \<Rightarrow> Bad_number | Some g \<Rightarrow> Binding nm g (map_button_name nm))"
    and "parse_line c =
           (case atoi v of None \<Rightarrow> Bad_number | Some g \<Rightarrow> Binding nm g (map_button_name nm))"
proof -
  from assms(1) have clean: "set nm \<inter> {NUL, CR, LF, CHR ''='', CHR ''#'', CHR ''[''} = {}"
    by (rule button_names_clean)
  with assms(2,4) have c: "\<forall>x \<in> set c. \<not> eol x"
    by (auto simp: eol_def)
  then have l: "chomp (c @ LF # r) = c" "chomp c = c"
    by (simp_all add: chomp_line chomp_last)
  from assms(1) obtain a t where nm: "nm = a # t"
    by (cases nm) (auto simp: button_names_def)
  with clean have hd: "a \<noteq> CHR ''#''" "a \<noteq> CHR ''[''" "CHR ''='' \<notin> set nm"
    by auto
  from assms(1) have known: "\<not> map_button_name nm < 0"
    by (simp add: map_button_name_neg_iff)
  have body: "(if char_at c 0 = CHR ''#'' \<or> char_at c 0 = CHR ''['' \<or> strlen c < 3 then Skip
         else case strchr c (CHR ''='') of None \<Rightarrow> Skip
         | Some eq \<Rightarrow> let nm = take eq c; val = drop (Suc eq) c; kc = map_button_name nm
             in if kc < 0 then Skip
                else case atoi val of None \<Rightarrow> Bad_number | Some g \<Rightarrow> Binding nm g kc)
       = (case atoi v of None \<Rightarrow> Bad_number | Some g \<Rightarrow> Binding nm g (map_button_name nm))"
    using hd known assms(3) unfolding assms(4)
    by (simp add: strlen_def nm [symmetric]) (simp add: nm)
  show "parse_line (c @ LF # r) =
           (case atoi v of None \<Rightarrow> Bad_number | Some g \<Rightarrow> Binding nm g (map_button_name nm))"
    and "parse_line c =
           (case atoi v of None \<Rightarrow> Bad_number | Some g \<Rightarrow> Binding nm g (map_button_name nm))"
    by (simp_all add: parse_line_def l body)
qed

lemma show_int_not_eol: "x \<in> set (show_int g) \<Longrightarrow> \<not> eol x"
  by (auto simp: show_int_def eol_def isdigit_def dest!: show_nat_digits split: if_splits)

subsection \<open>The loop body\<close>

lemma run_config_line:
  "run_state (config_line c) d =
     (case parse_line c of
        Skip \<Rightarrow> (None, d)
      | Bad_number \<Rightarrow> (Some Atoi_overflow, d)
      | Binding nm g kc \<Rightarrow> run_state (add_button nm g kc) d)"
  by (simp add: config_line_def split: line_result.splits)

lemma wf_driver_config_line: "wf_driver d \<Longrightarrow> wf_driver (exec (config_line c) d)"
  using wf_driver_add_button
  by (auto simp: exec_def run_config_line split: line_result.splits)

lemma env_config_line [simp]: "env (exec (config_line c) d) = env d"
  by (auto simp: exec_def run_config_line run_add_button split: line_result.splits)

lemma entry_ok_binding:
  "parse_line c = Binding nm g kc \<Longrightarrow> entry_ok (binding nm g kc)"
  by (drule parse_line_Binding) (simp add: entry_ok_def binding_def)

lemma table_ok_config_line:
  assumes "table_ok d"
  shows "table_ok (exec (config_line c) d)"
proof (cases "parse_line c")
  case (Binding nm g kc)
  show ?thesis
  proof (cases "button_count d < int MAX_BUTTONS")
    case True
    with assms Binding show ?thesis
      by (simp add: table_ok_def exec_def [of "config_line c"] run_config_line
          add_button_fits entry_ok_binding flip: exec_def)
  next
    case False
    with assms Binding show ?thesis
      by (simp add: exec_def run_config_line run_add_button)
  qed
qed (use assms in \<open>simp_all add: exec_def run_config_line\<close>)

subsection \<open>Properties\<close>

text \<open>
  C30 (error). \<open>add_button\<close> on a well-formed state: while the array has room it stores the
  entry behind the entries in use and counts it; when the array is full, the store is
  outside the array, which is the fault \<open>Buffer_overflow\<close>, and the table is left as it
  was. There is no other outcome, and the state stays well formed.
\<close>

theorem add_button_bounds:
  assumes "wf_driver d"
  shows "(eval (add_button nm g kc) d = Some Buffer_overflow \<longleftrightarrow>
            button_count d = int MAX_BUTTONS) \<and>
         (eval (add_button nm g kc) d = None \<longleftrightarrow> button_count d < int MAX_BUTTONS) \<and>
         wf_driver (exec (add_button nm g kc) d) \<and>
         table (exec (add_button nm g kc) d) =
           (if button_count d < int MAX_BUTTONS then table d @ [binding nm g kc] else table d)"
proof (cases "button_count d < int MAX_BUTTONS")
  case True
  with assms show ?thesis
    by (simp add: add_button_fits)
next
  case False
  with assms have "button_count d = int MAX_BUTTONS"
    by (simp add: wf_driver_def)
  with assms show ?thesis
    by (simp add: eval_def exec_def add_button_full)
qed

theorem add_button_bounds_witness:
  "wf_driver (init_driver quiet_env) \<and>
   table (exec (add_button ''A'' 17 0x130) (init_driver quiet_env)) =
     [\<lparr>name = ''A'', gpio = 17, keycode = 0x130\<rparr>] \<and>
   eval (add_button ''A'' 17 0x130) (init_driver quiet_env\<lparr>button_count := 32\<rparr>) =
     Some Buffer_overflow"
  using add_button_bounds [of "init_driver quiet_env" "''A''" 17 "0x130"]
    add_button_bounds [of "init_driver quiet_env\<lparr>button_count := 32\<rparr>" "''A''" 17 "0x130"]
  by (simp add: binding_def strncpy_def MAX_BUTTONS_def wf_driver_def)

text \<open>
  C29 (distinct keys). A known name and any other name have different key codes, also
  after the code is stored in the 16-bit field \<^verbatim>\<open>code\<close> of an event, and the key code of a
  known name is not changed by that store. So two buttons of the configuration never
  send the same key, and the result \<open>-1\<close> of an unknown name, which becomes \<open>0xFFFF\<close> in
  16 bits, is no key of the table: the test \<^verbatim>\<open>kc < 0\<close> of the loader rejects exactly the
  names that have no key of their own.
\<close>

theorem map_button_name_injective:
  assumes "0 \<le> map_button_name n" and "n \<noteq> m"
  shows "u16_of_int (map_button_name n) \<noteq> u16_of_int (map_button_name m) \<and>
         uint (u16_of_int (map_button_name n)) = map_button_name n"
proof -
  from assms(1) have n: "n \<in> set button_names"
    using map_button_name_neg_iff [of n] by simp
  then have kn: "map_button_name n \<in> set button_codes"
    by (rule map_button_name_known)
  then have fit: "uint (u16_of_int (map_button_name n)) = map_button_name n"
    by (rule button_codes_fit_u16)
  have "u16_of_int (map_button_name n) \<noteq> u16_of_int (map_button_name m)"
  proof (cases "m \<in> set button_names")
    case True
    with n assms(2) have "map_button_name n \<noteq> map_button_name m"
      using map_button_name_inj_on by (auto dest: inj_onD)
    with kn map_button_name_known [OF True] show ?thesis
      by (auto dest: u16_of_int_inj_on_codes)
  next
    case False
    then have "uint (u16_of_int (map_button_name m)) = 65535"
      by (simp add: map_button_name_unknown u16_of_int_def unsigned_minus_1_eq_mask
          mask_eq_exp_minus_1)
    with fit button_codes_range [OF kn] show ?thesis
      by auto
  qed
  with fit show ?thesis by simp
qed

theorem map_button_name_injective_witness:
  "0 \<le> map_button_name ''LEFT_TRIG1'' \<and> ''LEFT_TRIG1'' \<noteq> ''LEFT_TRIG2'' \<and>
   u16_of_int (map_button_name ''LEFT_TRIG1'') \<noteq> u16_of_int (map_button_name ''LEFT_TRIG2'') \<and>
   uint (u16_of_int (map_button_name ''LEFT_TRIG1'')) = map_button_name ''LEFT_TRIG1''"
  using map_button_name_injective [of "''LEFT_TRIG1''" "''LEFT_TRIG2''"]
  by (simp add: map_button_name_def gp_consts)

end
