(* ===== verification/Config_Loader.thy ===== *)
theory Config_Loader
  imports Button_Config
begin

function load_lines :: "string \<Rightarrow> (driver, fault option) state" where
  "load_lines stream =
     (case fgets MAX_LINE stream of
        None \<Rightarrow> State_Monad.return None
      | Some (chunk, rest) \<Rightarrow> do {
          r \<leftarrow> config_line chunk;
          case r of Some f \<Rightarrow> State_Monad.return (Some f) | None \<Rightarrow> load_lines rest
        })"
  by pat_completeness auto
termination
  by (relation "measure length") (auto simp: MAX_LINE_def dest: fgets_progress)

definition load_config :: "string \<Rightarrow> (driver, fault option) state" where
  "load_config path = do {
     ff \<leftarrow> sys_fopen path ''r'';
     case ff of
       None \<Rightarrow> do { sys_perror ''fopen''; State_Monad.return None }
     | Some content \<Rightarrow> do {
         r \<leftarrow> load_lines content;
         case r of
           Some f \<Rightarrow> State_Monad.return (Some f)
         | None \<Rightarrow> do { sys_fclose; State_Monad.return None }
       }
   }"

function chunks :: "string \<Rightarrow> string list" where
  "chunks stream =
     (case fgets MAX_LINE stream of None \<Rightarrow> [] | Some (chunk, rest) \<Rightarrow> chunk # chunks rest)"
  by pat_completeness auto
termination
  by (relation "measure length") (auto simp: MAX_LINE_def dest: fgets_progress)

fun config_lines :: "string list \<Rightarrow> (driver, fault option) state" where
  "config_lines [] = State_Monad.return None"
| "config_lines (c # cs) = do {
     r \<leftarrow> config_line c;
     case r of Some f \<Rightarrow> State_Monad.return (Some f) | None \<Rightarrow> config_lines cs
   }"

fun bindings_of :: "string list \<Rightarrow> ButtonConfig list" where
  "bindings_of [] = []"
| "bindings_of (c # cs) =
     (case parse_line c of Binding nm g kc \<Rightarrow> binding nm g kc # bindings_of cs | _ \<Rightarrow> bindings_of cs)"

definition faultless :: "string list \<Rightarrow> bool" where
  "faultless cs \<longleftrightarrow> list_all (\<lambda>c. parse_line c \<noteq> Bad_number) cs"

definition announce :: "int \<Rightarrow> ButtonConfig \<Rightarrow> sys_call" where
  "announce n b = Printf (button_message n (name b) (gpio b) (keycode b))"

fun announcements :: "int \<Rightarrow> ButtonConfig list \<Rightarrow> sys_call list" where
  "announcements n [] = []"
| "announcements n (b # bs) = announce n b # announcements (n + 1) bs"

definition unlines :: "string list \<Rightarrow> string" where
  "unlines ls = concat (map (\<lambda>l. l @ [LF]) ls)"

declare load_lines.simps [simp del] chunks.simps [simp del]

lemma load_lines_chunks: "load_lines s = config_lines (chunks s)"
proof (induction s rule: chunks.induct)
  case (1 s)
  show ?case
  proof (cases "fgets MAX_LINE s")
    case None
    then have "s = []" by simp
    then show ?thesis by (simp add: load_lines.simps [of "[]"] chunks.simps [of "[]"] fgets_def)
  next
    case (Some p)
    obtain c r where p: "p = (c, r)" by (cases p)
    with Some "1.IH" have "load_lines r = config_lines (chunks r)" by simp
    with Some p show ?thesis by (simp add: load_lines.simps [of s] chunks.simps [of s])
  qed
qed

lemma run_config_lines_Cons:
  "run_state (config_lines (c # cs)) d =
     (case run_state (config_line c) d of
        (Some f, d') \<Rightarrow> (Some f, d')
      | (None, d') \<Rightarrow> run_state (config_lines cs) d')"
  by (simp split: prod.splits option.splits)

lemma config_lines_skip:
  "parse_line c = Skip \<Longrightarrow> run_state (config_lines (c # cs)) d = run_state (config_lines cs) d"
  by (simp add: run_config_lines_Cons run_config_line)

lemma config_lines_bad:
  "parse_line c = Bad_number \<Longrightarrow> run_state (config_lines (c # cs)) d = (Some Atoi_overflow, d)"
  by (simp add: run_config_lines_Cons run_config_line)

lemma config_lines_binding:
  "parse_line c = Binding nm g kc \<Longrightarrow> wf_driver d \<Longrightarrow> button_count d < int MAX_BUTTONS \<Longrightarrow>
   run_state (config_lines (c # cs)) d = run_state (config_lines cs) (exec (add_button nm g kc) d)"
  using add_button_fits(1) [of d nm g kc]
  by (simp add: run_config_lines_Cons run_config_line run_state_exec_eval [of "add_button nm g kc"])

lemma config_lines_full:
  "parse_line c = Binding nm g kc \<Longrightarrow> button_count d = int MAX_BUTTONS \<Longrightarrow>
   run_state (config_lines (c # cs)) d = (Some Buffer_overflow, d)"
  by (simp add: run_config_lines_Cons run_config_line add_button_full)

declare config_lines.simps(2) [simp del]

lemma config_lines_fits:
  assumes "wf_driver d" and "faultless cs"
    and "button_count d + int (length (bindings_of cs)) \<le> int MAX_BUTTONS"
  shows "eval (config_lines cs) d = None \<and>
         table (exec (config_lines cs) d) = table d @ bindings_of cs \<and>
         button_count (exec (config_lines cs) d) = button_count d + int (length (bindings_of cs)) \<and>
         wf_driver (exec (config_lines cs) d) \<and> env (exec (config_lines cs) d) = env d"
  using assms
proof (induction cs arbitrary: d)
  case Nil
  then show ?case by simp
next
  case (Cons c cs)
  from Cons.prems(2) have fl: "faultless cs" and nb: "parse_line c \<noteq> Bad_number"
    by (simp_all add: faultless_def)
  show ?case
  proof (cases "parse_line c")
    case Skip
    with Cons.IH [OF Cons.prems(1) fl] Cons.prems(3) show ?thesis
      by (simp add: eval_def exec_def config_lines_skip)
  next
    case Bad_number
    with nb show ?thesis by simp
  next
    case (Binding nm g kc)
    let ?d = "exec (add_button nm g kc) d"
    from Binding Cons.prems(3) have lt: "button_count d < int MAX_BUTTONS" by simp
    note fits = add_button_fits [OF Cons.prems(1) lt, of nm g kc]
    from Binding Cons.prems(3) fits have "button_count ?d + int (length (bindings_of cs)) \<le> int MAX_BUTTONS"
      by simp
    from Cons.IH [OF fits(6) fl this] fits Binding show ?thesis
      by (simp add: eval_def exec_def config_lines_binding [OF Binding Cons.prems(1) lt])
  qed
qed

lemma config_lines_overflow:
  assumes "wf_driver d" and "faultless cs"
    and "int MAX_BUTTONS < button_count d + int (length (bindings_of cs))"
  shows "eval (config_lines cs) d = Some Buffer_overflow \<and>
         button_count (exec (config_lines cs) d) = int MAX_BUTTONS \<and>
         table (exec (config_lines cs) d) = take MAX_BUTTONS (table d @ bindings_of cs)"
  using assms
proof (induction cs arbitrary: d)
  case Nil
  then show ?case by (simp add: wf_driver_def)
next
  case (Cons c cs)
  from Cons.prems(2) have fl: "faultless cs" and nb: "parse_line c \<noteq> Bad_number"
    by (simp_all add: faultless_def)
  show ?case
  proof (cases "parse_line c")
    case Skip
    with Cons.IH [OF Cons.prems(1) fl] Cons.prems(3) show ?thesis
      by (simp add: eval_def exec_def config_lines_skip)
  next
    case Bad_number
    with nb show ?thesis by simp
  next
    case (Binding nm g kc)
    show ?thesis
    proof (cases "button_count d < int MAX_BUTTONS")
      case lt: True
      let ?d = "exec (add_button nm g kc) d"
      note fits = add_button_fits [OF Cons.prems(1) lt, of nm g kc]
      from Binding Cons.prems(3) fits have "int MAX_BUTTONS < button_count ?d + int (length (bindings_of cs))"
        by simp
      from Cons.IH [OF fits(6) fl this] fits Binding show ?thesis
        by (simp add: eval_def exec_def config_lines_binding [OF Binding Cons.prems(1) lt]
            del: take_append)
    next
      case False
      with Cons.prems(1) have full: "button_count d = int MAX_BUTTONS"
        by (simp add: wf_driver_def)
      with Cons.prems(1) have "length (table d) = MAX_BUTTONS"
        by (simp add: length_table)
      with full Binding show ?thesis
        by (simp add: eval_def exec_def config_lines_full)
    qed
  qed
qed

lemma table_ok_config_lines: "table_ok d \<Longrightarrow> table_ok (exec (config_lines cs) d)"
proof (induction cs arbitrary: d)
  case Nil
  then show ?case by simp
next
  case (Cons c cs)
  from Cons.prems have "table_ok (exec (config_line c) d)"
    by (rule table_ok_config_line)
  then have "table_ok (exec (config_lines cs) (exec (config_line c) d))"
    by (rule Cons.IH)
  with Cons.prems \<open>table_ok (exec (config_line c) d)\<close> show ?case
    by (auto simp: exec_def run_config_lines_Cons split: prod.splits option.splits)
qed


subsection \<open>The whole function\<close>

lemma run_load_config_no_file:
  "fopen_file (env d) (now d) path = None \<Longrightarrow>
   run_state (load_config path) d = (None, log (Perror ''fopen'') (log (Fopen path ''r'') d))"
  by (simp add: load_config_def sys_run)

lemma run_load_config_file:
  "fopen_file (env d) (now d) path = Some content \<Longrightarrow>
   run_state (load_config path) d =
     (case run_state (config_lines (chunks content)) (log (Fopen path ''r'') d) of
        (Some f, d') \<Rightarrow> (Some f, d')
      | (None, d') \<Rightarrow> (None, log Fclose d'))"
  by (simp add: load_config_def sys_run load_lines_chunks split: prod.splits option.splits)

lemma load_config_cases:
  obtains (absent) "fopen_file (env d) (now d) path = None"
    | (present) content where "fopen_file (env d) (now d) path = Some content"
  by (cases "fopen_file (env d) (now d) path") auto

subsection \<open>The calls of the loader\<close>

lemma trace_config_line_printf:
  "\<exists>ps. trace (exec (config_line c) d) = trace d @ map Printf ps"
proof (cases "trace (exec (config_line c) d) = trace d")
  case True
  then have "trace (exec (config_line c) d) = trace d @ map Printf []" by simp
  then show ?thesis ..
next
  case False
  then obtain nm g kc where
    "trace (exec (config_line c) d) = trace d @ map Printf [button_message (button_count d) nm g kc]"
    by (auto simp: exec_def run_config_line run_add_button split: line_result.splits if_splits)
  then show ?thesis ..
qed

lemma trace_config_lines_printf:
  "\<exists>ps. trace (exec (config_lines cs) d) = trace d @ map Printf ps"
proof (induction cs arbitrary: d)
  case Nil
  have "trace (exec (config_lines []) d) = trace d @ map Printf []" by simp
  then show ?case ..
next
  case (Cons c cs)
  obtain ps where ps: "trace (exec (config_line c) d) = trace d @ map Printf ps"
    using trace_config_line_printf by blast
  obtain qs where qs: "trace (exec (config_lines cs) (exec (config_line c) d)) =
      trace (exec (config_line c) d) @ map Printf qs"
    using Cons.IH by blast
  have "trace (exec (config_lines (c # cs)) d) = trace d @ map Printf ps \<or>
        trace (exec (config_lines (c # cs)) d) = trace d @ map Printf (ps @ qs)"
    using ps qs by (auto simp: exec_def run_config_lines_Cons split: prod.splits option.splits)
  then show ?case by blast
qed

lemma trace_load_config_stdio:
  "\<exists>cs. trace (exec (load_config path) d) = trace d @ cs \<and>
        set cs \<subseteq> {Fopen path ''r'', Fclose, Perror ''fopen''} \<union> range Printf"
proof (cases d path rule: load_config_cases)
  case absent
  then have "trace (exec (load_config path) d) = trace d @ [Fopen path ''r'', Perror ''fopen'']"
    by (simp add: exec_def run_load_config_no_file)
  then show ?thesis by (intro exI conjI) auto
next
  case (present content)
  obtain ps where "trace (exec (config_lines (chunks content)) (log (Fopen path ''r'') d)) =
      trace (log (Fopen path ''r'') d) @ map Printf ps"
    using trace_config_lines_printf by blast
  then have "trace (exec (load_config path) d) = trace d @ Fopen path ''r'' # map Printf ps \<or>
      trace (exec (load_config path) d) = trace d @ Fopen path ''r'' # map Printf ps @ [Fclose]"
    by (auto simp: exec_def run_load_config_file [OF present] split: prod.splits option.splits)
  then show ?thesis
    by (elim disjE) (intro exI conjI, assumption, auto)+
qed

subsection \<open>Buffers and lines\<close>

lemma chunks_Nil [simp]: "chunks [] = []"
  by (simp add: chunks.simps [of "[]"] fgets_def)

lemma chunks_line:
  "LF \<notin> set l \<Longrightarrow> Suc (length l) < MAX_LINE \<Longrightarrow> chunks (l @ LF # s) = (l @ [LF]) # chunks s"
  by (subst chunks.simps) (simp add: fgets_line)

lemma chunks_unlines:
  assumes "\<forall>l \<in> set ls. LF \<notin> set l \<and> Suc (length l) < MAX_LINE"
  shows "chunks (unlines ls) = map (\<lambda>l. l @ [LF]) ls"
  using assms by (induction ls) (simp_all add: unlines_def chunks_line)


subsection \<open>What the loader prints\<close>

lemma name_binding [simp]: "nm \<in> set button_names \<Longrightarrow> name (binding nm g kc) = nm"
  and gpio_binding [simp]: "gpio (binding nm g kc) = g"
  and keycode_binding [simp]: "keycode (binding nm g kc) = kc"
  by (simp_all add: binding_def)

lemma trace_config_lines:
  assumes "wf_driver d" and "faultless cs"
    and "button_count d + int (length (bindings_of cs)) \<le> int MAX_BUTTONS"
  shows "trace (exec (config_lines cs) d) =
           trace d @ announcements (button_count d) (bindings_of cs)"
  using assms
proof (induction cs arbitrary: d)
  case Nil
  then show ?case by simp
next
  case (Cons c cs)
  from Cons.prems(2) have fl: "faultless cs" and nb: "parse_line c \<noteq> Bad_number"
    by (simp_all add: faultless_def)
  show ?case
  proof (cases "parse_line c")
    case Skip
    with Cons.IH [OF Cons.prems(1) fl] Cons.prems(3) show ?thesis
      by (simp add: exec_def config_lines_skip)
  next
    case Bad_number
    with nb show ?thesis by simp
  next
    case (Binding nm g kc)
    let ?d = "exec (add_button nm g kc) d"
    from Binding have nm: "nm \<in> set button_names"
      by (simp add: parse_line_Binding)
    from Binding Cons.prems(3) have lt: "button_count d < int MAX_BUTTONS" by simp
    note fits = add_button_fits [OF Cons.prems(1) lt, of nm g kc]
    from Binding Cons.prems(3) fits have "button_count ?d + int (length (bindings_of cs)) \<le> int MAX_BUTTONS"
      by simp
    from Cons.IH [OF fits(6) fl this] fits Binding nm show ?thesis
      by (simp add: exec_def config_lines_binding [OF Binding Cons.prems(1) lt] announce_def)
  qed
qed

subsection \<open>Evaluating the loader on a text\<close>

lemma bindings_of_simps:
  "parse_line c = Skip \<Longrightarrow> bindings_of (c # cs) = bindings_of cs"
  "parse_line c = Binding nm g kc \<Longrightarrow> bindings_of (c # cs) = binding nm g kc # bindings_of cs"
  by simp_all

lemma faultless_simps [simp]:
  "faultless []" "faultless (c # cs) \<longleftrightarrow> parse_line c \<noteq> Bad_number \<and> faultless cs"
  by (simp_all add: faultless_def)

lemma bindings_of_replicate:
  "parse_line c = Binding nm g kc \<Longrightarrow> bindings_of (replicate n c) = replicate n (binding nm g kc)"
  by (induction n) simp_all

lemma faultless_replicate: "parse_line c \<noteq> Bad_number \<Longrightarrow> faultless (replicate n c)"
  by (induction n) simp_all

lemma env_config_lines [simp]: "env (exec (config_lines cs) d) = env d"
proof (induction cs arbitrary: d)
  case (Cons c cs)
  have "env (exec (config_lines cs) (exec (config_line c) d)) = env d"
    by (simp add: Cons.IH)
  then show ?case
    using env_config_line [of c d]
    by (auto simp: exec_def run_config_lines_Cons split: prod.splits option.splits)
qed simp

lemma fgets_take_full: "LF \<notin> set l \<Longrightarrow> fgets_take (length l) (l @ r) = (l, r)"
  by (induction l) auto

lemma table_ok_load_config: "table_ok d \<Longrightarrow> table_ok (exec (load_config path) d)"
  and env_load_config [simp]: "env (exec (load_config path) d) = env d"
proof -
  have "(table_ok d \<longrightarrow> table_ok (exec (load_config path) d)) \<and>
        env (exec (load_config path) d) = env d"
  proof (cases d path rule: load_config_cases)
    case absent
    then show ?thesis
      by (simp add: exec_def run_load_config_no_file)
  next
    case (present content)
    let ?d = "log (Fopen path ''r'') d"
    have "table_ok d \<longrightarrow> table_ok (exec (config_lines (chunks content)) ?d)"
      by (simp add: table_ok_config_lines)
    moreover have "env (exec (config_lines (chunks content)) ?d) = env d"
      by simp
    ultimately show ?thesis
      by (auto simp: exec_def run_load_config_file [OF present] split: prod.splits option.splits)
  qed
  then show "table_ok d \<Longrightarrow> table_ok (exec (load_config path) d)"
    and "env (exec (load_config path) d) = env d"
    by simp_all
qed

text \<open>
  C27 (roundtrip). A line that consists of a known name, the sign \<^verbatim>\<open>=\<close>, a value of \<^verbatim>\<open>int\<close> as
  \<^verbatim>\<open>%d\<close> prints it, and a line feed, is read back as the binding of that name, with that
  number and with the key code of the name.
\<close>

theorem parse_line_print:
  assumes "nm \<in> set button_names" and "is_cint g"
  shows "parse_line (nm @ CHR ''='' # show_int g @ [LF]) = Binding nm g (map_button_name nm)"
proof -
  from assms(1) have "nm \<noteq> []"
    by (auto simp: button_names_def)
  then have "3 \<le> length nm + 1 + length (show_int g)"
    using length_show_int_pos [of g] by (cases nm) (simp_all add: Suc_le_eq)
  from parse_line_assign(1) [OF assms(1) _ this refl, of "[]"] assms(2) show ?thesis
    by (simp add: show_int_not_eol atoi_show_int)
qed

theorem parse_line_print_witness:
  "''DPAD_UP'' \<in> set button_names \<and> is_cint (- 22) \<and>
   parse_line ''DPAD_UP=-22\<newline>'' = Binding ''DPAD_UP'' (- 22) 0x220"
  using parse_line_print [of "''DPAD_UP''" "- 22"]
  by (simp add: button_names_def is_cint_def map_button_name_def gp_consts gp_eval)

text \<open>
  C28 (functional). What follows the number is ignored. A line of a known name, the
  equals sign, a number, and then any text that starts with a character that is no digit
  (a second equals sign, a blank, a comment) is read as the binding of the name to the
  number: the line is cut at the first equals sign and \<^verbatim>\<open>atoi\<close> stops at the first character
  that is no digit.
\<close>

theorem parse_line_trailing:
  assumes "nm \<in> set button_names" and "is_cint g" and "\<not> isdigit x"
    and "\<not> eol x" and "\<forall>y \<in> set junk. \<not> eol y"
  shows "parse_line (nm @ CHR ''='' # show_int g @ x # junk @ [LF]) =
           Binding nm g (map_button_name nm)"
proof -
  from assms(1) have "nm \<noteq> []"
    by (auto simp: button_names_def)
  then have "3 \<le> length nm + 1 + length (show_int g @ x # junk)"
    by (cases nm) simp_all
  from parse_line_assign(1) [OF assms(1) _ this refl, of "[]"] assms(2-5) show ?thesis
    by (simp add: show_int_not_eol atoi_def atoi_val_show_int_stop ball_Un)
qed

theorem parse_line_trailing_witness:
  "''A'' \<in> set button_names \<and> is_cint 17 \<and> \<not> isdigit CHR ''='' \<and> \<not> eol CHR ''='' \<and>
   parse_line ''A=17=x\<newline>'' = Binding ''A'' 17 BTN_A"
  using parse_line_trailing [of "''A''" 17 "CHR ''=''" "''x''"]
  by (simp add: button_names_def is_cint_def gp_consts isdigit_def eol_def map_button_name_def
      gp_eval)

text \<open>
  C3 (functional, refinement). When the file opens, no number in it is out of the range of
  \<^verbatim>\<open>int\<close> and the bindings fit into the array, \<open>load_config\<close> returns without a fault, the
  table is the old table followed by the bindings of the chunks of the file in their order,
  and the calls are: the \<^verbatim>\<open>fopen\<close>, one \<^verbatim>\<open>printf\<close> per binding with its index, the \<^verbatim>\<open>fclose\<close>.
\<close>

theorem load_config_table:
  assumes "fopen_file (env d) (now d) path = Some content" and "wf_driver d"
    and "faultless (chunks content)"
    and "button_count d + int (length (bindings_of (chunks content))) \<le> int MAX_BUTTONS"
  shows "eval (load_config path) d = None \<and>
         table (exec (load_config path) d) = table d @ bindings_of (chunks content) \<and>
         button_count (exec (load_config path) d) =
           button_count d + int (length (bindings_of (chunks content))) \<and>
         trace (exec (load_config path) d) =
           trace d @ [Fopen path ''r''] @
           announcements (button_count d) (bindings_of (chunks content)) @ [Fclose]"
proof -
  let ?d = "log (Fopen path ''r'') d"
  from assms have d: "wf_driver ?d" "button_count ?d + int (length (bindings_of (chunks content))) \<le> int MAX_BUTTONS"
    by simp_all
  from config_lines_fits [OF d(1) assms(3) d(2)] trace_config_lines [OF d(1) assms(3) d(2)]
  show ?thesis
    by (auto simp: eval_def exec_def run_load_config_file [OF assms(1)] split: prod.splits)
qed

theorem load_config_table_witness:
  "eval (load_config CONFIG_PATH)
     (init_driver (quiet_env\<lparr>fopen_file := \<lambda>_ _. Some (unlines [''A=17'', ''# pad'', ''B=27''])\<rparr>)) = None \<and>
   table (exec (load_config CONFIG_PATH)
     (init_driver (quiet_env\<lparr>fopen_file := \<lambda>_ _. Some (unlines [''A=17'', ''# pad'', ''B=27''])\<rparr>))) =
     [\<lparr>name = ''A'', gpio = 17, keycode = 0x130\<rparr>, \<lparr>name = ''B'', gpio = 27, keycode = 0x131\<rparr>]"
proof -
  let ?c = "unlines [''A=17'', ''# pad'', ''B=27'']"
  have c: "chunks ?c = [''A=17'' @ [LF], ''# pad'' @ [LF], ''B=27'' @ [LF]]"
    by (simp add: chunks_unlines MAX_LINE_def)
  have p: "parse_line ''A=17\<newline>'' = Binding ''A'' 17 0x130"
    "parse_line ''# pad\<newline>'' = Skip" "parse_line ''B=27\<newline>'' = Binding ''B'' 27 0x131"
    by (simp_all add: parse_line_def chomp_eq eol_def map_button_name_def is_cint_def
        gp_consts gp_eval)
  show ?thesis
    using load_config_table [of "init_driver (quiet_env\<lparr>fopen_file := \<lambda>_ _. Some ?c\<rparr>)" CONFIG_PATH ?c]
    by (simp add: c p binding_def strncpy_def MAX_BUTTONS_def)
qed


text \<open>
  C4 (error). The loop of \<open>load_config\<close> does not compare \<^verbatim>\<open>button_count\<close> with
  \<open>MAX_BUTTONS\<close>: when the file holds more bindings than the array has room for, the first
  \<open>MAX_BUTTONS\<close> of them are stored and the next one is written past the end of \<^verbatim>\<open>buttons\<close>,
  which is the fault \<open>Buffer_overflow\<close>.
\<close>

theorem load_config_overflow:
  assumes "fopen_file (env d) (now d) path = Some content" and "wf_driver d"
    and "faultless (chunks content)"
    and "int MAX_BUTTONS < button_count d + int (length (bindings_of (chunks content)))"
  shows "eval (load_config path) d = Some Buffer_overflow \<and>
         button_count (exec (load_config path) d) = int MAX_BUTTONS \<and>
         table (exec (load_config path) d) =
           take MAX_BUTTONS (table d @ bindings_of (chunks content))"
proof -
  let ?d = "log (Fopen path ''r'') d"
  from assms have d: "wf_driver ?d"
    "int MAX_BUTTONS < button_count ?d + int (length (bindings_of (chunks content)))"
    by simp_all
  from config_lines_overflow [OF d(1) assms(3) d(2)] show ?thesis
    by (auto simp: eval_def exec_def run_load_config_file [OF assms(1)] split: prod.splits)
qed

theorem load_config_overflow_witness:
  "eval (load_config CONFIG_PATH)
     (init_driver (quiet_env\<lparr>fopen_file := \<lambda>_ _. Some (unlines (replicate 33 ''A=1''))\<rparr>)) =
     Some Buffer_overflow \<and>
   table (exec (load_config CONFIG_PATH)
     (init_driver (quiet_env\<lparr>fopen_file := \<lambda>_ _. Some (unlines (replicate 33 ''A=1''))\<rparr>))) =
     replicate 32 \<lparr>name = ''A'', gpio = 1, keycode = 0x130\<rparr>"
proof -
  let ?c = "unlines (replicate 33 ''A=1'')"
  have c: "chunks ?c = replicate 33 ''A=1\<newline>''"
    by (simp add: chunks_unlines MAX_LINE_def)
  have p: "parse_line ''A=1\<newline>'' = Binding ''A'' 1 0x130"
    by (simp add: parse_line_def chomp_eq eol_def map_button_name_def is_cint_def
        gp_consts gp_eval)
  show ?thesis
    using load_config_overflow [of "init_driver (quiet_env\<lparr>fopen_file := \<lambda>_ _. Some ?c\<rparr>)" CONFIG_PATH ?c]
    by (simp add: c p bindings_of_replicate faultless_replicate binding_def strncpy_def
        MAX_BUTTONS_def)
qed

text \<open>
  C26 (invariant). \<open>load_config\<close> keeps the table well formed, whatever the file holds and
  whether it faults or not: the count stays within the array, every entry used has a known
  name, the key code of that name, and a number in the range of \<^verbatim>\<open>int\<close>. It does not change
  the environment.
\<close>

theorem load_config_table_ok:
  assumes "table_ok d"
  shows "table_ok (exec (load_config path) d) \<and> env (exec (load_config path) d) = env d"
  using assms by (simp add: table_ok_load_config)

theorem load_config_table_ok_witness:
  "table_ok (init_driver quiet_env) \<and>
   table_ok (exec (load_config CONFIG_PATH) (init_driver quiet_env)) \<and>
   env (exec (load_config CONFIG_PATH) (init_driver quiet_env)) = quiet_env"
  using load_config_table_ok [of "init_driver quiet_env" CONFIG_PATH] by simp

text \<open>
  When the file cannot be opened, \<open>load_config\<close> reports it with \<^verbatim>\<open>perror\<close> and
  returns; the table and the count are as they were, and nothing is closed.
\<close>

theorem load_config_no_file:
  assumes "fopen_file (env d) (now d) path = None"
  shows "eval (load_config path) d = None \<and>
         table (exec (load_config path) d) = table d \<and>
         button_count (exec (load_config path) d) = button_count d \<and>
         trace (exec (load_config path) d) = trace d @ [Fopen path ''r'', Perror ''fopen'']"
  using assms by (simp add: eval_def exec_def run_load_config_no_file)

theorem load_config_no_file_witness:
  "fopen_file (env (init_driver quiet_env)) (now (init_driver quiet_env)) CONFIG_PATH = None \<and>
   table (exec (load_config CONFIG_PATH) (init_driver quiet_env)) = [] \<and>
   trace (exec (load_config CONFIG_PATH) (init_driver quiet_env)) =
     [Fopen ''gamepad.conf'' ''r'', Perror ''fopen'']"
  using load_config_no_file [of "init_driver quiet_env" CONFIG_PATH]
  by (simp add: CONFIG_PATH_def)

text \<open>
  C37 (functional). \<^verbatim>\<open>fgets\<close> fills at most \<open>MAX_LINE - 1\<close> bytes: a line of the file whose first
  \<open>MAX_LINE - 1\<close> bytes hold no line feed is cut there, and what follows is read as a line of
  its own. So the tail of a long comment line is parsed as if it began a line.
\<close>

theorem chunks_long_line:
  assumes "LF \<notin> set l" and "length l = MAX_LINE - 1"
  shows "chunks (l @ r) = l # chunks r"
proof -
  from assms(2) have "l \<noteq> []"
    by (auto simp: MAX_LINE_def)
  with assms fgets_take_full [of l r] have "fgets MAX_LINE (l @ r) = Some (l, r)"
    by (simp add: fgets_def)
  then show ?thesis
    by (subst chunks.simps) simp
qed

theorem chunks_long_line_witness:
  "parse_line (CHR ''#'' # replicate 126 (CHR ''-'') @ unlines [''A=5'']) = Skip \<and>
   bindings_of (chunks (CHR ''#'' # replicate 126 (CHR ''-'') @ unlines [''A=5''])) =
     [\<lparr>name = ''A'', gpio = 5, keycode = 0x130\<rparr>]"
proof -
  have p: "parse_line ''A=5\<newline>'' = Binding ''A'' 5 0x130"
    by (simp add: parse_line_def chomp_eq eol_def map_button_name_def is_cint_def
        gp_consts gp_eval)
  show ?thesis
    using chunks_long_line [of "CHR ''#'' # replicate 126 (CHR ''-'')" "unlines [''A=5'']"]
    by (simp add: parse_line_comment chunks_unlines p binding_def strncpy_def MAX_LINE_def)
qed

text \<open>
  On a file of lines that are shorter than the buffer, each ended by a
  line feed, the loop of \<open>load_config\<close> runs its body once per line, on the line with its line
  feed: reading through \<^verbatim>\<open>fgets\<close> is the same as going through the list of lines.
\<close>

theorem load_lines_unlines:
  assumes "\<forall>l \<in> set ls. LF \<notin> set l \<and> Suc (length l) < MAX_LINE"
  shows "load_lines (unlines ls) = config_lines (map (\<lambda>l. l @ [LF]) ls)"
  using assms by (simp add: load_lines_chunks chunks_unlines)

theorem load_lines_unlines_witness:
  "load_lines (unlines [''A=17'', ''B=27'']) = config_lines [''A=17\<newline>'', ''B=27\<newline>'']"
  using load_lines_unlines [of "[''A=17'', ''B=27'']"] by (simp add: MAX_LINE_def)


text \<open>
  Whatever the file holds, every entry that the loader asks to store has
  one of the sixteen known names, the key code of that name, and a line number in the
  range of \<^verbatim>\<open>int\<close>: no binding is made for an unknown name.
\<close>

theorem bindings_of_known: "list_all entry_ok (bindings_of cs)"
  by (induction cs) (auto simp: entry_ok_binding split: line_result.splits)

end
