(* ===== verification/Gpio_Lines.thy ===== *)
theory Gpio_Lines
  imports Sys_World
begin

text \<open>
  The digital line reader of \<^verbatim>\<open>src/gamepad_driver.c\<close>: \<^verbatim>\<open>export_gpio\<close> and \<^verbatim>\<open>read_gpio\<close>, which
  reach a GPIO line through the files of \<^verbatim>\<open>/sys/class/gpio\<close>.

  \<^item> \<open>gpio_value_path\<close> and \<open>gpio_direction_path\<close> are the two \<^verbatim>\<open>snprintf\<close> calls into
    \<^verbatim>\<open>path[64]\<close>, \<open>gpio_number\<close> the one into \<^verbatim>\<open>buf[8]\<close>; each keeps what fits into its buffer.
  \<^item> \<open>export_gpio\<close> returns 0 at once when the value file exists; otherwise it writes the
    number to the export file, sleeps, and writes \<^verbatim>\<open>in\<close> to the direction file. It returns
    \<open>- 1\<close> when one of the two files cannot be opened.
  \<^item> \<open>read_gpio\<close> opens the value file, reads one byte and closes it. The byte is compared
    with \<^verbatim>\<open>'1'\<close>; a file that cannot be opened, and a read that delivers nothing, give 0.

  Both run in every state that extends \<open>world\<close>. The lemmas: the characteristic equation
  of each function, and from it the result and the calls of each function on every path;
  that the paths are never cut and tell the lines apart; and for which numbers the export
  file gets the number of the line.
\<close>

subsection \<open>Definitions\<close>

definition gpio_value_path :: "int \<Rightarrow> string" where
  "gpio_value_path gpio = snprintf 64 (''/sys/class/gpio/gpio'' @ show_int gpio @ ''/value'')"

definition gpio_direction_path :: "int \<Rightarrow> string" where
  "gpio_direction_path gpio =
     snprintf 64 (''/sys/class/gpio/gpio'' @ show_int gpio @ ''/direction'')"

definition gpio_number :: "int \<Rightarrow> string" where
  "gpio_number gpio = snprintf 8 (show_int gpio)"

definition export_gpio :: "int \<Rightarrow> ('a world_scheme, int) state" where
  "export_gpio gpio = do {
     exists \<leftarrow> sys_access (gpio_value_path gpio);
     if exists then State_Monad.return 0
     else do {
       fd \<leftarrow> sys_open ''/sys/class/gpio/export'' [O_WRONLY];
       if fd < 0 then State_Monad.return (- 1)
       else do {
         let buf = gpio_number gpio;
         sys_write fd (Bytes (take (strlen buf) buf));
         sys_close fd;
         sys_usleep 100000;
         fd \<leftarrow> sys_open (gpio_direction_path gpio) [O_WRONLY];
         if fd < 0 then State_Monad.return (- 1)
         else do {
           sys_write fd (Bytes (take 2 ''in''));
           sys_close fd;
           State_Monad.return 0
         }
       }
     }
   }"

definition read_gpio :: "int \<Rightarrow> ('a world_scheme, int) state" where
  "read_gpio gpio = do {
     fd \<leftarrow> sys_open (gpio_value_path gpio) [O_RDONLY];
     if fd < 0 then State_Monad.return 0
     else do {
       r \<leftarrow> sys_read1 fd;
       let val = (case r of None \<Rightarrow> CHR ''0'' | Some c \<Rightarrow> c);
       sys_close fd;
       State_Monad.return (c_bool (val = CHR ''1''))
     }
   }"

definition export_calls :: "environment \<Rightarrow> nat \<Rightarrow> int \<Rightarrow> sys_call list" where
  "export_calls e n gpio =
     (if access_ok e n (gpio_value_path gpio) then [Access (gpio_value_path gpio)]
      else if open_fd e (n + 1) ''/sys/class/gpio/export'' < 0
        then [Access (gpio_value_path gpio), Open ''/sys/class/gpio/export'' [O_WRONLY]]
      else [Access (gpio_value_path gpio), Open ''/sys/class/gpio/export'' [O_WRONLY],
            Write (open_fd e (n + 1) ''/sys/class/gpio/export'') (Bytes (gpio_number gpio)),
            Close (open_fd e (n + 1) ''/sys/class/gpio/export''), Usleep 100000,
            Open (gpio_direction_path gpio) [O_WRONLY]] @
           (if open_fd e (n + 5) (gpio_direction_path gpio) < 0 then []
            else [Write (open_fd e (n + 5) (gpio_direction_path gpio)) (Bytes ''in''),
                  Close (open_fd e (n + 5) (gpio_direction_path gpio))]))"

definition export_result :: "environment \<Rightarrow> nat \<Rightarrow> int \<Rightarrow> int" where
  "export_result e n gpio =
     (if access_ok e n (gpio_value_path gpio) then 0
      else if open_fd e (n + 1) ''/sys/class/gpio/export'' < 0 then - 1
      else if open_fd e (n + 5) (gpio_direction_path gpio) < 0 then - 1
      else 0)"

definition gpio_calls :: "environment \<Rightarrow> nat \<Rightarrow> int \<Rightarrow> sys_call list" where
  "gpio_calls e n gpio =
     (let fd = open_fd e n (gpio_value_path gpio)
      in if fd < 0 then [Open (gpio_value_path gpio) [O_RDONLY]]
         else [Open (gpio_value_path gpio) [O_RDONLY], Read fd 1, Close fd])"

definition gpio_level :: "environment \<Rightarrow> nat \<Rightarrow> int \<Rightarrow> int" where
  "gpio_level e n gpio =
     (let fd = open_fd e n (gpio_value_path gpio)
      in if fd < 0 then 0 else c_bool (read_byte e (n + 1) fd = Some (CHR ''1'')))"

subsection \<open>The buffers\<close>

lemma length_show_nat_gt: "10 ^ k \<le> n \<Longrightarrow> k < length (show_nat n)"
proof (induction n arbitrary: k rule: show_nat.induct)
  case (1 n)
  show ?case
  proof (cases "n < 10")
    case True
    have "k = 0"
    proof (rule ccontr)
      assume "k \<noteq> 0"
      then have "(10 :: nat) ^ 1 \<le> 10 ^ k" by (intro power_increasing) simp_all
      with "1.prems" True show False by simp
    qed
    with True show ?thesis by (subst show_nat.simps) simp
  next
    case False
    show ?thesis
    proof (cases k)
      case 0
      then show ?thesis by (subst show_nat.simps) simp
    next
      case (Suc j)
      with "1.prems" have "10 ^ j \<le> n div 10"
        by (simp add: less_eq_div_iff_mult_less_eq mult.commute)
      with False have "j < length (show_nat (n div 10))" by (intro "1.IH") simp_all
      with False Suc show ?thesis by (subst show_nat.simps) simp
    qed
  qed
qed

lemma length_show_nat_iff: "0 < k \<Longrightarrow> length (show_nat n) \<le> k \<longleftrightarrow> n < 10 ^ k"
  using length_show_nat_gt [of k n] length_show_nat_le [of n k] by fastforce

lemma length_show_int_le7: "length (show_int i) \<le> 7 \<longleftrightarrow> - 1000000 < i \<and> i < 10000000"
proof (cases "i < 0")
  case True
  have "length (show_nat (nat (- i))) \<le> 6 \<longleftrightarrow> nat (- i) < 10 ^ 6"
    by (rule length_show_nat_iff) simp
  with True show ?thesis
    by (simp add: show_int_def) linarith
next
  case False
  have "length (show_nat (nat i)) \<le> 7 \<longleftrightarrow> nat i < 10 ^ 7"
    by (rule length_show_nat_iff) simp
  with False show ?thesis
    by (simp add: show_int_def) linarith
qed

lemma gpio_value_path_fits:
  "is_cint g \<Longrightarrow> gpio_value_path g = ''/sys/class/gpio/gpio'' @ show_int g @ ''/value''"
  by (drule length_show_int_le) (simp add: gpio_value_path_def snprintf_def)

lemma gpio_direction_path_fits:
  "is_cint g \<Longrightarrow> gpio_direction_path g = ''/sys/class/gpio/gpio'' @ show_int g @ ''/direction''"
  by (drule length_show_int_le) (simp add: gpio_direction_path_def snprintf_def)

lemma gpio_number_NUL [simp]: "strlen (gpio_number g) = length (gpio_number g)"
  by (simp add: strlen_def)

lemma gpio_number_eq_iff: "gpio_number g = show_int g \<longleftrightarrow> - 1000000 < g \<and> g < 10000000"
  by (simp add: gpio_number_def snprintf_def length_show_int_le7)

subsection \<open>Characteristic equations\<close>

lemma run_read_gpio [sys_run]:
  "run_state (read_gpio g) w = (gpio_level (env w) (now w) g,
     w\<lparr>trace := trace w @ gpio_calls (env w) (now w) g\<rparr>)"
  by (simp add: read_gpio_def gpio_level_def gpio_calls_def sys_run log_def now_def Let_def
      split: option.splits)

lemma add_5_eq_Suc: "n + 5 = Suc (Suc (Suc (Suc (Suc n))))"
  by simp

lemma run_export_gpio [sys_run]:
  "run_state (export_gpio g) w = (export_result (env w) (now w) g,
     w\<lparr>trace := trace w @ export_calls (env w) (now w) g\<rparr>)"
  by (simp add: export_gpio_def export_result_def export_calls_def sys_run log_def Let_def
      now_def add_5_eq_Suc)

lemma gpio_level_range: "gpio_level e n g \<in> {0, 1}"
  by (simp add: gpio_level_def Let_def c_bool_def)

lemma length_gpio_calls: "length (gpio_calls e n g) \<in> {1, 3}"
  by (simp add: gpio_calls_def Let_def)

lemma writes_to_gpio_calls [simp]: "writes_to fd (gpio_calls e n g) = []"
  by (simp add: gpio_calls_def Let_def writes_to_Cons)


lemma exec_read_gpio:
  "exec (read_gpio g) w = w\<lparr>trace := trace w @ gpio_calls (env w) (now w) g\<rparr>"
  and eval_read_gpio: "eval (read_gpio g) w = gpio_level (env w) (now w) g"
  by (simp_all add: exec_def eval_def sys_run)

lemma exec_export_gpio:
  "exec (export_gpio g) w = w\<lparr>trace := trace w @ export_calls (env w) (now w) g\<rparr>"
  and eval_export_gpio: "eval (export_gpio g) w = export_result (env w) (now w) g"
  by (simp_all add: exec_def eval_def sys_run)

lemma events_to_gpio_calls [simp]: "events_to fd (gpio_calls e n g) = []"
  by (simp add: events_to_def)

lemma writes_to_Cons_simps [simp]:
  "writes_to fd (Write fd' p # t) = (if fd' = fd then p # writes_to fd t else writes_to fd t)"
  "writes_to fd (Access path # t) = writes_to fd t"
  "writes_to fd (Open path fl # t) = writes_to fd t"
  "writes_to fd (Close fd' # t) = writes_to fd t"
  "writes_to fd (Read fd' n # t) = writes_to fd t"
  "writes_to fd (Usleep us # t) = writes_to fd t"
  by (simp_all add: writes_to_Cons)

text \<open>
  C25 (functional). \<open>read_gpio\<close> returns 0 or 1, and 1 exactly when the value file of the
  line opens and the byte read from it is \<^verbatim>\<open>'1'\<close>. A file that does not open, a read that
  delivers nothing and every other byte give 0. The function opens the file once, and
  closes the descriptor it got whenever it got one; it writes nothing.
\<close>

theorem read_gpio_level:
  "eval (read_gpio g) w \<in> {0, 1} \<and>
   (eval (read_gpio g) w = 1 \<longleftrightarrow>
      0 \<le> open_fd (env w) (now w) (gpio_value_path g) \<and>
      read_byte (env w) (Suc (now w)) (open_fd (env w) (now w) (gpio_value_path g)) =
        Some (CHR ''1'')) \<and>
   trace (exec (read_gpio g) w) =
     trace w @ Open (gpio_value_path g) [O_RDONLY] #
       (if open_fd (env w) (now w) (gpio_value_path g) < 0 then []
        else [Read (open_fd (env w) (now w) (gpio_value_path g)) 1,
              Close (open_fd (env w) (now w) (gpio_value_path g))]) \<and>
   env (exec (read_gpio g) w) = env w \<and> world.more (exec (read_gpio g) w) = world.more w"
  by (simp add: exec_read_gpio eval_read_gpio gpio_level_def gpio_calls_def Let_def c_bool_def)

theorem read_gpio_level_witness:
  "eval (read_gpio 17)
     \<lparr>env = quiet_env\<lparr>open_fd := \<lambda>_ _. 5, read_byte := \<lambda>_ _. Some (CHR ''1'')\<rparr>, trace = []\<rparr> = 1 \<and>
   trace (exec (read_gpio 17)
     \<lparr>env = quiet_env\<lparr>open_fd := \<lambda>_ _. 5, read_byte := \<lambda>_ _. Some (CHR ''1'')\<rparr>, trace = []\<rparr>) =
     [Open ''/sys/class/gpio/gpio17/value'' [O_RDONLY], Read 5 1, Close 5]"
  using read_gpio_level [of 17
      "\<lparr>env = quiet_env\<lparr>open_fd := \<lambda>_ _. 5, read_byte := \<lambda>_ _. Some (CHR ''1'')\<rparr>, trace = []\<rparr>"]
  by (simp add: now_def gpio_value_path_def gp_eval)

text \<open>
  The 64 bytes of \<^verbatim>\<open>path\<close> are enough for every line number of type \<^verbatim>\<open>int\<close>: the
  path is never cut, and the value files (and the direction files) of two different lines
  are different files. Two bindings with different numbers never read the same line.
\<close>

theorem gpio_paths_distinct:
  assumes "is_cint g" and "is_cint h" and "g \<noteq> h"
  shows "gpio_value_path g \<noteq> gpio_value_path h \<and>
         gpio_direction_path g \<noteq> gpio_direction_path h \<and>
         length (gpio_value_path g) \<le> 37 \<and> length (gpio_direction_path g) \<le> 41"
  using assms length_show_int_le [of g]
  by (auto simp: gpio_value_path_fits gpio_direction_path_fits dest: show_int_inj)

theorem gpio_paths_distinct_witness:
  "is_cint 17 \<and> is_cint (- 2147483648) \<and>
   gpio_value_path 17 = ''/sys/class/gpio/gpio17/value'' \<and>
   gpio_direction_path (- 2147483648) = ''/sys/class/gpio/gpio-2147483648/direction'' \<and>
   gpio_value_path 17 \<noteq> gpio_value_path (- 2147483648)"
  using gpio_paths_distinct [of 17 "- 2147483648"]
  by (simp add: is_cint_def gp_consts gpio_value_path_def gpio_direction_path_def gp_eval)

text \<open>
  C39 (bounds). The 8 bytes of \<^verbatim>\<open>buf\<close> hold seven characters: the text that \<open>export_gpio\<close>
  writes to the export file is the number of the line exactly when the number lies
  between \<open>- 999999\<close> and \<open>9999999\<close>. For every other \<^verbatim>\<open>int\<close> the text is cut after seven
  characters, and another line is exported than the one that is read afterwards.
\<close>

theorem gpio_number_exact_iff:
  "gpio_number g = show_int g \<longleftrightarrow> - 999999 \<le> g \<and> g \<le> 9999999"
  using gpio_number_eq_iff [of g] by auto

theorem gpio_number_exact_iff_witness:
  "gpio_number 27 = ''27'' \<and> gpio_number 12345678 = ''1234567'' \<and>
   show_int 12345678 = ''12345678''"
  using gpio_number_exact_iff [of 27] gpio_number_exact_iff [of 12345678]
  by (simp add: gpio_number_def gp_eval)

text \<open>
  C21 (functional). \<open>export_gpio\<close> on every path. It returns 0 or \<open>- 1\<close>, and \<open>- 1\<close> exactly
  when the value file of the line does not exist and the export file or the direction
  file cannot be opened. When the value file exists, the test for it is the only call.
  Otherwise the function opens the export file, writes the text of the line number (as
  much of it as \<^verbatim>\<open>buf\<close> holds), closes the file and sleeps 100 ms; then it opens the
  direction file, writes \<^verbatim>\<open>in\<close> and closes it. A descriptor is closed whenever one was
  obtained, nothing is written to a file that did not open, and neither the environment
  nor the variables of the program change.
\<close>

theorem export_gpio_effect:
  "eval (export_gpio g) w \<in> {0, - 1} \<and>
   (eval (export_gpio g) w = - 1 \<longleftrightarrow>
      \<not> access_ok (env w) (now w) (gpio_value_path g) \<and>
      (open_fd (env w) (now w + 1) ''/sys/class/gpio/export'' < 0 \<or>
       open_fd (env w) (now w + 5) (gpio_direction_path g) < 0)) \<and>
   trace (exec (export_gpio g) w) =
     trace w @ Access (gpio_value_path g) #
       (if access_ok (env w) (now w) (gpio_value_path g) then []
        else Open ''/sys/class/gpio/export'' [O_WRONLY] #
          (if open_fd (env w) (now w + 1) ''/sys/class/gpio/export'' < 0 then []
           else [Write (open_fd (env w) (now w + 1) ''/sys/class/gpio/export'') (Bytes (gpio_number g)),
                 Close (open_fd (env w) (now w + 1) ''/sys/class/gpio/export''), Usleep 100000,
                 Open (gpio_direction_path g) [O_WRONLY]] @
                (if open_fd (env w) (now w + 5) (gpio_direction_path g) < 0 then []
                 else [Write (open_fd (env w) (now w + 5) (gpio_direction_path g)) (Bytes ''in''),
                       Close (open_fd (env w) (now w + 5) (gpio_direction_path g))]))) \<and>
   env (exec (export_gpio g) w) = env w \<and> world.more (exec (export_gpio g) w) = world.more w"
  by (simp add: exec_export_gpio eval_export_gpio export_result_def export_calls_def)

theorem export_gpio_effect_witness:
  "eval (export_gpio 17) \<lparr>env = quiet_env\<lparr>open_fd := \<lambda>_ _. 4\<rparr>, trace = []\<rparr> = 0 \<and>
   trace (exec (export_gpio 17) \<lparr>env = quiet_env\<lparr>open_fd := \<lambda>_ _. 4\<rparr>, trace = []\<rparr>) =
     [Access ''/sys/class/gpio/gpio17/value'', Open ''/sys/class/gpio/export'' [O_WRONLY],
      Write 4 (Bytes ''17''), Close 4, Usleep 100000,
      Open ''/sys/class/gpio/gpio17/direction'' [O_WRONLY], Write 4 (Bytes ''in''), Close 4] \<and>
   eval (export_gpio 17) \<lparr>env = quiet_env, trace = []\<rparr> = - 1 \<and>
   trace (exec (export_gpio 17) \<lparr>env = quiet_env, trace = []\<rparr>) =
     [Access ''/sys/class/gpio/gpio17/value'', Open ''/sys/class/gpio/export'' [O_WRONLY]]"
  using export_gpio_effect [of 17 "\<lparr>env = quiet_env\<lparr>open_fd := \<lambda>_ _. 4\<rparr>, trace = []\<rparr>"]
    export_gpio_effect [of 17 "\<lparr>env = quiet_env, trace = []\<rparr>"]
  by (auto simp: now_def gpio_number_def gpio_value_path_def gpio_direction_path_def gp_eval)

end
