(* ===== verification/Event_Loop.thy ===== *)
theory Event_Loop
  imports Config_Loader Gpio_Lines Adc_Reader Axis_Scaler
begin

text \<open>
  The function \<^verbatim>\<open>main\<close> of \<^verbatim>\<open>src/gamepad_driver.c\<close>: the start-up, the registration of the
  virtual device, and the sampling loop with the event emitter.

  \<^item> \<open>export_buttons\<close>, \<open>register_keys\<close> and \<open>report_buttons\<close> are the three \<^verbatim>\<open>for\<close> loops over
    \<^verbatim>\<open>buttons[0 .. button_count - 1]\<close>. Each reads \<^verbatim>\<open>button_count\<close> at its start and
    \<^verbatim>\<open>buttons[i]\<close> in every pass; no body writes either variable.
  \<^item> \<open>create_device\<close> is the sequence of \<^verbatim>\<open>ioctl\<close> calls on the descriptor of
    \<^verbatim>\<open>/dev/uinput\<close>, the \<^verbatim>\<open>write\<close> of \<open>uidev\<close>, \<^verbatim>\<open>UI_DEV_CREATE\<close> and the sleep.
  \<^item> \<open>cycle\<close> is the body of \<^verbatim>\<open>while (1)\<close>; \<open>emit\<close> is one \<^verbatim>\<open>write\<close> of the structure \<^verbatim>\<open>ev\<close>, whose
    fields \<^verbatim>\<open>type\<close> and \<^verbatim>\<open>code\<close> are 16 bits wide (\<open>event\<close>).
  \<^item> \<open>main_loop n\<close> is \<open>n\<close> passes through the loop. The loop of the source has no exit, so
    the program has no final state; \<open>main n\<close> is the program observed after \<open>n\<close> passes, with
    the result \<open>Looping\<close>, and every theorem on it holds for every \<open>n\<close>. The statements after
    the loop in the source (\<^verbatim>\<open>UI_DEV_DESTROY\<close>, the two \<^verbatim>\<open>close\<close> calls, \<^verbatim>\<open>return 0\<close>) are never
    reached and have no counterpart.
  \<^item> \<open>main\<close> returns \<open>Exit 1\<close> when the SPI device does not open, and \<open>Crashed\<close> with the
    fault when \<open>load_config\<close> runs into undefined behaviour.

  The second group of definitions describes a run as data: \<open>export_all\<close>, \<open>create_calls\<close>,
  \<open>button_calls\<close>, \<open>cycle_calls\<close>, \<open>loop_calls\<close> and \<open>startup_calls\<close> are the lists of calls
  that the parts of \<open>main\<close> make in an environment from a time on, \<open>axis_events\<close>,
  \<open>key_events\<close>, \<open>cycle_events\<close> and \<open>loop_events\<close> the events among them, \<open>batch_kinds\<close>
  the types and codes of a batch, \<open>key_bit\<close>, \<open>abs_bit\<close> and \<open>ev_bit\<close> what a call registers.
  \<open>loaded\<close>, \<open>spi_of\<close>, \<open>ufd_of\<close>, \<open>loop_start\<close> and \<open>reports\<close> name the state after
  \<open>load_config\<close>, the two descriptors, the time at which the loop starts and the events
  the device has received.

  The lemmas \<open>run_\<close>\<open>\<dots>\<close> are the characteristic equations: each part of \<open>main\<close> appends its
  list of calls to the trace and changes nothing else. The theorems are read off the
  lists: the shape, the time stamps and the values of a batch, the number of batches after
  \<open>n\<close> passes, the registration, and the outcome of \<open>main\<close>.
\<close>

subsection \<open>Definitions\<close>

definition SPI_PATH :: string where
  [gp_consts]: "SPI_PATH = ''/dev/spidev0.0''"

datatype outcome = Exit int | Crashed fault | Looping

definition uidev :: uinput_user_dev where
  "uidev =
     \<lparr>ud_name = snprintf UINPUT_MAX_NAME_SIZE ''MAX186 Gamepad'',
      ud_id = \<lparr>id_bustype = u16_of_int BUS_USB, id_vendor = 0x6969, id_product = 0x9696,
               id_version = 0\<rparr>,
      ud_ff_effects_max = 0,
      ud_absmax = (replicate ABS_CNT 0)
        [nat ABS_Y := UINPUT_AXIS_MAX, nat ABS_X := UINPUT_AXIS_MAX,
         nat ABS_RY := UINPUT_AXIS_MAX, nat ABS_RX := UINPUT_AXIS_MAX],
      ud_absmin = replicate ABS_CNT 0,
      ud_absfuzz = replicate ABS_CNT 0,
      ud_absflat = replicate ABS_CNT 0\<rparr>"

definition event :: "timeval \<Rightarrow> int \<Rightarrow> int \<Rightarrow> int \<Rightarrow> input_event" where
  "event t ty code v =
     \<lparr>ev_time = t, ev_type = u16_of_int ty, ev_code = u16_of_int code, ev_value = v\<rparr>"

definition emit :: "int \<Rightarrow> timeval \<Rightarrow> int \<Rightarrow> int \<Rightarrow> int \<Rightarrow> ('a world_scheme, unit) state" where
  "emit ufd t ty code v = sys_write ufd (Event (event t ty code v))"

definition export_buttons :: "(driver, unit) state" where
  "export_buttons = do {
     d \<leftarrow> State_Monad.get;
     for_each [0..<nat (button_count d)] (\<lambda>i. do {
       d \<leftarrow> State_Monad.get;
       r \<leftarrow> export_gpio (gpio (buttons d ! i));
       State_Monad.return ()
     })
   }"

definition register_keys :: "int \<Rightarrow> (driver, unit) state" where
  "register_keys ufd = do {
     d \<leftarrow> State_Monad.get;
     for_each [0..<nat (button_count d)] (\<lambda>i. do {
       d \<leftarrow> State_Monad.get;
       sys_ioctl ufd (UI_SET_KEYBIT (keycode (buttons d ! i)))
     })
   }"

definition create_device :: "int \<Rightarrow> (driver, unit) state" where
  "create_device ufd = do {
     sys_ioctl ufd (UI_SET_EVBIT EV_KEY);
     sys_ioctl ufd (UI_SET_EVBIT EV_ABS);
     register_keys ufd;
     sys_ioctl ufd (UI_SET_ABSBIT ABS_X);
     sys_ioctl ufd (UI_SET_ABSBIT ABS_Y);
     sys_ioctl ufd (UI_SET_ABSBIT ABS_RX);
     sys_ioctl ufd (UI_SET_ABSBIT ABS_RY);
     sys_write ufd (User_dev uidev);
     sys_ioctl ufd UI_DEV_CREATE;
     sys_usleep 100000
   }"

definition report_buttons :: "int \<Rightarrow> timeval \<Rightarrow> (driver, unit) state" where
  "report_buttons ufd t = do {
     d \<leftarrow> State_Monad.get;
     for_each [0..<nat (button_count d)] (\<lambda>i. do {
       d \<leftarrow> State_Monad.get;
       v \<leftarrow> read_gpio (gpio (buttons d ! i));
       emit ufd t EV_KEY (keycode (buttons d ! i)) v
     })
   }"

definition cycle :: "int \<Rightarrow> int \<Rightarrow> (driver, unit) state" where
  "cycle spi_fd ufd = do {
     t \<leftarrow> sys_gettimeofday;
     a0 \<leftarrow> read_adc spi_fd (word_of_int (axis_channels ! 0));
     let left_x = scale_axis a0 0;
     a1 \<leftarrow> read_adc spi_fd (word_of_int (axis_channels ! 1));
     let left_y = scale_axis a1 0;
     a2 \<leftarrow> read_adc spi_fd (word_of_int (axis_channels ! 2));
     let right_x = scale_axis a2 1;
     a3 \<leftarrow> read_adc spi_fd (word_of_int (axis_channels ! 3));
     let right_y = scale_axis a3 1;
     emit ufd t EV_ABS ABS_X left_x;
     emit ufd t EV_ABS ABS_Y left_y;
     emit ufd t EV_ABS ABS_RX right_x;
     emit ufd t EV_ABS ABS_RY right_y;
     report_buttons ufd t;
     emit ufd t EV_SYN SYN_REPORT 0;
     sys_usleep 1000
   }"

fun main_loop :: "nat \<Rightarrow> int \<Rightarrow> int \<Rightarrow> (driver, unit) state" where
  "main_loop 0 spi_fd ufd = State_Monad.return ()"
| "main_loop (Suc n) spi_fd ufd = do { cycle spi_fd ufd; main_loop n spi_fd ufd }"

definition main :: "nat \<Rightarrow> (driver, outcome) state" where
  "main n = do {
     f \<leftarrow> load_config CONFIG_PATH;
     case f of
       Some ft \<Rightarrow> State_Monad.return (Crashed ft)
     | None \<Rightarrow> do {
         spi_fd \<leftarrow> sys_open SPI_PATH [O_RDWR];
         if spi_fd < 0 then do { sys_perror ''SPI open''; State_Monad.return (Exit 1) }
         else do {
           sys_ioctl spi_fd (SPI_IOC_WR_MAX_SPEED_HZ (of_nat MAX_SPEED));
           export_buttons;
           ufd \<leftarrow> sys_open ''/dev/uinput'' [O_WRONLY, O_NONBLOCK];
           create_device ufd;
           main_loop n spi_fd ufd;
           State_Monad.return Looping
         }
       }
   }"

subsection \<open>The calls of a run, as lists\<close>

definition adc_at :: "environment \<Rightarrow> nat \<Rightarrow> int \<Rightarrow> u8 \<Rightarrow> int" where
  "adc_at e n fd ch =
     adc_sample (case spi_rx e n fd (adc_tx ch) of None \<Rightarrow> (0, 0, 0) | Some b \<Rightarrow> b)"

fun export_all :: "environment \<Rightarrow> nat \<Rightarrow> ButtonConfig list \<Rightarrow> sys_call list" where
  "export_all e n [] = []"
| "export_all e n (b # bs) =
     export_calls e n (gpio b) @ export_all e (n + length (export_calls e n (gpio b))) bs"

fun button_calls :: "environment \<Rightarrow> nat \<Rightarrow> int \<Rightarrow> timeval \<Rightarrow> ButtonConfig list \<Rightarrow> sys_call list" where
  "button_calls e n ufd t [] = []"
| "button_calls e n ufd t (b # bs) =
     gpio_calls e n (gpio b) @
     Write ufd (Event (event t EV_KEY (keycode b) (gpio_level e n (gpio b)))) #
     button_calls e (n + length (gpio_calls e n (gpio b)) + 1) ufd t bs"

definition axis_events :: "environment \<Rightarrow> nat \<Rightarrow> int \<Rightarrow> input_event list" where
  "axis_events e n spi_fd =
     [event (clock e n) EV_ABS ABS_X (scale_axis (adc_at e (n + 1) spi_fd 0) 0),
      event (clock e n) EV_ABS ABS_Y (scale_axis (adc_at e (n + 2) spi_fd 4) 0),
      event (clock e n) EV_ABS ABS_RX (scale_axis (adc_at e (n + 3) spi_fd 1) 1),
      event (clock e n) EV_ABS ABS_RY (scale_axis (adc_at e (n + 4) spi_fd 5) 1)]"

definition cycle_calls :: "environment \<Rightarrow> nat \<Rightarrow> int \<Rightarrow> int \<Rightarrow> ButtonConfig list \<Rightarrow> sys_call list" where
  "cycle_calls e n spi_fd ufd tbl =
     Gettimeofday #
     map (\<lambda>ch. Ioctl spi_fd (SPI_IOC_MESSAGE (adc_transfer ch))) [0, 4, 1, 5] @
     map (\<lambda>ev. Write ufd (Event ev)) (axis_events e n spi_fd) @
     button_calls e (n + 9) ufd (clock e n) tbl @
     [Write ufd (Event (event (clock e n) EV_SYN SYN_REPORT 0)), Usleep 1000]"

fun loop_calls :: "nat \<Rightarrow> environment \<Rightarrow> nat \<Rightarrow> int \<Rightarrow> int \<Rightarrow> ButtonConfig list \<Rightarrow> sys_call list" where
  "loop_calls 0 e n spi_fd ufd tbl = []"
| "loop_calls (Suc k) e n spi_fd ufd tbl =
     cycle_calls e n spi_fd ufd tbl @
     loop_calls k e (n + length (cycle_calls e n spi_fd ufd tbl)) spi_fd ufd tbl"

definition create_calls :: "int \<Rightarrow> ButtonConfig list \<Rightarrow> sys_call list" where
  "create_calls ufd tbl =
     [Ioctl ufd (UI_SET_EVBIT EV_KEY), Ioctl ufd (UI_SET_EVBIT EV_ABS)] @
     map (\<lambda>b. Ioctl ufd (UI_SET_KEYBIT (keycode b))) tbl @
     map (\<lambda>c. Ioctl ufd (UI_SET_ABSBIT c)) [ABS_X, ABS_Y, ABS_RX, ABS_RY] @
     [Write ufd (User_dev uidev), Ioctl ufd UI_DEV_CREATE, Usleep 100000]"

definition uinput_fd :: "environment \<Rightarrow> nat \<Rightarrow> ButtonConfig list \<Rightarrow> int" where
  "uinput_fd e n tbl = open_fd e (n + 2 + length (export_all e (n + 2) tbl)) ''/dev/uinput''"

definition startup_calls :: "environment \<Rightarrow> nat \<Rightarrow> ButtonConfig list \<Rightarrow> sys_call list" where
  "startup_calls e n tbl =
     [Open SPI_PATH [O_RDWR],
      Ioctl (open_fd e n SPI_PATH) (SPI_IOC_WR_MAX_SPEED_HZ (of_nat MAX_SPEED))] @
     export_all e (n + 2) tbl @
     Open ''/dev/uinput'' [O_WRONLY, O_NONBLOCK] # create_calls (uinput_fd e n tbl) tbl"

fun key_events :: "environment \<Rightarrow> nat \<Rightarrow> timeval \<Rightarrow> ButtonConfig list \<Rightarrow> input_event list" where
  "key_events e n t [] = []"
| "key_events e n t (b # bs) =
     event t EV_KEY (keycode b) (gpio_level e n (gpio b)) #
     key_events e (n + length (gpio_calls e n (gpio b)) + 1) t bs"

definition cycle_events :: "environment \<Rightarrow> nat \<Rightarrow> int \<Rightarrow> ButtonConfig list \<Rightarrow> input_event list" where
  "cycle_events e n spi_fd tbl =
     axis_events e n spi_fd @ key_events e (n + 9) (clock e n) tbl @
     [event (clock e n) EV_SYN SYN_REPORT 0]"

fun loop_events :: "nat \<Rightarrow> environment \<Rightarrow> nat \<Rightarrow> int \<Rightarrow> int \<Rightarrow> ButtonConfig list \<Rightarrow> input_event list" where
  "loop_events 0 e n spi_fd ufd tbl = []"
| "loop_events (Suc k) e n spi_fd ufd tbl =
     cycle_events e n spi_fd tbl @
     loop_events k e (n + length (cycle_calls e n spi_fd ufd tbl)) spi_fd ufd tbl"

definition loaded :: "environment \<Rightarrow> driver" where
  "loaded e = exec (load_config CONFIG_PATH) (init_driver e)"

definition spi_of :: "environment \<Rightarrow> int" where
  "spi_of e = open_fd e (now (loaded e)) SPI_PATH"

definition ufd_of :: "environment \<Rightarrow> int" where
  "ufd_of e = uinput_fd e (now (loaded e)) (table (loaded e))"

definition loop_start :: "environment \<Rightarrow> nat" where
  "loop_start e = now (loaded e) + length (startup_calls e (now (loaded e)) (table (loaded e)))"

definition reports :: "nat \<Rightarrow> environment \<Rightarrow> input_event list" where
  "reports n e = events_to (ufd_of e) (trace (exec (main n) (init_driver e)))"

fun key_bit :: "int \<Rightarrow> sys_call \<Rightarrow> int option" where
  "key_bit fd (Ioctl fd' (UI_SET_KEYBIT k)) = (if fd' = fd then Some k else None)"
| "key_bit fd _ = None"

fun abs_bit :: "int \<Rightarrow> sys_call \<Rightarrow> int option" where
  "abs_bit fd (Ioctl fd' (UI_SET_ABSBIT c)) = (if fd' = fd then Some c else None)"
| "abs_bit fd _ = None"

fun ev_bit :: "int \<Rightarrow> sys_call \<Rightarrow> int option" where
  "ev_bit fd (Ioctl fd' (UI_SET_EVBIT ty)) = (if fd' = fd then Some ty else None)"
| "ev_bit fd _ = None"

definition kind :: "input_event \<Rightarrow> u16 \<times> u16" where
  "kind ev = (ev_type ev, ev_code ev)"

definition batch_kinds :: "ButtonConfig list \<Rightarrow> (u16 \<times> u16) list" where
  "batch_kinds tbl =
     map (\<lambda>c. (u16_of_int EV_ABS, u16_of_int c)) [ABS_X, ABS_Y, ABS_RX, ABS_RY] @
     map (\<lambda>b. (u16_of_int EV_KEY, u16_of_int (keycode b))) tbl @
     [(u16_of_int EV_SYN, u16_of_int SYN_REPORT)]"

fun chop :: "nat \<Rightarrow> nat \<Rightarrow> 'a list \<Rightarrow> 'a list list" where
  "chop 0 m xs = []"
| "chop (Suc k) m xs = take m xs # chop k m (drop m xs)"

subsection \<open>Loops over the table\<close>

lemma table_conv_drop: "table d = drop 0 (take (nat (button_count d)) (buttons d))"
  by (simp add: table_def)

lemma drop_take_Cons:
  "k < n \<Longrightarrow> n \<le> length xs \<Longrightarrow> drop k (take n xs) = xs ! k # drop (Suc k) (take n xs)"
  using Cons_nth_drop_Suc [of k "take n xs"] by simp

lemma exec_report_from:
  assumes "n \<le> length (buttons d)"
  shows "exec (for_each [k..<n] (\<lambda>i. do {
             d \<leftarrow> State_Monad.get;
             v \<leftarrow> read_gpio (gpio (buttons d ! i));
             emit ufd t EV_KEY (keycode (buttons d ! i)) v
           })) d =
         logs (button_calls (env d) (now d) ufd t (drop k (take n (buttons d)))) d"
  using assms
proof (induction "n - k" arbitrary: k d)
  case 0
  then show ?case by simp
next
  case (Suc m)
  then have k: "k < n" and m: "m = n - Suc k" by simp_all
  from k Suc.prems show ?case
    by (simp add: upt_conv_Cons drop_take_Cons Suc.hyps(1) [OF m] exec_def [of "State_Monad.bind _ _"]
        sys_run emit_def log_eq_logs logs_def [symmetric] add.assoc)
qed


lemma run_state_unit: "run_state m w = ((), exec m w)" for m :: "('s, unit) state"
  by (cases "run_state m w") (simp add: exec_def)

lemma wf_driver_count_le: "wf_driver d \<Longrightarrow> nat (button_count d) \<le> length (buttons d)"
  by (simp add: wf_driver_def nat_le_iff)

lemma offsets:
  "n + 2 = Suc (Suc n)" "n + 3 = Suc (Suc (Suc n))" "n + 4 = Suc (Suc (Suc (Suc n)))"
  "n + 9 = Suc (Suc (Suc (Suc (Suc (Suc (Suc (Suc (Suc n))))))))"
  by simp_all

lemma run_report_buttons [sys_run]:
  assumes "wf_driver d"
  shows "run_state (report_buttons ufd t) d =
           ((), logs (button_calls (env d) (now d) ufd t (table d)) d)"
proof -
  from assms have "nat (button_count d) \<le> length (buttons d)"
    by (rule wf_driver_count_le)
  from exec_report_from [OF this, of 0 ufd t] show ?thesis
    by (simp add: report_buttons_def table_def run_state_unit [of "for_each _ _"])
qed

lemma exec_export_from:
  assumes "n \<le> length (buttons d)"
  shows "exec (for_each [k..<n] (\<lambda>i. do {
             d \<leftarrow> State_Monad.get;
             r \<leftarrow> export_gpio (gpio (buttons d ! i));
             State_Monad.return ()
           })) d =
         logs (export_all (env d) (now d) (drop k (take n (buttons d)))) d"
  using assms
proof (induction "n - k" arbitrary: k d)
  case 0
  then show ?case by simp
next
  case (Suc m)
  then have k: "k < n" and m: "m = n - Suc k" by simp_all
  from k Suc.prems show ?case
    by (simp add: upt_conv_Cons drop_take_Cons Suc.hyps(1) [OF m] exec_def [of "State_Monad.bind _ _"]
        sys_run logs_def [symmetric])
qed

lemma run_export_buttons [sys_run]:
  assumes "wf_driver d"
  shows "run_state export_buttons d = ((), logs (export_all (env d) (now d) (table d)) d)"
proof -
  from assms have "nat (button_count d) \<le> length (buttons d)"
    by (rule wf_driver_count_le)
  from exec_export_from [OF this, of 0] show ?thesis
    by (simp add: export_buttons_def table_def run_state_unit [of "for_each _ _"])
qed

lemma exec_register_from:
  assumes "n \<le> length (buttons d)"
  shows "exec (for_each [k..<n] (\<lambda>i. do {
             d \<leftarrow> State_Monad.get;
             sys_ioctl ufd (UI_SET_KEYBIT (keycode (buttons d ! i)))
           })) d =
         logs (map (\<lambda>b. Ioctl ufd (UI_SET_KEYBIT (keycode b))) (drop k (take n (buttons d)))) d"
  using assms
proof (induction "n - k" arbitrary: k d)
  case 0
  then show ?case by simp
next
  case (Suc m)
  then have k: "k < n" and m: "m = n - Suc k" by simp_all
  from k Suc.prems show ?case
    by (simp add: upt_conv_Cons drop_take_Cons Suc.hyps(1) [OF m] exec_def [of "State_Monad.bind _ _"]
        sys_run log_eq_logs)
qed

lemma run_register_keys [sys_run]:
  assumes "wf_driver d"
  shows "run_state (register_keys ufd) d =
           ((), logs (map (\<lambda>b. Ioctl ufd (UI_SET_KEYBIT (keycode b))) (table d)) d)"
proof -
  from assms have "nat (button_count d) \<le> length (buttons d)"
    by (rule wf_driver_count_le)
  from exec_register_from [OF this, of 0 ufd] show ?thesis
    by (simp add: register_keys_def table_def run_state_unit [of "for_each _ _"])
qed

subsection \<open>Characteristic equations\<close>

lemma run_create_device [sys_run]:
  "wf_driver d \<Longrightarrow> run_state (create_device ufd) d = ((), logs (create_calls ufd (table d)) d)"
  by (simp add: create_device_def create_calls_def sys_run log_eq_logs)

lemma run_cycle [sys_run]:
  "wf_driver d \<Longrightarrow>
   run_state (cycle spi_fd ufd) d = ((), logs (cycle_calls (env d) (now d) spi_fd ufd (table d)) d)"
  by (simp add: cycle_def cycle_calls_def axis_events_def adc_at_def emit_def sys_run log_eq_logs
      axis_channels_def offsets)

lemma run_main_loop [sys_run]:
  "wf_driver d \<Longrightarrow>
   run_state (main_loop n spi_fd ufd) d =
     ((), logs (loop_calls n (env d) (now d) spi_fd ufd (table d)) d)"
  by (induction n arbitrary: d) (simp_all add: sys_run)


subsection \<open>Registration\<close>

lemma map_filter_append [simp]:
  "List.map_filter f (xs @ ys) = List.map_filter f xs @ List.map_filter f ys"
  by (simp add: map_filter_def)

lemma key_bits_map [simp]:
  "List.map_filter (key_bit fd) (map (\<lambda>b. Ioctl fd (UI_SET_KEYBIT (keycode b))) tbl) =
     map keycode tbl"
  "List.map_filter (abs_bit fd) (map (\<lambda>b. Ioctl fd (UI_SET_KEYBIT (keycode b))) tbl) = []"
  "List.map_filter (ev_bit fd) (map (\<lambda>b. Ioctl fd (UI_SET_KEYBIT (keycode b))) tbl) = []"
  by (induction tbl) (simp_all add: map_filter_simps)

lemma bits_create_calls:
  "List.map_filter (key_bit fd) (create_calls fd tbl) = map keycode tbl"
  "List.map_filter (abs_bit fd) (create_calls fd tbl) = [ABS_X, ABS_Y, ABS_RX, ABS_RY]"
  "List.map_filter (ev_bit fd) (create_calls fd tbl) = [EV_KEY, EV_ABS]"
  by (simp_all add: create_calls_def map_filter_simps)

subsection \<open>The events of a cycle\<close>

lemma events_to_button_calls [simp]:
  "events_to ufd (button_calls e n ufd t tbl) = key_events e n t tbl"
  by (induction tbl arbitrary: n) simp_all

lemma events_to_cycle_calls [simp]:
  "events_to ufd (cycle_calls e n spi_fd ufd tbl) = cycle_events e n spi_fd tbl"
  by (simp add: cycle_calls_def cycle_events_def axis_events_def)

lemma events_to_loop_calls [simp]:
  "events_to ufd (loop_calls k e n spi_fd ufd tbl) = loop_events k e n spi_fd ufd tbl"
  by (induction k arbitrary: n) simp_all

lemma kind_event [simp]: "kind (event t ty c v) = (u16_of_int ty, u16_of_int c)"
  and ev_time_event [simp]: "ev_time (event t ty c v) = t"
  and ev_value_event [simp]: "ev_value (event t ty c v) = v"
  by (simp_all add: kind_def event_def)

lemma length_key_events [simp]: "length (key_events e n t tbl) = length tbl"
  by (induction tbl arbitrary: n) simp_all

lemma kind_key_events:
  "map kind (key_events e n t tbl) = map (\<lambda>b. (u16_of_int EV_KEY, u16_of_int (keycode b))) tbl"
  by (induction tbl arbitrary: n) simp_all

lemma key_events_all:
  "list_all (\<lambda>ev. ev_time ev = t \<and> ev_value ev \<in> {0, 1}) (key_events e n t tbl)"
  using gpio_level_range by (induction tbl arbitrary: n) simp_all

lemma length_cycle_events [simp]: "length (cycle_events e n spi_fd tbl) = 5 + length tbl"
  by (simp add: cycle_events_def axis_events_def)

lemma kind_cycle_events: "map kind (cycle_events e n spi_fd tbl) = batch_kinds tbl"
  by (simp add: cycle_events_def axis_events_def batch_kinds_def kind_key_events)

lemma time_cycle_events:
  "list_all (\<lambda>ev. ev_time ev = clock e n) (cycle_events e n spi_fd tbl)"
  using key_events_all [of "clock e n" e "n + 9" tbl]
  by (simp add: cycle_events_def axis_events_def list_all_iff)

lemma length_loop_events [simp]:
  "length (loop_events k e n spi_fd ufd tbl) = k * (5 + length tbl)"
  by (induction k arbitrary: n) simp_all

lemma chop_loop_events_all:
  assumes "\<And>m. P (cycle_events e m spi_fd tbl)"
  shows "list_all P (chop k (5 + length tbl) (loop_events k e n spi_fd ufd tbl))"
  by (induction k arbitrary: n) (simp_all add: assms)

lemma chop_loop_events:
  "list_all (\<lambda>es. map kind es = batch_kinds tbl)
     (chop k (5 + length tbl) (loop_events k e n spi_fd ufd tbl))"
  by (rule chop_loop_events_all) (rule kind_cycle_events)

lemma loop_events_all:
  assumes "\<And>m. list_all P (cycle_events e m spi_fd tbl)"
  shows "list_all P (loop_events k e n spi_fd ufd tbl)"
  by (induction k arbitrary: n) (simp_all add: assms)

lemma kinds_loop_events:
  "list_all (\<lambda>ev. kind ev \<in> set (batch_kinds tbl)) (loop_events k e n spi_fd ufd tbl)"
proof (rule loop_events_all)
  fix m
  have "set (map kind (cycle_events e m spi_fd tbl)) = set (batch_kinds tbl)"
    by (simp only: kind_cycle_events)
  then show "list_all (\<lambda>ev. kind ev \<in> set (batch_kinds tbl)) (cycle_events e m spi_fd tbl)"
    by (auto simp: list_all_iff)
qed

lemma bits_export_all [simp]:
  "List.map_filter (key_bit fd) (export_all e n tbl) = []"
  "List.map_filter (abs_bit fd) (export_all e n tbl) = []"
  "List.map_filter (ev_bit fd) (export_all e n tbl) = []"
  by (induction tbl arbitrary: n) (simp_all add: export_calls_def map_filter_simps)

lemma bits_startup_calls:
  "List.map_filter (key_bit (uinput_fd e n tbl)) (startup_calls e n tbl) = map keycode tbl"
  "List.map_filter (abs_bit (uinput_fd e n tbl)) (startup_calls e n tbl) =
     [ABS_X, ABS_Y, ABS_RX, ABS_RY]"
  "List.map_filter (ev_bit (uinput_fd e n tbl)) (startup_calls e n tbl) = [EV_KEY, EV_ABS]"
  by (simp_all add: startup_calls_def bits_create_calls map_filter_simps)

lemma adc_at_bounds: "0 \<le> adc_at e n fd ch \<and> adc_at e n fd ch \<le> 4095"
  unfolding adc_at_def by (rule adc_sample_bounds)


subsection \<open>The whole program\<close>

lemma run_main:
  assumes "table_ok d"
  shows "run_state (main n) d =
     (let d1 = exec (load_config CONFIG_PATH) d; e = env d; n1 = now d1; tbl = table d1;
          spi_fd = open_fd e n1 SPI_PATH
      in case eval (load_config CONFIG_PATH) d of
           Some ft \<Rightarrow> (Crashed ft, d1)
         | None \<Rightarrow>
             if spi_fd < 0 then (Exit 1, logs [Open SPI_PATH [O_RDWR], Perror ''SPI open''] d1)
             else (Looping,
               logs (startup_calls e n1 tbl @
                     loop_calls n e (n1 + length (startup_calls e n1 tbl)) spi_fd
                       (uinput_fd e n1 tbl) tbl) d1))"
proof -
  from assms have "wf_driver (exec (load_config CONFIG_PATH) d)"
    using table_ok_load_config [of d CONFIG_PATH] by (simp add: table_ok_def)
  then show ?thesis
    by (simp add: main_def run_state_exec_eval [of "load_config _"] sys_run log_eq_logs
        startup_calls_def uinput_fd_def Let_def offsets add.assoc split: option.splits)
qed


lemma events_to_config_lines [simp]:
  "events_to fd (trace (exec (config_lines cs) d)) = events_to fd (trace d)"
proof (induction cs arbitrary: d)
  case (Cons c cs)
  have "events_to fd (trace (exec (config_line c) d)) = events_to fd (trace d)"
    by (simp add: exec_def run_config_line run_add_button split: line_result.splits)
  with Cons.IH [of "exec (config_line c) d"] show ?case
    by (auto simp: exec_def run_config_lines_Cons split: prod.splits option.splits)
qed simp

lemma events_to_load_config [simp]:
  "events_to fd (trace (exec (load_config path) d)) = events_to fd (trace d)"
proof (cases d path rule: load_config_cases)
  case absent
  then show ?thesis by (simp add: exec_def run_load_config_no_file)
next
  case (present content)
  have "events_to fd (trace (exec (config_lines (chunks content)) (log (Fopen path ''r'') d))) =
        events_to fd (trace d)"
    by simp
  then show ?thesis
    by (auto simp: exec_def run_load_config_file [OF present] split: prod.splits option.splits)
qed

lemma events_to_export_calls [simp]: "events_to fd (export_calls e n g) = []"
  by (simp add: export_calls_def)

lemma events_to_export_all [simp]: "events_to fd (export_all e n tbl) = []"
  by (induction tbl arbitrary: n) simp_all

lemma events_to_create_calls [simp]: "events_to fd (create_calls fd' tbl) = []"
proof -
  have "events_to fd (map (\<lambda>b. Ioctl fd' (UI_SET_KEYBIT (keycode b))) tbl) = []"
    by (induction tbl) simp_all
  then show ?thesis
    by (simp add: create_calls_def)
qed

lemma events_to_startup_calls [simp]: "events_to fd (startup_calls e n tbl) = []"
  by (simp add: startup_calls_def)

lemma table_ok_loaded [simp]: "table_ok (loaded e)" and env_loaded [simp]: "env (loaded e) = e"
  by (simp_all add: loaded_def table_ok_load_config)

lemma wf_driver_loaded [simp]: "wf_driver (loaded e)"
  using table_ok_loaded [of e] by (simp add: table_ok_def)

lemma events_to_loaded [simp]: "events_to fd (trace (loaded e)) = []"
  by (simp add: loaded_def)

lemma run_main_init:
  "run_state (main n) (init_driver e) =
     (case eval (load_config CONFIG_PATH) (init_driver e) of
        Some ft \<Rightarrow> (Crashed ft, loaded e)
      | None \<Rightarrow>
          if spi_of e < 0
          then (Exit 1, logs [Open SPI_PATH [O_RDWR], Perror ''SPI open''] (loaded e))
          else (Looping,
            logs (startup_calls e (now (loaded e)) (table (loaded e)) @
                  loop_calls n e (loop_start e) (spi_of e) (ufd_of e) (table (loaded e)))
              (loaded e)))"
  unfolding spi_of_def ufd_of_def loop_start_def loaded_def
  by (simp add: run_main Let_def)


subsection \<open>Properties\<close>

text \<open>
  C1 (functional). One pass through the body of the loop writes exactly one batch to the
  device: the four axis events in the order X, Y, RX, RY, one key event per entry of the
  table in the order of the table, and one synchronisation event, all with the time stamp
  taken at the start of the pass. Nothing else is written to the device, and the pass ends
  with the sleep of one millisecond.
\<close>

theorem cycle_batch:
  assumes "wf_driver d"
  shows "events_to ufd (trace (exec (cycle spi_fd ufd) d)) =
           events_to ufd (trace d) @ cycle_events (env d) (now d) spi_fd (table d) \<and>
         map kind (cycle_events (env d) (now d) spi_fd (table d)) = batch_kinds (table d) \<and>
         list_all (\<lambda>ev. ev_time ev = clock (env d) (now d))
           (cycle_events (env d) (now d) spi_fd (table d)) \<and>
         last (trace (exec (cycle spi_fd ufd) d)) = Usleep 1000 \<and>
         table (exec (cycle spi_fd ufd) d) = table d \<and> env (exec (cycle spi_fd ufd) d) = env d"
  using assms
  by (simp add: exec_def run_cycle kind_cycle_events time_cycle_events)
    (simp add: cycle_calls_def)

theorem cycle_batch_witness:
  "wf_driver (init_driver quiet_env) \<and>
   events_to 4 (trace (exec (cycle 3 4) (init_driver quiet_env))) =
     [event \<lparr>tv_sec = 0, tv_usec = 0\<rparr> EV_ABS ABS_X 0, event \<lparr>tv_sec = 0, tv_usec = 0\<rparr> EV_ABS ABS_Y 0,
      event \<lparr>tv_sec = 0, tv_usec = 0\<rparr> EV_ABS ABS_RX 255,
      event \<lparr>tv_sec = 0, tv_usec = 0\<rparr> EV_ABS ABS_RY 255,
      event \<lparr>tv_sec = 0, tv_usec = 0\<rparr> EV_SYN SYN_REPORT 0]"
  using cycle_batch [of "init_driver quiet_env" 4 3]
  by (simp add: cycle_events_def axis_events_def adc_at_def scale_axis_nonneg_arg)

text \<open>
  C35 (bounds). The values of the events of a batch: an axis that is not inverted (X, Y)
  carries a value from 0 to 509, an inverted one (RX, RY) a value from \<open>- 254\<close> to 255, a key
  carries 0 or 1. All are values of \<^verbatim>\<open>int\<close>. The range \<open>[0, UINPUT_AXIS_MAX]\<close> that the device
  declares for the axes is left as soon as a sample exceeds 2056.
\<close>

theorem batch_values:
  "list_all (\<lambda>ev. 0 \<le> ev_value ev \<and> ev_value ev \<le> 509) (take 2 (axis_events e n spi_fd)) \<and>
   list_all (\<lambda>ev. - 254 \<le> ev_value ev \<and> ev_value ev \<le> 255) (drop 2 (axis_events e n spi_fd)) \<and>
   list_all (\<lambda>ev. ev_value ev \<in> {0, 1}) (key_events e m t tbl) \<and>
   list_all (\<lambda>ev. is_cint (ev_value ev)) (cycle_events e n spi_fd tbl)"
proof -
  have r: "0 \<le> adc_at e k spi_fd ch * 255 div 2048 \<and> adc_at e k spi_fd ch * 255 div 2048 \<le> 509"
    for k ch
    using adc_at_bounds [of e k spi_fd ch] by (intro scaled_full_range) simp_all
  have a: "0 \<le> scale_axis (adc_at e k spi_fd ch) 0 \<and> scale_axis (adc_at e k spi_fd ch) 0 \<le> 509"
    and b: "- 254 \<le> scale_axis (adc_at e k spi_fd ch) 1 \<and> scale_axis (adc_at e k spi_fd ch) 1 \<le> 255"
    for k ch
    using r [of k ch] adc_at_bounds [of e k spi_fd ch] by (simp_all add: scale_axis_nonneg_arg)
  have k: "list_all (\<lambda>ev. ev_value ev \<in> {0, 1}) (key_events e m' t' tbl)" for m' t'
    using key_events_all [of t' e m' tbl] by (simp add: list_all_iff)
  then have ck: "list_all (\<lambda>ev. is_cint (ev_value ev)) (key_events e m' t' tbl)" for m' t'
    by (rule list.pred_mono_strong) (auto intro: is_cintI)
  have ca: "is_cint (scale_axis (adc_at e k spi_fd ch) 0)"
    and cb: "is_cint (scale_axis (adc_at e k spi_fd ch) 1)" for k ch
    using a [of k ch] b [of k ch] by (auto intro: is_cintI)
  show ?thesis
    using k [of m t] by (simp add: axis_events_def cycle_events_def a b ck ca cb)
qed

theorem batch_values_witness:
  "map ev_value (axis_events (quiet_env\<lparr>spi_rx := \<lambda>_ _ _. Some (0, 0xFF, 0xF0)\<rparr>) 0 3) =
     [509, 509, - 254, - 254]"
  using batch_values [of "quiet_env\<lparr>spi_rx := \<lambda>_ _ _. Some (0, 0xFF, 0xF0)\<rparr>" 0 3 0 "\<lparr>tv_sec = 0, tv_usec = 0\<rparr>" "[]"]
  by (simp add: axis_events_def adc_at_def adc_sample_eq scale_axis_nonneg_arg)

text \<open>
  C7 (safety). After any number \<open>n\<close> of passes the device has received \<open>n\<close> complete batches
  and nothing else: the events written by \<open>main_loop n\<close> are \<open>n\<close> times \<open>5 + N\<close> events for a
  table of \<open>N\<close> entries, and cut into pieces of that length every piece has the kinds of a
  batch, ending with the synchronisation event. The loop does not change the table.
\<close>

theorem main_loop_batches:
  assumes "wf_driver d"
  shows "events_to ufd (trace (exec (main_loop n spi_fd ufd) d)) =
           events_to ufd (trace d) @ loop_events n (env d) (now d) spi_fd ufd (table d) \<and>
         length (loop_events n (env d) (now d) spi_fd ufd (table d)) = n * (5 + length (table d)) \<and>
         list_all (\<lambda>es. map kind es = batch_kinds (table d))
           (chop n (5 + length (table d)) (loop_events n (env d) (now d) spi_fd ufd (table d))) \<and>
         table (exec (main_loop n spi_fd ufd) d) = table d"
  using assms by (simp add: exec_def run_main_loop chop_loop_events)

theorem main_loop_batches_witness:
  "wf_driver (init_driver quiet_env) \<and>
   map kind (events_to 4 (trace (exec (main_loop 2 3 4) (init_driver quiet_env)))) =
     [(3, 0), (3, 1), (3, 3), (3, 4), (0, 0), (3, 0), (3, 1), (3, 3), (3, 4), (0, 0)]"
  using main_loop_batches [of "init_driver quiet_env" 4 2 3]
  by (simp add: numeral_2_eq_2 kind_cycle_events batch_kinds_def u16_of_int_def gp_consts)

text \<open>
  C24 (error). The result of \<open>main\<close>, started in the initial state of the program: it returns
  1 exactly when the configuration was read without a fault and the SPI device cannot be
  opened; it is still in its loop after any number of passes when the SPI device opens,
  whatever the other calls return. It never returns 0.
\<close>

theorem main_outcome:
  "eval (main n) (init_driver e) =
     (case eval (load_config CONFIG_PATH) (init_driver e) of
        Some ft \<Rightarrow> Crashed ft
      | None \<Rightarrow> if spi_of e < 0 then Exit 1 else Looping) \<and>
   eval (main n) (init_driver e) \<noteq> Exit 0"
  by (simp add: eval_def run_main_init split: option.splits)

theorem main_outcome_witness:
  "eval (main 5) (init_driver quiet_env) = Exit 1 \<and>
   eval (main 5) (init_driver (quiet_env\<lparr>open_fd := \<lambda>_ _. 3\<rparr>)) = Looping"
  using main_outcome [of 5 quiet_env] main_outcome [of 5 "quiet_env\<lparr>open_fd := \<lambda>_ _. 3\<rparr>"]
  by (simp add: spi_of_def eval_def [of "load_config _"] run_load_config_no_file)

text \<open>
  When the SPI device cannot be opened, \<open>main\<close> reports it with \<^verbatim>\<open>perror\<close> and
  returns: after the calls of \<open>load_config\<close> there are only the failed \<^verbatim>\<open>open\<close> and the
  \<^verbatim>\<open>perror\<close>. No line is exported, no device is created and no event is written.
\<close>

theorem main_spi_failure:
  assumes "eval (load_config CONFIG_PATH) (init_driver e) = None" and "spi_of e < 0"
  shows "eval (main n) (init_driver e) = Exit 1 \<and>
         trace (exec (main n) (init_driver e)) =
           trace (loaded e) @ [Open SPI_PATH [O_RDWR], Perror ''SPI open''] \<and>
         events_to fd (trace (exec (main n) (init_driver e))) = []"
  using assms by (simp add: eval_def exec_def run_main_init)

theorem main_spi_failure_witness:
  "eval (main 5) (init_driver quiet_env) = Exit 1 \<and>
   trace (exec (main 5) (init_driver quiet_env)) =
     [Fopen ''gamepad.conf'' ''r'', Perror ''fopen'', Open ''/dev/spidev0.0'' [O_RDWR],
      Perror ''SPI open'']"
  using main_spi_failure [of quiet_env 5]
  by (simp add: spi_of_def loaded_def eval_def [of "load_config _"] exec_def [of "load_config _"]
      run_load_config_no_file gp_consts)

text \<open>
  C8 (safety). When the SPI device opens, \<open>main\<close> enters the loop, and after \<open>n\<close> passes the
  events written to the descriptor that the \<^verbatim>\<open>open\<close> of \<^verbatim>\<open>/dev/uinput\<close> returned are exactly
  the \<open>n\<close> batches of the loop: the start-up phase writes no event. The result of that
  \<^verbatim>\<open>open\<close> is not tested: the statement holds for a negative descriptor as well.
\<close>

theorem main_reports:
  assumes "eval (load_config CONFIG_PATH) (init_driver e) = None" and "0 \<le> spi_of e"
  shows "eval (main n) (init_driver e) = Looping \<and>
         reports n e = loop_events n e (loop_start e) (spi_of e) (ufd_of e) (table (loaded e)) \<and>
         length (reports n e) = n * (5 + length (table (loaded e)))"
  using assms by (simp add: eval_def exec_def reports_def run_main_init)

theorem main_reports_witness:
  "ufd_of (quiet_env\<lparr>open_fd := \<lambda>_ p. if p = ''/dev/uinput'' then - 1 else 3\<rparr>) = - 1 \<and>
   eval (main 2) (init_driver (quiet_env\<lparr>open_fd := \<lambda>_ p. if p = ''/dev/uinput'' then - 1 else 3\<rparr>)) =
     Looping \<and>
   length (reports 2 (quiet_env\<lparr>open_fd := \<lambda>_ p. if p = ''/dev/uinput'' then - 1 else 3\<rparr>)) = 10"
  using main_reports [of "quiet_env\<lparr>open_fd := \<lambda>_ p. if p = ''/dev/uinput'' then - 1 else 3\<rparr>" 2]
  by (simp add: spi_of_def ufd_of_def uinput_fd_def loaded_def eval_def [of "load_config _"]
      exec_def [of "load_config _"] run_load_config_no_file gp_consts)


text \<open>
  The registration: \<open>create_device\<close> declares the event types \<^verbatim>\<open>EV_KEY\<close> and
  \<^verbatim>\<open>EV_ABS\<close>, the key code of every entry of the table in the order of the table, and the
  four axes; then it writes the description of the device, creates the device and sleeps
  100 ms. Nothing is registered after the device is created.
\<close>

theorem create_device_registers:
  assumes "wf_driver d"
  shows "trace (exec (create_device ufd) d) = trace d @ create_calls ufd (table d) \<and>
         List.map_filter (ev_bit ufd) (create_calls ufd (table d)) = [EV_KEY, EV_ABS] \<and>
         List.map_filter (key_bit ufd) (create_calls ufd (table d)) = map keycode (table d) \<and>
         List.map_filter (abs_bit ufd) (create_calls ufd (table d)) =
           [ABS_X, ABS_Y, ABS_RX, ABS_RY] \<and>
         drop (length (create_calls ufd (table d)) - 3) (create_calls ufd (table d)) =
           [Write ufd (User_dev uidev), Ioctl ufd UI_DEV_CREATE, Usleep 100000]"
  using assms by (simp add: exec_def run_create_device bits_create_calls) (simp add: create_calls_def)

theorem create_device_registers_witness:
  "wf_driver (init_driver quiet_env) \<and>
   trace (exec (create_device 4) (init_driver quiet_env)) =
     [Ioctl 4 (UI_SET_EVBIT 1), Ioctl 4 (UI_SET_EVBIT 3), Ioctl 4 (UI_SET_ABSBIT 0),
      Ioctl 4 (UI_SET_ABSBIT 1), Ioctl 4 (UI_SET_ABSBIT 3), Ioctl 4 (UI_SET_ABSBIT 4),
      Write 4 (User_dev uidev), Ioctl 4 UI_DEV_CREATE, Usleep 100000]"
  using create_device_registers [of "init_driver quiet_env" 4]
  by (simp add: create_calls_def gp_consts)

text \<open>
  The description of the device that \<open>main\<close> writes: the name is not cut,
  the bus is USB with vendor \<^verbatim>\<open>0x6969\<close> and product \<^verbatim>\<open>0x9696\<close>, the maximum of the axes X, Y, RX
  and RY (codes 0, 1, 3, 4) is 255 and every other limit is 0.
\<close>

theorem uidev_limits:
  "ud_name uidev = ''MAX186 Gamepad'' \<and>
   ud_id uidev = \<lparr>id_bustype = 3, id_vendor = 0x6969, id_product = 0x9696, id_version = 0\<rparr> \<and>
   ud_absmax uidev = [255, 255, 0, 255, 255] @ replicate 59 0 \<and>
   ud_absmin uidev = replicate 64 0"
  by (simp add: uidev_def gp_consts gp_eval u16_of_int_def numeral_eq_Suc)

end
