(* ===== verification/Driver_Steps.thy ===== *)
theory Driver_Steps
  imports Event_Loop
begin

text \<open>
  The run of \<^verbatim>\<open>main\<close> in \<^verbatim>\<open>src/gamepad_driver.c\<close> as a state machine. A configuration is
  a phase of the program together with the state of the driver; \<open>step\<close> takes the program
  from one phase to the next by running the part of \<^verbatim>\<open>main\<close> that lies between them, and it
  repeats the body of the loop in the phase \<open>Running\<close> as long as the condition of the loop
  holds. The condition is the constant 1 of \<^verbatim>\<open>while (1)\<close>; the statements after the loop
  (\<open>teardown\<close>: destroy the device, close the two descriptors, return 0) are the step
  \<open>leave\<close>, which is guarded by the negated condition. \<open>Terminated\<close> and \<open>Faulted\<close> have no
  successor.

  The lemmas: the invariant of the reachable configurations, by induction over the steps
  (the table is well formed and the environment is untouched; before the loop no event
  has been written; in the loop the device has received whole batches only); what the
  three steps between the configuration and the loop compute (\<open>startup_loaded\<close>); and the
  shape of the machine: steps are deterministic, and exactly the phases \<open>Terminated\<close> and
  \<open>Faulted\<close> have no successor. That the machine and the function \<open>main\<close> of \<open>Event_Loop\<close>
  describe the same program is shown in \<open>Driver_Run\<close>.
\<close>

datatype phase =
    Start
  | Configured
  | Spi_open int
  | Exported int
  | Running int int
  | Terminated int
  | Faulted fault

definition open_spi :: "(driver, int) state" where
  "open_spi = do {
     spi_fd \<leftarrow> sys_open SPI_PATH [O_RDWR];
     if spi_fd < 0 then do { sys_perror ''SPI open''; State_Monad.return spi_fd }
     else do {
       sys_ioctl spi_fd (SPI_IOC_WR_MAX_SPEED_HZ (of_nat MAX_SPEED));
       State_Monad.return spi_fd
     }
   }"

definition open_uinput :: "(driver, int) state" where
  "open_uinput = do {
     ufd \<leftarrow> sys_open ''/dev/uinput'' [O_WRONLY, O_NONBLOCK];
     create_device ufd;
     State_Monad.return ufd
   }"

definition loop_condition :: int where
  "loop_condition = 1"

definition teardown :: "int \<Rightarrow> int \<Rightarrow> (driver, int) state" where
  "teardown spi_fd ufd = do {
     sys_ioctl ufd UI_DEV_DESTROY;
     sys_close ufd;
     sys_close spi_fd;
     State_Monad.return 0
   }"

inductive step :: "phase \<times> driver \<Rightarrow> phase \<times> driver \<Rightarrow> bool" where
  load: "eval (load_config CONFIG_PATH) d = None \<Longrightarrow>
         step (Start, d) (Configured, exec (load_config CONFIG_PATH) d)"
| crash: "eval (load_config CONFIG_PATH) d = Some ft \<Longrightarrow>
          step (Start, d) (Faulted ft, exec (load_config CONFIG_PATH) d)"
| spi_failure: "eval open_spi d < 0 \<Longrightarrow> step (Configured, d) (Terminated 1, exec open_spi d)"
| spi_opened: "0 \<le> eval open_spi d \<Longrightarrow>
               step (Configured, d) (Spi_open (eval open_spi d), exec open_spi d)"
| exported: "step (Spi_open spi_fd, d) (Exported spi_fd, exec export_buttons d)"
| created: "step (Exported spi_fd, d) (Running spi_fd (eval open_uinput d), exec open_uinput d)"
| pass: "loop_condition \<noteq> 0 \<Longrightarrow>
         step (Running spi_fd ufd, d) (Running spi_fd ufd, exec (cycle spi_fd ufd) d)"
| leave: "loop_condition = 0 \<Longrightarrow>
          step (Running spi_fd ufd, d)
            (Terminated (eval (teardown spi_fd ufd) d), exec (teardown spi_fd ufd) d)"

definition reachable :: "environment \<Rightarrow> phase \<times> driver \<Rightarrow> bool" where
  "reachable e c \<longleftrightarrow> step\<^sup>*\<^sup>* (Start, init_driver e) c"

fun is_report :: "sys_call \<Rightarrow> bool" where
  "is_report (Write fd (Event ev)) = True"
| "is_report c = False"

definition silent :: "sys_call list \<Rightarrow> bool" where
  "silent t \<longleftrightarrow> list_all (\<lambda>c. \<not> is_report c) t"

fun phase_inv :: "environment \<Rightarrow> phase \<times> driver \<Rightarrow> bool" where
  "phase_inv e (ph, d) \<longleftrightarrow>
     table_ok d \<and> env d = e \<and>
     (case ph of
        Running spi_fd ufd \<Rightarrow> (5 + length (table d)) dvd length (events_to ufd (trace d))
      | _ \<Rightarrow> silent (trace d))"

fun phase_of :: "environment \<Rightarrow> outcome \<Rightarrow> phase" where
  "phase_of e Looping = Running (spi_of e) (ufd_of e)"
| "phase_of e (Exit r) = Terminated r"
| "phase_of e (Crashed ft) = Faulted ft"

inductive_cases step_StartE: "step (Start, d) c"
inductive_cases step_ConfiguredE: "step (Configured, d) c"
inductive_cases step_Spi_openE: "step (Spi_open fd, d) c"
inductive_cases step_ExportedE: "step (Exported fd, d) c"
inductive_cases step_RunningE: "step (Running fd ufd, d) c"
inductive_cases step_TerminatedE: "step (Terminated r, d) c"
inductive_cases step_FaultedE: "step (Faulted ft, d) c"

subsection \<open>Silent traces\<close>

lemma silent_simps [simp]:
  "silent []" "silent (t @ u) \<longleftrightarrow> silent t \<and> silent u"
  "silent (c # t) \<longleftrightarrow> \<not> is_report c \<and> silent t"
  by (simp_all add: silent_def)

lemma events_to_silent: "silent t \<Longrightarrow> events_to fd t = []"
proof (induction t)
  case (Cons c t)
  then show ?case
    by (cases c rule: is_report.cases) simp_all
qed simp

lemma silent_export_all [simp]: "silent (export_all e n tbl)"
  by (induction tbl arbitrary: n) (simp_all add: export_calls_def)

lemma silent_create_calls [simp]: "silent (create_calls ufd tbl)"
  by (simp add: create_calls_def silent_def list_all_iff)

lemma silent_load_config:
  assumes "silent (trace d)"
  shows "silent (trace (exec (load_config path) d))"
proof -
  obtain cs where "trace (exec (load_config path) d) = trace d @ cs"
    and "set cs \<subseteq> {Fopen path ''r'', Fclose, Perror ''fopen''} \<union> range Printf"
    using trace_load_config_stdio by blast
  with assms show ?thesis
    by (auto simp: silent_def list_all_iff)
qed

subsection \<open>The parts of \<open>main\<close>\<close>

lemma run_open_spi [sys_run]:
  "run_state open_spi d =
     (open_fd (env d) (now d) SPI_PATH,
      logs (if open_fd (env d) (now d) SPI_PATH < 0
            then [Open SPI_PATH [O_RDWR], Perror ''SPI open'']
            else [Open SPI_PATH [O_RDWR],
                  Ioctl (open_fd (env d) (now d) SPI_PATH)
                    (SPI_IOC_WR_MAX_SPEED_HZ (of_nat MAX_SPEED))]) d)"
  by (simp add: open_spi_def sys_run log_eq_logs)

lemma run_open_uinput [sys_run]:
  "wf_driver d \<Longrightarrow>
   run_state open_uinput d =
     (open_fd (env d) (now d) ''/dev/uinput'',
      logs (Open ''/dev/uinput'' [O_WRONLY, O_NONBLOCK] #
            create_calls (open_fd (env d) (now d) ''/dev/uinput'') (table d)) d)"
  by (simp add: open_uinput_def sys_run log_eq_logs)

lemma run_teardown [sys_run]:
  "run_state (teardown spi_fd ufd) d =
     (0, logs [Ioctl ufd UI_DEV_DESTROY, Close ufd, Close spi_fd] d)"
  by (simp add: teardown_def sys_run log_eq_logs)

lemma loop_continues [simp, intro]: "loop_condition \<noteq> 0"
  by (simp add: loop_condition_def)

lemmas step_pass = step.pass [OF loop_continues]

subsection \<open>The invariant\<close>

lemma phase_inv_step:
  assumes "step c c'" and "phase_inv e c"
  shows "phase_inv e c'"
  using assms
proof (induction rule: step.induct)
  case (pass spi_fd ufd d)
  then have wf: "wf_driver d"
    by (simp add: table_ok_def)
  from pass show ?case
    by (simp add: exec_def run_cycle [OF wf])
next
  case (created spi_fd d)
  then have wf: "wf_driver d"
    by (simp add: table_ok_def)
  from created show ?case
    by (simp add: exec_def eval_def run_open_uinput [OF wf] events_to_silent)
next
  case (exported spi_fd d)
  then have wf: "wf_driver d"
    by (simp add: table_ok_def)
  from exported show ?case
    by (simp add: exec_def run_export_buttons [OF wf])
qed (simp_all add: table_ok_load_config silent_load_config exec_def [of open_spi] run_open_spi)


subsection \<open>Reaching the loop\<close>

lemma reachable_step: "reachable e c \<Longrightarrow> step c c' \<Longrightarrow> reachable e c'"
  by (auto simp: reachable_def)

lemma reachable_Start [simp]: "reachable e (Start, init_driver e)"
  by (simp add: reachable_def)

lemma reachable_Configured:
  "eval (load_config CONFIG_PATH) (init_driver e) = None \<Longrightarrow> reachable e (Configured, loaded e)"
  unfolding loaded_def by (rule reachable_step [OF reachable_Start]) (rule step.load)

lemma startup_loaded:
  assumes "0 \<le> spi_of e"
  shows "eval open_spi (loaded e) = spi_of e"
    and "eval open_uinput (exec export_buttons (exec open_spi (loaded e))) = ufd_of e"
    and "exec open_uinput (exec export_buttons (exec open_spi (loaded e))) =
           logs (startup_calls e (now (loaded e)) (table (loaded e))) (loaded e)"
proof -
  let ?d1 = "loaded e"
  let ?d2 = "exec open_spi ?d1"
  let ?d3 = "exec export_buttons ?d2"
  from assms show "eval open_spi ?d1 = spi_of e"
    by (simp add: eval_def [of open_spi] run_open_spi spi_of_def)
  from assms have d2: "?d2 = logs [Open SPI_PATH [O_RDWR],
                Ioctl (spi_of e) (SPI_IOC_WR_MAX_SPEED_HZ (of_nat MAX_SPEED))] ?d1"
    by (simp add: exec_def [of open_spi] run_open_spi spi_of_def)
  have d3: "?d3 = logs ([Open SPI_PATH [O_RDWR],
                Ioctl (spi_of e) (SPI_IOC_WR_MAX_SPEED_HZ (of_nat MAX_SPEED))] @
              export_all e (now ?d1 + 2) (table ?d1)) ?d1"
    by (simp add: d2 exec_def [of export_buttons] run_export_buttons)
  show "eval open_uinput ?d3 = ufd_of e"
    and "exec open_uinput ?d3 = logs (startup_calls e (now ?d1) (table ?d1)) ?d1"
    by (simp_all add: d3 eval_def [of open_uinput] exec_def [of open_uinput] run_open_uinput
        ufd_of_def uinput_fd_def startup_calls_def spi_of_def add.assoc)
qed

subsection \<open>The shape of the machine\<close>

lemma step_final: "\<not> step (Terminated r, d) c" "\<not> step (Faulted ft, d) c"
  by (auto elim: step_TerminatedE step_FaultedE)

lemma step_Running:
  "step (Running spi_fd ufd, d) c \<longleftrightarrow> c = (Running spi_fd ufd, exec (cycle spi_fd ufd) d)"
  by (auto elim: step_RunningE intro: step_pass)

lemma step_deterministic:
  assumes "step c c'" and "step c c''"
  shows "c' = c''"
  using assms
  by (induction rule: step.induct)
    (auto elim: step_StartE step_ConfiguredE step_Spi_openE step_ExportedE step_RunningE)

lemma step_progress:
  "(\<exists>c'. step (ph, d) c') \<longleftrightarrow>
     (case ph of Terminated r \<Rightarrow> False | Faulted ft \<Rightarrow> False | _ \<Rightarrow> True)"
proof (cases ph)
  case Start
  then show ?thesis
    by (cases "eval (load_config CONFIG_PATH) d") (auto intro: step.load step.crash)
next
  case Configured
  then show ?thesis
    by (cases "eval open_spi d < 0") (auto intro: step.spi_failure step.spi_opened simp: not_less)
qed (auto intro: step.intros step_pass simp: step_final)

subsection \<open>Properties\<close>

text \<open>
  C9 (invariant). In every configuration that the program reaches from its initial state,
  the table is well formed and the environment is the one the program started in; before
  the loop no event has been written to any descriptor; and in the loop the number of
  events that the device has received is a multiple of the length of a batch: between two
  passes the device never holds a part of a batch.
\<close>

theorem reachable_invariant:
  assumes "reachable e c"
  shows "phase_inv e c"
  using assms unfolding reachable_def
proof (induction rule: rtranclp_induct)
  case base
  show ?case by simp
next
  case (step c c')
  from step.hyps(2) step.IH show ?case
    by (rule phase_inv_step)
qed

theorem reachable_invariant_witness:
  "reachable quiet_env (Terminated 1, exec open_spi (loaded quiet_env)) \<and>
   phase_inv quiet_env (Terminated 1, exec open_spi (loaded quiet_env))"
proof -
  have l: "eval (load_config CONFIG_PATH) (init_driver quiet_env) = None"
    by (simp add: eval_def run_load_config_no_file)
  have "eval open_spi (loaded quiet_env) < 0"
    by (simp add: eval_def run_open_spi)
  with reachable_Configured [OF l]
  have r: "reachable quiet_env (Terminated 1, exec open_spi (loaded quiet_env))"
    by (intro reachable_step [OF _ step.spi_failure])
  with reachable_invariant [OF r] show ?thesis
    by simp
qed

end
