(* ===== verification/Driver_Run.thy ===== *)
theory Driver_Run
  imports Driver_Steps "HOL-Library.Stream" "HOL-Library.Sublist"
begin

text \<open>
  The run of the driver as an infinite sequence, and what holds along it. \<open>next_config\<close> is
  the step relation of \<open>Driver_Steps\<close> as a function (a final configuration is its own
  successor), and \<open>run e\<close> is the stream of the configurations that the program passes in
  the environment \<open>e\<close>: the program of \<^verbatim>\<open>src/gamepad_driver.c\<close> has no end, so its run is a
  stream and \<open>main n\<close> is the finite part of it that ends after \<open>n\<close> passes of the loop.
  \<open>operation\<close> and \<open>perform\<close> name the operations of the driver, so that what every
  operation keeps is one statement.

  The lemmas: steps and successors coincide, the reachable configurations are the
  elements of the run, and the run after four steps of start-up and \<open>n\<close> passes is the end
  of \<open>main n\<close>; the loop delivers one synchronisation report per
  step for ever; the statements after the loop are never reached and the device is never
  destroyed; every operation keeps the table well formed, leaves the environment alone
  and only appends to the trace.
\<close>

fun halted :: "phase \<Rightarrow> bool" where
  "halted (Terminated r) = True"
| "halted (Faulted ft) = True"
| "halted ph = False"

fun next_config :: "phase \<times> driver \<Rightarrow> phase \<times> driver" where
  "next_config (Start, d) =
     (case eval (load_config CONFIG_PATH) d of
        None \<Rightarrow> (Configured, exec (load_config CONFIG_PATH) d)
      | Some ft \<Rightarrow> (Faulted ft, exec (load_config CONFIG_PATH) d))"
| "next_config (Configured, d) =
     (if eval open_spi d < 0 then (Terminated 1, exec open_spi d)
      else (Spi_open (eval open_spi d), exec open_spi d))"
| "next_config (Spi_open spi_fd, d) = (Exported spi_fd, exec export_buttons d)"
| "next_config (Exported spi_fd, d) = (Running spi_fd (eval open_uinput d), exec open_uinput d)"
| "next_config (Running spi_fd ufd, d) =
     (if loop_condition \<noteq> 0 then (Running spi_fd ufd, exec (Event_Loop.cycle spi_fd ufd) d)
      else (Terminated (eval (teardown spi_fd ufd) d), exec (teardown spi_fd ufd) d))"
| "next_config (Terminated r, d) = (Terminated r, d)"
| "next_config (Faulted ft, d) = (Faulted ft, d)"

definition run :: "environment \<Rightarrow> (phase \<times> driver) stream" where
  "run e = siterate next_config (Start, init_driver e)"

fun destroys :: "sys_call \<Rightarrow> bool" where
  "destroys (Ioctl fd UI_DEV_DESTROY) = True"
| "destroys c = False"

definition device_kept :: "sys_call list \<Rightarrow> bool" where
  "device_kept t \<longleftrightarrow> list_all (\<lambda>c. \<not> destroys c) t"

definition syn_reports :: "int \<Rightarrow> sys_call list \<Rightarrow> nat" where
  "syn_reports ufd t =
     length (filter (\<lambda>ev. kind ev = (u16_of_int EV_SYN, u16_of_int SYN_REPORT)) (events_to ufd t))"

datatype operation =
    Config_line string
  | Load_config string
  | Export_buttons
  | Create_device int
  | Cycle int int
  | Main_loop nat int int
  | Main nat
  | Teardown int int

fun perform :: "operation \<Rightarrow> driver \<Rightarrow> driver" where
  "perform (Config_line c) = exec (config_line c)"
| "perform (Load_config path) = exec (load_config path)"
| "perform Export_buttons = exec export_buttons"
| "perform (Create_device ufd) = exec (create_device ufd)"
| "perform (Cycle spi_fd ufd) = exec (Event_Loop.cycle spi_fd ufd)"
| "perform (Main_loop n spi_fd ufd) = exec (main_loop n spi_fd ufd)"
| "perform (Main n) = exec (main n)"
| "perform (Teardown spi_fd ufd) = exec (teardown spi_fd ufd)"

fun loads :: "operation \<Rightarrow> bool" where
  "loads (Config_line c) = True"
| "loads (Load_config path) = True"
| "loads (Main n) = True"
| "loads a = False"

inductive_cases step_to_TerminatedE: "step c (Terminated r, d)"

subsection \<open>Steps and the successor function\<close>

lemma step_next: "step c c' \<longleftrightarrow> \<not> halted (fst c) \<and> c' = next_config c"
proof (cases c)
  case (Pair ph d)
  show ?thesis
    unfolding Pair
    by (cases ph)
      (auto elim: step_StartE step_ConfiguredE step_Spi_openE step_ExportedE step_RunningE
        step_TerminatedE step_FaultedE intro: step.intros step_pass
        simp: not_less split: option.splits)
qed

lemma next_config_halted: "halted (fst c) \<Longrightarrow> next_config c = c"
  by (cases c rule: next_config.cases) simp_all

lemma funpow_halted: "halted (fst c) \<Longrightarrow> (next_config ^^ n) c = c"
  by (induction n) (simp_all add: next_config_halted)

lemma exec_main_loop_Suc:
  "exec (main_loop (Suc n) spi_fd ufd) d = exec (main_loop n spi_fd ufd) (exec (Event_Loop.cycle spi_fd ufd) d)"
  by (simp add: exec_def split: prod.splits)

lemma funpow_Running:
  "(next_config ^^ n) (Running spi_fd ufd, d) = (Running spi_fd ufd, exec (main_loop n spi_fd ufd) d)"
proof (induction n arbitrary: d)
  case 0
  show ?case by (simp add: exec_def)
next
  case (Suc n)
  have "(next_config ^^ Suc n) (Running spi_fd ufd, d) =
      (next_config ^^ n) (next_config (Running spi_fd ufd, d))"
    by (simp only: funpow_Suc_right o_apply)
  also have "\<dots> = (next_config ^^ n) (Running spi_fd ufd, exec (Event_Loop.cycle spi_fd ufd) d)"
    by simp
  finally show ?case
    by (simp only: Suc exec_main_loop_Suc)
qed

subsection \<open>The run\<close>

declare snth.simps [simp del]

lemma run_0 [simp]: "run e !! 0 = (Start, init_driver e)"
  and run_Suc: "run e !! Suc i = next_config (run e !! i)"
  by (simp_all add: run_def)

lemma run_add: "run e !! (i + k) = (next_config ^^ k) (run e !! i)"
  by (simp only: run_def snth_siterate add.commute [of i k] funpow_add o_apply)

lemma reachable_run: "reachable e (run e !! i)"
proof (induction i)
  case (Suc i)
  show ?case
  proof (cases "halted (fst (run e !! i))")
    case True
    with Suc show ?thesis by (simp add: run_Suc next_config_halted)
  next
    case False
    then have "step (run e !! i) (run e !! Suc i)"
      by (simp add: step_next run_Suc)
    with Suc show ?thesis by (rule reachable_step)
  qed
qed simp

lemma reachable_iff_run: "reachable e c \<longleftrightarrow> (\<exists>i. run e !! i = c)"
proof
  assume "reachable e c"
  then show "\<exists>i. run e !! i = c"
    unfolding reachable_def
  proof (induction rule: rtranclp_induct)
    case base
    have "run e !! 0 = (Start, init_driver e)" by simp
    then show ?case ..
  next
    case (step c c')
    then obtain i where "run e !! i = c" by blast
    with step.hyps(2) have "run e !! Suc i = c'"
      by (simp add: step_next run_Suc)
    then show ?case ..
  qed
qed (auto simp: reachable_run)

subsection \<open>The run and \<open>main\<close>\<close>

lemma run_Start:
  "run e !! 1 =
     (case eval (load_config CONFIG_PATH) (init_driver e) of
        None \<Rightarrow> (Configured, loaded e) | Some ft \<Rightarrow> (Faulted ft, loaded e))"
  by (simp add: run_Suc loaded_def split: option.splits)

lemma run_faulted:
  assumes "eval (load_config CONFIG_PATH) (init_driver e) = Some ft" and "1 \<le> i"
  shows "run e !! i = (Faulted ft, loaded e)"
proof -
  from assms(2) obtain k where "i = 1 + k"
    by (auto simp: le_iff_add)
  with assms(1) show ?thesis
    by (simp only: run_add run_Start) (simp add: funpow_halted)
qed

lemma run_spi_failure:
  assumes "eval (load_config CONFIG_PATH) (init_driver e) = None" and "spi_of e < 0"
    and "2 \<le> i"
  shows "run e !! i =
           (Terminated 1, logs [Open SPI_PATH [O_RDWR], Perror ''SPI open''] (loaded e))"
proof -
  from assms(3) obtain k where "i = 2 + k"
    by (auto simp: le_iff_add)
  moreover from assms(2) have "eval open_spi (loaded e) < 0"
    and "exec open_spi (loaded e) = logs [Open SPI_PATH [O_RDWR], Perror ''SPI open''] (loaded e)"
    by (simp_all add: eval_def exec_def run_open_spi spi_of_def)
  with assms(1) have "run e !! Suc 1 =
      (Terminated 1, logs [Open SPI_PATH [O_RDWR], Perror ''SPI open''] (loaded e))"
    by (simp only: run_Suc [of e 1] run_Start) simp
  ultimately show ?thesis
    by (simp only: run_add [of e 2 k] Suc_1) (simp add: funpow_halted)
qed

lemma run_loop_start:
  assumes "eval (load_config CONFIG_PATH) (init_driver e) = None" and "0 \<le> spi_of e"
  shows "run e !! 4 = (Running (spi_of e) (ufd_of e),
           logs (startup_calls e (now (loaded e)) (table (loaded e))) (loaded e))"
proof -
  note s = startup_loaded [OF assms(2)]
  from assms have "run e !! Suc 1 = (Spi_open (spi_of e), exec open_spi (loaded e))"
    by (simp only: run_Suc [of e 1] run_Start) (simp add: s not_less [symmetric])
  then have "run e !! Suc (Suc (Suc 1)) = (Running (spi_of e) (ufd_of e),
      logs (startup_calls e (now (loaded e)) (table (loaded e))) (loaded e))"
    by (simp only: run_Suc [of e "Suc _"]) (simp add: s)
  then show ?thesis
    by (simp add: eval_nat_numeral)
qed

lemma run_loop:
  assumes "eval (load_config CONFIG_PATH) (init_driver e) = None" and "0 \<le> spi_of e"
  shows "run e !! (4 + n) = (Running (spi_of e) (ufd_of e),
           logs (startup_calls e (now (loaded e)) (table (loaded e)) @
                 loop_calls n e (loop_start e) (spi_of e) (ufd_of e) (table (loaded e))) (loaded e))"
  by (simp only: run_add run_loop_start [OF assms] funpow_Running)
    (simp add: exec_def run_main_loop loop_start_def)

subsection \<open>The device is kept\<close>

lemma device_kept_simps [simp]:
  "device_kept []" "device_kept (t @ u) \<longleftrightarrow> device_kept t \<and> device_kept u"
  "device_kept (c # t) \<longleftrightarrow> \<not> destroys c \<and> device_kept t"
  by (simp_all add: device_kept_def)

lemma kept_export_all [simp]: "device_kept (export_all e n tbl)"
  by (induction tbl arbitrary: n) (simp_all add: export_calls_def)

lemma kept_create_calls [simp]: "device_kept (create_calls ufd tbl)"
  by (simp add: create_calls_def device_kept_def list_all_iff)

lemma kept_button_calls [simp]: "device_kept (button_calls e n ufd t tbl)"
  by (induction tbl arbitrary: n) (simp_all add: gpio_calls_def Let_def)

lemma kept_cycle_calls [simp]: "device_kept (cycle_calls e n spi_fd ufd tbl)"
  by (simp add: cycle_calls_def axis_events_def)

lemma kept_load_config:
  assumes "device_kept (trace d)"
  shows "device_kept (trace (exec (load_config path) d))"
proof -
  obtain cs where "trace (exec (load_config path) d) = trace d @ cs"
    and "set cs \<subseteq> {Fopen path ''r'', Fclose, Perror ''fopen''} \<union> range Printf"
    using trace_load_config_stdio by blast
  with assms show ?thesis
    by (auto simp: device_kept_def list_all_iff)
qed

lemma kept_step:
  assumes "step c c'" and "phase_inv e c" and "device_kept (trace (snd c))"
  shows "device_kept (trace (snd c'))"
  using assms
proof (induction rule: step.induct)
  case (pass spi_fd ufd d)
  then have wf: "wf_driver d"
    by (simp add: table_ok_def)
  from pass show ?case
    by (simp add: exec_def run_cycle [OF wf])
next
  case (created spi_fd d)
  then have wf: "wf_driver d"
    by (simp add: table_ok_def)
  from created show ?case
    by (simp add: exec_def run_open_uinput [OF wf])
next
  case (exported spi_fd d)
  then have wf: "wf_driver d"
    by (simp add: table_ok_def)
  from exported show ?case
    by (simp add: exec_def run_export_buttons [OF wf])
qed (simp_all add: kept_load_config exec_def [of open_spi] run_open_spi)

lemma reachable_inv:
  assumes "reachable e c"
  shows "phase_inv e c \<and> device_kept (trace (snd c))"
  using assms unfolding reachable_def
proof (induction rule: rtranclp_induct)
  case (step c c')
  then show ?case
    by (blast intro: phase_inv_step kept_step)
qed simp

lemma exit_status:
  assumes "reachable e (Terminated r, d)"
  shows "r = 1"
  using assms unfolding reachable_def
proof (cases rule: rtranclp.cases)
  case (rtrancl_into_rtrancl c)
  from this(2) show ?thesis
    by (rule step_to_TerminatedE) simp_all
qed

subsection \<open>Reports in the loop\<close>

lemma syn_reports_append [simp]:
  "syn_reports ufd (t @ u) = syn_reports ufd t + syn_reports ufd u"
  and syn_reports_Nil [simp]: "syn_reports ufd [] = 0"
  by (simp_all add: syn_reports_def)

lemma syn_reports_cycle [simp]: "syn_reports ufd (cycle_calls e n spi_fd ufd tbl) = 1"
proof -
  let ?K = "(u16_of_int EV_SYN, u16_of_int SYN_REPORT)"
  have "syn_reports ufd (cycle_calls e n spi_fd ufd tbl) =
      length (filter (\<lambda>k. k = ?K) (map kind (cycle_events e n spi_fd tbl)))"
    by (simp add: syn_reports_def filter_map o_def)
  also have "\<dots> = 1"
    by (simp add: kind_cycle_events batch_kinds_def u16_of_int_def gp_consts)
  finally show ?thesis .
qed

lemma syn_reports_loop [simp]: "syn_reports ufd (loop_calls k e n spi_fd ufd tbl) = k"
  by (induction k arbitrary: n) simp_all

lemma relpow_Running:
  "(step ^^ k) (Running spi_fd ufd, d) (Running spi_fd ufd, exec (main_loop k spi_fd ufd) d)"
proof (induction k arbitrary: d)
  case 0
  show ?case by (simp add: exec_def)
next
  case (Suc k)
  from relpowp_Suc_I2 [OF step_pass Suc] show ?case
    by (simp only: exec_main_loop_Suc)
qed

lemma idle_env_run:
  "run idle_env !! 4 = (Running 3 3, snd (run idle_env !! 4))"
proof -
  have "eval (load_config CONFIG_PATH) (init_driver idle_env) = None" and "spi_of idle_env = 3"
    and "ufd_of idle_env = 3"
    by (simp_all add: eval_def run_load_config_no_file spi_of_def ufd_of_def uinput_fd_def)
  with run_loop_start [of idle_env] show ?thesis by simp
qed

lemma reachable_idle: "reachable idle_env (Running 3 3, snd (run idle_env !! 4))"
  by (subst idle_env_run [symmetric]) (rule reachable_run)

subsection \<open>Operations and the table\<close>

lemma perform_logs:
  assumes "wf_driver d" and "\<not> loads a"
  shows "\<exists>cs. perform a d = logs cs d"
  using assms by (cases a) (auto simp: exec_def sys_run)

lemma load_config_well_formed:
  assumes "table_ok d"
  shows "table_ok (exec (load_config path) d) \<and> env (exec (load_config path) d) = env d \<and>
         prefix (trace d) (trace (exec (load_config path) d))"
proof -
  obtain cs where "trace (exec (load_config path) d) = trace d @ cs"
    using trace_load_config_stdio by blast
  with assms show ?thesis
    by (simp add: table_ok_load_config)
qed

lemma main_well_formed:
  assumes "table_ok d"
  shows "table_ok (exec (main n) d) \<and> env (exec (main n) d) = env d \<and>
         prefix (trace d) (trace (exec (main n) d))"
proof -
  let ?d = "exec (load_config CONFIG_PATH) d"
  have "exec (main n) d = logs [] ?d \<or>
      exec (main n) d = logs [Open SPI_PATH [O_RDWR], Perror ''SPI open''] ?d \<or>
      exec (main n) d = logs (startup_calls (env d) (now ?d) (table ?d) @
        loop_calls n (env d) (now ?d + length (startup_calls (env d) (now ?d) (table ?d)))
          (open_fd (env d) (now ?d) SPI_PATH) (uinput_fd (env d) (now ?d) (table ?d)) (table ?d)) ?d"
    by (simp add: exec_def [of "main n"] run_main [OF assms] Let_def split: option.splits)
  then obtain cs where "exec (main n) d = logs cs ?d"
    by blast
  with load_config_well_formed [OF assms, of CONFIG_PATH] show ?thesis
    by (auto intro: prefix_order.trans)
qed

subsection \<open>Properties\<close>

text \<open>
  C11 (equivalence). The run and \<open>main\<close> agree. For every environment and every number \<open>n\<close>
  of passes, the configuration of the run after four steps of start-up and \<open>n\<close> further
  steps is the state in which \<open>main n\<close> ends, in the phase of its result: the step relation
  and the fuelled function describe the same program, also when the configuration faults
  or the SPI device cannot be opened (the run then stays in its final configuration).
\<close>

theorem run_eq_main:
  "run e !! (4 + n) = (phase_of e (eval (main n) (init_driver e)), exec (main n) (init_driver e))"
proof (cases "eval (load_config CONFIG_PATH) (init_driver e)")
  case (Some ft)
  with run_faulted [OF Some, of "4 + n"] show ?thesis
    by (simp add: eval_def [of "main n"] exec_def [of "main n"] run_main_init)
next
  case None
  show ?thesis
  proof (cases "spi_of e < 0")
    case True
    with run_spi_failure [OF None True, of "4 + n"] None show ?thesis
      by (simp add: eval_def [of "main n"] exec_def [of "main n"] run_main_init)
  next
    case False
    with run_loop [OF None, of n] None show ?thesis
      by (simp add: eval_def [of "main n"] exec_def [of "main n"] run_main_init)
  qed
qed

text \<open>
  C14 (liveness). Reports keep coming. From every configuration that the program reaches
  in its loop, and for every \<open>k\<close>, \<open>k\<close> further steps lead to a configuration of the loop in
  which the device has received exactly \<open>k\<close> more synchronisation reports: every pass
  contributes one synchronisation report, no more and no less, and the loop is never left.
  Every system call of the model returns, so the statement is about the program and not
  about the kernel: no path through the body of the loop skips the report or repeats it.
\<close>

theorem reports_keep_coming:
  assumes "reachable e (Running spi_fd ufd, d)"
  shows "(step ^^ k) (Running spi_fd ufd, d) (Running spi_fd ufd, exec (main_loop k spi_fd ufd) d) \<and>
         syn_reports ufd (trace (exec (main_loop k spi_fd ufd) d)) = syn_reports ufd (trace d) + k"
proof -
  from reachable_inv [OF assms] have "wf_driver d"
    by (simp add: table_ok_def)
  with relpow_Running [of k spi_fd ufd d] show ?thesis
    by (simp add: exec_def run_main_loop)
qed

theorem reports_keep_coming_witness:
  "reachable idle_env (Running 3 3, snd (run idle_env !! 4)) \<and>
   (step ^^ 2) (Running 3 3, snd (run idle_env !! 4))
     (Running 3 3, exec (main_loop 2 3 3) (snd (run idle_env !! 4))) \<and>
   syn_reports 3 (trace (exec (main_loop 2 3 3) (snd (run idle_env !! 4)))) =
     syn_reports 3 (trace (snd (run idle_env !! 4))) + 2"
  using reports_keep_coming [OF reachable_idle, of 2] by (simp add: reachable_idle)

text \<open>
  C15 (safety). The statements after the loop are never executed. No configuration that
  the program reaches has the exit status 0, and no reachable trace contains the request
  \<^verbatim>\<open>UI_DEV_DESTROY\<close>: the virtual device is never destroyed by the program and the two
  descriptors are never closed by it; they are released only when the process is killed.
\<close>

theorem teardown_unreachable:
  assumes "reachable e (ph, d)"
  shows "ph \<noteq> Terminated 0 \<and> device_kept (trace d)"
  using reachable_inv [OF assms] exit_status [of e 0 d] assms by auto

theorem teardown_unreachable_witness:
  "reachable idle_env (Running 3 3, snd (run idle_env !! 4)) \<and>
   Running 3 3 \<noteq> Terminated 0 \<and> device_kept (trace (snd (run idle_env !! 4)))"
  using teardown_unreachable [OF reachable_idle] by (simp add: reachable_idle)

text \<open>
  C20 (type). Every operation of the driver keeps the state well formed. Started in a
  state whose table is well formed (thirty-two slots, a count within them, every entry a
  known name with its key code and a gpio that is a C \<^verbatim>\<open>int\<close>), each operation ends in such
  a state, leaves the environment alone and only appends to the trace; and only the
  operations that load the configuration change the table.
\<close>

theorem perform_well_formed:
  assumes "table_ok d"
  shows "table_ok (perform a d) \<and> env (perform a d) = env d \<and>
         prefix (trace d) (trace (perform a d)) \<and> (loads a \<or> table (perform a d) = table d)"
proof (cases "loads a")
  case False
  from assms have "wf_driver d"
    by (simp add: table_ok_def)
  from perform_logs [OF this False] obtain cs where "perform a d = logs cs d" ..
  with assms show ?thesis by simp
next
  case True
  show ?thesis
  proof (cases a)
    case (Config_line c)
    obtain ps where "trace (exec (config_line c) d) = trace d @ map Printf ps"
      using trace_config_line_printf by blast
    with assms Config_line show ?thesis
      by (simp add: table_ok_config_line)
  next
    case (Load_config path)
    with load_config_well_formed [OF assms] show ?thesis by simp
  next
    case (Main n)
    with main_well_formed [OF assms] show ?thesis by simp
  qed (use True in simp_all)
qed

theorem perform_well_formed_witness:
  "table_ok (init_driver quiet_env) \<and> table_ok (perform (Cycle 3 4) (init_driver quiet_env)) \<and>
   env (perform (Cycle 3 4) (init_driver quiet_env)) = quiet_env \<and>
   prefix (trace (init_driver quiet_env)) (trace (perform (Cycle 3 4) (init_driver quiet_env))) \<and>
   table (perform (Cycle 3 4) (init_driver quiet_env)) = table (init_driver quiet_env)"
  using perform_well_formed [of "init_driver quiet_env" "Cycle 3 4"] by simp

end
