(* ===== verification/Descriptors.thy ===== *)
theory Descriptors
  imports Event_Loop
begin

text \<open>
  The file descriptors of the driver. \<^verbatim>\<open>src/gamepad_driver.c\<close> opens a descriptor in
  \<^verbatim>\<open>export_gpio\<close> (twice), in \<^verbatim>\<open>read_gpio\<close> (once for every button in every pass of the loop)
  and in \<^verbatim>\<open>main\<close> (the SPI device and \<^verbatim>\<open>/dev/uinput\<close>), and it passes descriptors to
  \<^verbatim>\<open>read\<close>, \<^verbatim>\<open>write\<close>, \<^verbatim>\<open>ioctl\<close> and \<^verbatim>\<open>close\<close>. \<open>track\<close> replays a trace against the
  environment that produced it and keeps the descriptors that are open: an \<^verbatim>\<open>open\<close> that
  succeeds adds its result, a \<^verbatim>\<open>close\<close> removes its argument, and a call on a descriptor
  that is not open ends the replay with \<open>None\<close>.

  The lemmas: the replay of each part of a run (a read of a line, an export, a pass of the
  loop, the start-up), and of the whole run of \<open>main\<close>: no part leaks a descriptor, and the
  only call on a descriptor that is not open is the use of the unchecked result of opening
  \<^verbatim>\<open>/dev/uinput\<close>.
\<close>

fun after_call :: "environment \<Rightarrow> nat \<Rightarrow> sys_call \<Rightarrow> int list \<Rightarrow> int list" where
  "after_call e n (Open p fl) fds = (if 0 \<le> open_fd e n p then open_fd e n p # fds else fds)"
| "after_call e n (Close fd) fds = remove1 fd fds"
| "after_call e n c fds = fds"

fun target :: "sys_call \<Rightarrow> int option" where
  "target (Close fd) = Some fd"
| "target (Read fd k) = Some fd"
| "target (Write fd p) = Some fd"
| "target (Ioctl fd r) = Some fd"
| "target c = None"

fun track :: "environment \<Rightarrow> nat \<Rightarrow> sys_call list \<Rightarrow> int list \<Rightarrow> int list option" where
  "track e n [] fds = Some fds"
| "track e n (c # cs) fds =
     (case target c of
        None \<Rightarrow> track e (Suc n) cs (after_call e n c fds)
      | Some fd \<Rightarrow> if fd \<in> set fds then track e (Suc n) cs (after_call e n c fds) else None)"

definition main_descriptors :: "nat \<Rightarrow> environment \<Rightarrow> int list option" where
  "main_descriptors n e = track e 0 (trace (exec (main n) (init_driver e))) []"

subsection \<open>Replaying the parts of a run\<close>

lemma track_append:
  "track e n (cs @ ds) fds = Option.bind (track e n cs fds) (track e (n + length cs) ds)"
  by (induction cs arbitrary: n fds) (simp_all split: option.splits)

lemma track_stdio:
  assumes "set cs \<subseteq> {Fopen path mode, Fclose, Perror msg} \<union> range Printf"
  shows "track e n cs fds = Some fds"
  using assms by (induction cs arbitrary: n) auto

lemma track_gpio_calls [simp]: "track e n (gpio_calls e n g) fds = Some fds"
  by (simp add: gpio_calls_def Let_def)

lemma track_export_calls [simp]: "track e n (export_calls e n g) fds = Some fds"
  by (simp add: export_calls_def add_5_eq_Suc)

lemma track_export_all [simp]: "track e n (export_all e n tbl) fds = Some fds"
  by (induction tbl arbitrary: n) (simp_all add: track_append)

lemma track_button_calls [simp]:
  "track e n (button_calls e n ufd t tbl) fds = (if tbl = [] \<or> ufd \<in> set fds then Some fds else None)"
  by (induction tbl arbitrary: n) (simp_all add: track_append)

lemma track_ioctls:
  "track e n (map (\<lambda>x. Ioctl fd (f x)) xs) fds = (if xs = [] \<or> fd \<in> set fds then Some fds else None)"
  by (induction xs arbitrary: n) simp_all

lemma track_create_calls [simp]:
  "track e n (create_calls ufd tbl) fds = (if ufd \<in> set fds then Some fds else None)"
  by (simp add: create_calls_def track_append track_ioctls)

lemma track_cycle_calls [simp]:
  "track e n (cycle_calls e n spi_fd ufd tbl) fds =
     (if spi_fd \<in> set fds \<and> ufd \<in> set fds then Some fds else None)"
  by (simp add: cycle_calls_def axis_events_def track_append offsets)

lemma track_loop_calls [simp]:
  "track e n (loop_calls k e n spi_fd ufd tbl) fds =
     (if k = 0 \<or> spi_fd \<in> set fds \<and> ufd \<in> set fds then Some fds else None)"
  by (induction k arbitrary: n) (simp_all add: track_append)

lemma track_startup_calls:
  assumes "0 \<le> open_fd e n SPI_PATH"
  shows "track e n (startup_calls e n tbl) [] =
     (if 0 \<le> uinput_fd e n tbl then Some [uinput_fd e n tbl, open_fd e n SPI_PATH] else None)"
  using assms by (auto simp: startup_calls_def track_append uinput_fd_def offsets)

lemma track_loaded: "track e 0 (trace (loaded e)) [] = Some []"
proof -
  obtain cs where "trace (loaded e) = trace (init_driver e) @ cs"
    and "set cs \<subseteq> {Fopen CONFIG_PATH ''r'', Fclose, Perror ''fopen''} \<union> range Printf"
    unfolding loaded_def using trace_load_config_stdio by blast
  then show ?thesis
    by (simp add: track_stdio)
qed

subsection \<open>Properties\<close>

text \<open>
  C13 (safety). The descriptors of a run. Replayed against its environment, the trace of
  \<open>main n\<close> ends with no descriptor open when the configuration faults or the SPI device
  cannot be opened, and with exactly the two descriptors of the SPI device and of
  \<^verbatim>\<open>/dev/uinput\<close> open after any number of passes of the loop: every descriptor that
  \<^verbatim>\<open>export_gpio\<close> and \<^verbatim>\<open>read_gpio\<close> open is closed again, so the loop cannot run out of
  descriptors, and every call is made on a descriptor that is open. The one exception is
  the result of opening \<^verbatim>\<open>/dev/uinput\<close>, which \<open>main\<close> does not check: when it is negative
  the replay fails, because the requests that create the device are made on it.
\<close>

theorem main_descriptors_eq:
  "main_descriptors n e =
     (case eval (main n) (init_driver e) of
        Looping \<Rightarrow> if 0 \<le> ufd_of e then Some [ufd_of e, spi_of e] else None
      | _ \<Rightarrow> Some [])"
proof (cases "eval (load_config CONFIG_PATH) (init_driver e)")
  case (Some ft)
  then show ?thesis
    by (simp add: main_descriptors_def eval_def [of "main n"] exec_def [of "main n"]
        run_main_init track_loaded)
next
  case None
  show ?thesis
  proof (cases "spi_of e < 0")
    case True
    moreover from True have "open_fd e (length (trace (loaded e))) SPI_PATH < 0"
      by (simp add: spi_of_def now_def)
    ultimately show ?thesis
      using None
      by (simp add: main_descriptors_def eval_def [of "main n"] exec_def [of "main n"]
          run_main_init track_append track_loaded)
  next
    case False
    then have "0 \<le> open_fd e (now (loaded e)) SPI_PATH"
      by (simp add: spi_of_def)
    from track_startup_calls [OF this, of "table (loaded e)"] False None show ?thesis
      by (simp add: main_descriptors_def eval_def [of "main n"] exec_def [of "main n"]
          run_main_init track_append track_loaded loop_start_def ufd_of_def spi_of_def
          now_def [of "loaded e"])
  qed
qed

end
