(* ===== verification/Steady_Reports.thy ===== *)
theory Steady_Reports
  imports Event_Loop
begin

text \<open>
  What the loop of \<^verbatim>\<open>main\<close> in \<^verbatim>\<open>src/gamepad_driver.c\<close> promises, as a function without
  state: \<open>report\<close> is one batch of events, computed from a time stamp, the four samples of
  the converter and the levels of the lines. In an environment whose answers do not depend
  on the time of the call (\<open>steady\<close>), the events that the driver writes are one \<open>report\<close> of
  the same inputs per pass, stamped with the clock at the start of the pass, and the
  passes are \<open>period\<close> calls apart.
\<close>

definition report ::
  "timeval \<Rightarrow> (u8 \<Rightarrow> int) \<Rightarrow> (int \<Rightarrow> int) \<Rightarrow> ButtonConfig list \<Rightarrow> input_event list" where
  "report t sample level tbl =
     [event t EV_ABS ABS_X (scale_axis (sample 0) 0),
      event t EV_ABS ABS_Y (scale_axis (sample 4) 0),
      event t EV_ABS ABS_RX (scale_axis (sample 1) 1),
      event t EV_ABS ABS_RY (scale_axis (sample 5) 1)] @
     map (\<lambda>b. event t EV_KEY (keycode b) (level (gpio b))) tbl @
     [event t EV_SYN SYN_REPORT 0]"

definition steady :: "environment \<Rightarrow> bool" where
  "steady e \<longleftrightarrow>
     (\<forall>n p. open_fd e n p = open_fd e 0 p) \<and>
     (\<forall>n fd. read_byte e n fd = read_byte e 0 fd) \<and>
     (\<forall>n fd tx. spi_rx e n fd tx = spi_rx e 0 fd tx)"

definition period :: "environment \<Rightarrow> int \<Rightarrow> int \<Rightarrow> ButtonConfig list \<Rightarrow> nat" where
  "period e spi_fd ufd tbl = length (cycle_calls e 0 spi_fd ufd tbl)"

definition steady_reports :: "nat \<Rightarrow> environment \<Rightarrow> input_event list" where
  "steady_reports n e =
     concat (map (\<lambda>i. report (clock e (loop_start e + i * period e (spi_of e) (ufd_of e) (table (loaded e))))
                    (adc_at e 0 (spi_of e)) (gpio_level e 0) (table (loaded e))) [0..<n])"

subsection \<open>Answers that do not depend on time\<close>

lemma steadyD:
  assumes "steady e"
  shows "open_fd e n p = open_fd e m p" and "read_byte e n fd = read_byte e m fd"
    and "spi_rx e n fd tx = spi_rx e m fd tx"
proof -
  from assms have "open_fd e n p = open_fd e 0 p" "open_fd e m p = open_fd e 0 p"
    "read_byte e n fd = read_byte e 0 fd" "read_byte e m fd = read_byte e 0 fd"
    "spi_rx e n fd tx = spi_rx e 0 fd tx" "spi_rx e m fd tx = spi_rx e 0 fd tx"
    unfolding steady_def by blast+
  then show "open_fd e n p = open_fd e m p" and "read_byte e n fd = read_byte e m fd"
    and "spi_rx e n fd tx = spi_rx e m fd tx"
    by (simp_all only:)
qed

lemma steady_adc_at: "steady e \<Longrightarrow> adc_at e n fd ch = adc_at e m fd ch"
  by (simp only: adc_at_def steadyD(3) [of e n _ _ m])

lemma steady_gpio:
  assumes "steady e"
  shows "gpio_level e n g = gpio_level e m g" and "gpio_calls e n g = gpio_calls e m g"
  by (simp_all only: gpio_level_def gpio_calls_def steadyD(1) [OF assms, of n _ m]
      steadyD(2) [OF assms, of "n + 1" _ "m + 1"])

lemma steady_key_events:
  assumes "steady e"
  shows "key_events e n t tbl = map (\<lambda>b. event t EV_KEY (keycode b) (gpio_level e 0 (gpio b))) tbl"
proof (induction tbl arbitrary: n)
  case (Cons b bs)
  from steady_gpio(1) [OF assms, of n "gpio b" 0] show ?case
    by (simp add: Cons)
qed simp

lemma steady_button_calls:
  assumes "steady e"
  shows "length (button_calls e n ufd t tbl) = length (button_calls e m ufd t' tbl)"
proof (induction tbl arbitrary: n m)
  case (Cons b bs)
  have g: "gpio_calls e n (gpio b) = gpio_calls e m (gpio b)"
    by (rule steady_gpio(2) [OF assms])
  from Cons [of "n + length (gpio_calls e m (gpio b)) + 1" "m + length (gpio_calls e m (gpio b)) + 1"]
  show ?case
    by (simp add: g)
qed simp

lemma steady_cycle_events:
  assumes "steady e"
  shows "cycle_events e n spi_fd tbl =
           report (clock e n) (adc_at e 0 spi_fd) (gpio_level e 0) tbl"
  by (simp add: cycle_events_def axis_events_def report_def steady_key_events [OF assms]
      steady_adc_at [OF assms, of "n + _" spi_fd _ 0] steady_adc_at [OF assms, of "Suc _" spi_fd _ 0])

lemma steady_cycle_calls:
  assumes "steady e"
  shows "length (cycle_calls e n spi_fd ufd tbl) = period e spi_fd ufd tbl"
  using steady_button_calls [OF assms, of "n + 9" ufd "clock e n" tbl "0 + 9" "clock e 0"]
  by (simp add: period_def cycle_calls_def axis_events_def)

lemma steady_loop_events:
  assumes "steady e"
  shows "loop_events k e n spi_fd ufd tbl =
     concat (map (\<lambda>i. report (clock e (n + i * period e spi_fd ufd tbl))
                    (adc_at e 0 spi_fd) (gpio_level e 0) tbl) [0..<k])"
proof (induction k arbitrary: n)
  case (Suc k)
  have "[0..<Suc k] = 0 # map Suc [0..<k]"
    by (simp add: upt_conv_Cons map_Suc_upt del: upt_Suc)
  then show ?case
    by (simp add: Suc steady_cycle_events [OF assms] steady_cycle_calls [OF assms] o_def
        add.assoc del: upt_Suc)
qed simp

lemma reports_loop_events:
  assumes "eval (load_config CONFIG_PATH) (init_driver e) = None" and "0 \<le> spi_of e"
  shows "reports n e = loop_events n e (loop_start e) (spi_of e) (ufd_of e) (table (loaded e))"
  using assms by (simp add: exec_def reports_def run_main_init)

lemma steady_idle_env: "steady idle_env"
  and idle_env_loads: "eval (load_config CONFIG_PATH) (init_driver idle_env) = None"
  and spi_of_idle_env: "spi_of idle_env = 3"
  by (simp_all add: steady_def eval_def run_load_config_no_file spi_of_def)

subsection \<open>Properties\<close>

text \<open>
  C18 (refinement). In a steady environment the driver implements the stateless report.
  When the answers of the environment do not depend on the time of the call, the
  configuration loads and the SPI device opens, the events that the device has received
  after \<open>n\<close> passes are \<open>n\<close> reports of the same samples and levels over the table, the
  \<open>i\<close>-th stamped with the clock at the start of the \<open>i\<close>-th pass; the passes start
  \<open>period\<close> calls apart.
\<close>

theorem steady_refinement:
  assumes "steady e" and "eval (load_config CONFIG_PATH) (init_driver e) = None"
    and "0 \<le> spi_of e"
  shows "reports n e = steady_reports n e"
  by (simp only: reports_loop_events [OF assms(2,3)] steady_loop_events [OF assms(1)]
      steady_reports_def)

theorem steady_refinement_witness:
  "steady idle_env \<and> eval (load_config CONFIG_PATH) (init_driver idle_env) = None \<and>
   0 \<le> spi_of idle_env \<and> reports 2 idle_env = steady_reports 2 idle_env"
  using steady_refinement [of idle_env 2]
  by (simp add: steady_idle_env idle_env_loads spi_of_idle_env)

end
