(* ===== verification/Uinput_Protocol.thy ===== *)
theory Uinput_Protocol
  imports Event_Loop
begin

text \<open>
  The virtual input device as the driver's counterpart. \<^verbatim>\<open>main\<close> in
  \<^verbatim>\<open>src/gamepad_driver.c\<close> talks to \<^verbatim>\<open>/dev/uinput\<close> in three stages: it declares the types and
  codes of the events, writes the identity of the device and creates it, and then writes
  events. \<open>request_of\<close> reads a call of the trace as a request to the device on a given
  descriptor; \<open>serve\<close> is the device as an automaton that accepts a request only in the
  stage where it is allowed: declarations and the identity before the creation, the
  creation once the identity is there, an event only after the creation and only if its
  type and code were declared (synchronisation events are always declared), the
  destruction only of a created device. The automaton is the contract of the interface,
  not code of the driver: a request that it refuses is one that the kernel rejects or
  drops.

  The lemmas: the requests of each part of a run, and that the device serves every request
  of a run of \<open>main\<close> and ends created, with the declarations of the table and with the
  reports of the loop as its events.
\<close>

datatype request =
    Set_evbit int
  | Set_keybit int
  | Set_absbit int
  | Identify uinput_user_dev
  | Create
  | Submit input_event
  | Destroy

fun request_of :: "int \<Rightarrow> sys_call \<Rightarrow> request option" where
  "request_of fd (Ioctl fd' (UI_SET_EVBIT ty)) = (if fd' = fd then Some (Set_evbit ty) else None)"
| "request_of fd (Ioctl fd' (UI_SET_KEYBIT k)) = (if fd' = fd then Some (Set_keybit k) else None)"
| "request_of fd (Ioctl fd' (UI_SET_ABSBIT c)) = (if fd' = fd then Some (Set_absbit c) else None)"
| "request_of fd (Ioctl fd' UI_DEV_CREATE) = (if fd' = fd then Some Create else None)"
| "request_of fd (Ioctl fd' UI_DEV_DESTROY) = (if fd' = fd then Some Destroy else None)"
| "request_of fd (Write fd' (User_dev u)) = (if fd' = fd then Some (Identify u) else None)"
| "request_of fd (Write fd' (Event ev)) = (if fd' = fd then Some (Submit ev) else None)"
| "request_of fd c = None"

definition requests :: "int \<Rightarrow> sys_call list \<Rightarrow> request list" where
  "requests fd t = List.map_filter (request_of fd) t"

datatype stage = Setup | Live | Gone

record device =
  dev_stage :: stage
  dev_evbits :: "int list"
  dev_keybits :: "int list"
  dev_absbits :: "int list"
  dev_identity :: "uinput_user_dev option"
  dev_events :: "input_event list"

definition new_device :: device where
  "new_device =
     \<lparr>dev_stage = Setup, dev_evbits = [], dev_keybits = [], dev_absbits = [],
      dev_identity = None, dev_events = []\<rparr>"

definition supported :: "device \<Rightarrow> input_event \<Rightarrow> bool" where
  "supported dv ev \<longleftrightarrow>
     ev_type ev = u16_of_int EV_SYN \<or>
     ev_type ev = u16_of_int EV_KEY \<and> EV_KEY \<in> set (dev_evbits dv) \<and>
       ev_code ev \<in> set (map u16_of_int (dev_keybits dv)) \<or>
     ev_type ev = u16_of_int EV_ABS \<and> EV_ABS \<in> set (dev_evbits dv) \<and>
       ev_code ev \<in> set (map u16_of_int (dev_absbits dv))"

fun serve :: "device \<Rightarrow> request \<Rightarrow> device option" where
  "serve dv (Set_evbit ty) =
     (if dev_stage dv = Setup then Some (dv\<lparr>dev_evbits := dev_evbits dv @ [ty]\<rparr>) else None)"
| "serve dv (Set_keybit k) =
     (if dev_stage dv = Setup then Some (dv\<lparr>dev_keybits := dev_keybits dv @ [k]\<rparr>) else None)"
| "serve dv (Set_absbit c) =
     (if dev_stage dv = Setup then Some (dv\<lparr>dev_absbits := dev_absbits dv @ [c]\<rparr>) else None)"
| "serve dv (Identify u) =
     (if dev_stage dv = Setup then Some (dv\<lparr>dev_identity := Some u\<rparr>) else None)"
| "serve dv Create =
     (if dev_stage dv = Setup \<and> dev_identity dv \<noteq> None then Some (dv\<lparr>dev_stage := Live\<rparr>)
      else None)"
| "serve dv (Submit ev) =
     (if dev_stage dv = Live \<and> supported dv ev
      then Some (dv\<lparr>dev_events := dev_events dv @ [ev]\<rparr>) else None)"
| "serve dv Destroy = (if dev_stage dv = Live then Some (dv\<lparr>dev_stage := Gone\<rparr>) else None)"

fun serve_all :: "device \<Rightarrow> request list \<Rightarrow> device option" where
  "serve_all dv [] = Some dv"
| "serve_all dv (r # rs) = Option.bind (serve dv r) (\<lambda>dv'. serve_all dv' rs)"

definition created_device :: "ButtonConfig list \<Rightarrow> input_event list \<Rightarrow> device" where
  "created_device tbl evs =
     \<lparr>dev_stage = Live, dev_evbits = [EV_KEY, EV_ABS], dev_keybits = map keycode tbl,
      dev_absbits = [ABS_X, ABS_Y, ABS_RX, ABS_RY], dev_identity = Some uidev, dev_events = evs\<rparr>"

subsection \<open>The requests of a run\<close>

lemma requests_append [simp]: "requests fd (s @ t) = requests fd s @ requests fd t"
  and requests_Nil [simp]: "requests fd [] = []"
  and requests_Cons: "requests fd (c # t) =
        (case request_of fd c of None \<Rightarrow> requests fd t | Some r \<Rightarrow> r # requests fd t)"
  by (simp_all add: requests_def map_filter_simps split: option.splits)

lemma requests_stdio:
  assumes "set cs \<subseteq> {Fopen path mode, Fclose, Perror msg} \<union> range Printf"
  shows "requests fd cs = []"
  using assms by (induction cs) (auto simp: requests_Cons)

lemma requests_loaded [simp]: "requests fd (trace (loaded e)) = []"
proof -
  obtain cs where "trace (loaded e) = trace (init_driver e) @ cs"
    and "set cs \<subseteq> {Fopen CONFIG_PATH ''r'', Fclose, Perror ''fopen''} \<union> range Printf"
    unfolding loaded_def using trace_load_config_stdio by blast
  then show ?thesis
    by (simp add: requests_stdio)
qed

lemma requests_export_all [simp]: "requests fd (export_all e n tbl) = []"
  by (induction tbl arbitrary: n) (simp_all add: export_calls_def requests_Cons)

lemma requests_create_calls:
  "requests ufd (create_calls ufd tbl) =
     [Set_evbit EV_KEY, Set_evbit EV_ABS] @ map (\<lambda>b. Set_keybit (keycode b)) tbl @
     map Set_absbit [ABS_X, ABS_Y, ABS_RX, ABS_RY] @ [Identify uidev, Create]"
proof -
  have "requests ufd (map (\<lambda>b. Ioctl ufd (UI_SET_KEYBIT (keycode b))) tbl) =
      map (\<lambda>b. Set_keybit (keycode b)) tbl"
    by (induction tbl) (simp_all add: requests_Cons)
  then show ?thesis
    by (simp add: create_calls_def requests_Cons)
qed

lemma requests_startup_calls:
  "requests (uinput_fd e n tbl) (startup_calls e n tbl) =
     [Set_evbit EV_KEY, Set_evbit EV_ABS] @ map (\<lambda>b. Set_keybit (keycode b)) tbl @
     map Set_absbit [ABS_X, ABS_Y, ABS_RX, ABS_RY] @ [Identify uidev, Create]"
  by (simp add: startup_calls_def requests_create_calls requests_Cons)

lemma requests_button_calls [simp]:
  "requests ufd (button_calls e n ufd t tbl) = map Submit (key_events e n t tbl)"
  by (induction tbl arbitrary: n) (simp_all add: gpio_calls_def Let_def requests_Cons)

lemma requests_cycle_calls [simp]:
  "requests ufd (cycle_calls e n spi_fd ufd tbl) = map Submit (cycle_events e n spi_fd tbl)"
  by (simp add: cycle_calls_def cycle_events_def axis_events_def requests_Cons)

lemma requests_loop_calls [simp]:
  "requests ufd (loop_calls k e n spi_fd ufd tbl) = map Submit (loop_events k e n spi_fd ufd tbl)"
  by (induction k arbitrary: n) simp_all

subsection \<open>Serving the requests\<close>

lemma serve_all_append:
  "serve_all dv (rs @ ss) = Option.bind (serve_all dv rs) (\<lambda>dv'. serve_all dv' ss)"
  by (induction rs arbitrary: dv) (simp_all split: Option.bind_split)

lemma serve_all_keybits:
  "dev_stage dv = Setup \<Longrightarrow>
   serve_all dv (map (\<lambda>b. Set_keybit (keycode b)) tbl) =
     Some (dv\<lparr>dev_keybits := dev_keybits dv @ map keycode tbl\<rparr>)"
  by (induction tbl arbitrary: dv) simp_all

lemma supported_events [simp]: "supported (dv\<lparr>dev_events := evs\<rparr>) = supported dv"
  by (simp add: fun_eq_iff supported_def)

lemma serve_all_events:
  "dev_stage dv = Live \<Longrightarrow> list_all (supported dv) evs \<Longrightarrow>
   serve_all dv (map Submit evs) = Some (dv\<lparr>dev_events := dev_events dv @ evs\<rparr>)"
  by (induction evs arbitrary: dv) simp_all

lemma created_device_simps [simp]:
  "dev_stage (created_device tbl evs) = Live" "dev_events (created_device tbl evs) = evs"
  "(created_device tbl evs)\<lparr>dev_events := evs'\<rparr> = created_device tbl evs'"
  by (simp_all add: created_device_def)

lemma supported_batch_kinds:
  assumes "kind ev \<in> set (batch_kinds tbl)"
  shows "supported (created_device tbl evs) ev"
  using assms by (auto simp: supported_def created_device_def batch_kinds_def kind_def)

lemma serve_all_startup:
  "serve_all new_device (requests (uinput_fd e n tbl) (startup_calls e n tbl)) =
     Some (created_device tbl [])"
  by (simp add: requests_startup_calls serve_all_append serve_all_keybits new_device_def
      created_device_def)

subsection \<open>Properties\<close>

text \<open>
  C12 (refinement). The driver keeps the protocol of the device. When the configuration
  loads and the SPI device opens, the device serves every request that \<open>main\<close> makes on the
  descriptor of \<^verbatim>\<open>/dev/uinput\<close> in start-up and \<open>n\<close> passes: the declarations come before the
  identity, the identity before the creation, every event after the creation, and every
  event has a type and a code that were declared. The device ends created, with the key
  codes of the table, the four axes, the identity \<open>uidev\<close>, and the reports of the loop as
  the events it has accepted.
\<close>

theorem main_serves_device:
  assumes "eval (load_config CONFIG_PATH) (init_driver e) = None" and "0 \<le> spi_of e"
  shows "serve_all new_device (requests (ufd_of e) (trace (exec (main n) (init_driver e)))) =
           Some (created_device (table (loaded e)) (reports n e))"
proof -
  let ?tbl = "table (loaded e)"
  let ?evs = "loop_events n e (loop_start e) (spi_of e) (ufd_of e) ?tbl"
  have "list_all (supported (created_device ?tbl [])) ?evs"
    using kinds_loop_events [of ?tbl n e "loop_start e" "spi_of e" "ufd_of e"]
    by (auto simp: list_all_iff intro: supported_batch_kinds)
  then have "serve_all (created_device ?tbl []) (map Submit ?evs) = Some (created_device ?tbl ?evs)"
    by (simp add: serve_all_events)
  with assms serve_all_startup [of e "now (loaded e)" ?tbl] show ?thesis
    by (simp add: exec_def [of "main n"] reports_def run_main_init serve_all_append ufd_of_def)
qed

theorem main_serves_device_witness:
  "eval (load_config CONFIG_PATH) (init_driver idle_env) = None \<and> 0 \<le> spi_of idle_env \<and>
   serve_all new_device (requests 3 (trace (exec (main 2) (init_driver idle_env)))) =
     Some (created_device [] (reports 2 idle_env))"
  using main_serves_device [of idle_env 2]
  by (simp add: eval_def [of "load_config _"] run_load_config_no_file spi_of_def ufd_of_def
      uinput_fd_def loaded_def exec_def [of "load_config _"])

end
