(* ===== verification/Discarded_Results.thy ===== *)
theory Discarded_Results
  imports Event_Loop
begin

text \<open>
  The results that the driver drops. \<^verbatim>\<open>src/gamepad_driver.c\<close> never reads what \<^verbatim>\<open>write\<close>,
  \<^verbatim>\<open>close\<close>, \<^verbatim>\<open>usleep\<close>, \<^verbatim>\<open>printf\<close>, \<^verbatim>\<open>fclose\<close> and \<^verbatim>\<open>ioctl\<close> return (the SPI transfer is read
  through its receive buffer, not through its result). In the model these results are the
  answer \<open>status\<close> of the environment. \<open>with_status\<close> replaces that answer in a state; the
  lemmas show that every part of the program commutes with the replacement, and the
  theorem that the run of \<open>main\<close> is the same whatever the dropped results are: a failed
  write to the device, a failed export or a failed request changes nothing in what the
  driver does next.
\<close>

definition with_status :: "(nat \<Rightarrow> int) \<Rightarrow> driver \<Rightarrow> driver" where
  "with_status s d = d\<lparr>env := (env d)\<lparr>status := s\<rparr>\<rparr>"

subsection \<open>States\<close>

lemma with_status_simps [simp]:
  "trace (with_status s d) = trace d" "buttons (with_status s d) = buttons d"
  "button_count (with_status s d) = button_count d" "table (with_status s d) = table d"
  "now (with_status s d) = now d" "env (with_status s d) = (env d)\<lparr>status := s\<rparr>"
  by (simp_all add: with_status_def table_def now_def)

lemma with_status_log: "log c (with_status s d) = with_status s (log c d)"
  and with_status_logs: "logs cs (with_status s d) = with_status s (logs cs d)"
  by (simp_all add: with_status_def log_def logs_def)

lemma with_status_init: "init_driver (e\<lparr>status := s\<rparr>) = with_status s (init_driver e)"
  by (simp add: with_status_def init_driver_def)

lemma wf_driver_with_status [simp]: "wf_driver (with_status s d) = wf_driver d"
  and table_ok_with_status [simp]: "table_ok (with_status s d) = table_ok d"
  by (simp_all add: wf_driver_def table_ok_def)

subsection \<open>The loader\<close>

lemma run_config_line_status:
  "run_state (config_line c) (with_status s d) = apsnd (with_status s) (run_state (config_line c) d)"
  by (simp add: run_config_line run_add_button with_status_def log_def split: line_result.splits)

lemma run_config_lines_status:
  "run_state (config_lines cs) (with_status s d) =
     apsnd (with_status s) (run_state (config_lines cs) d)"
proof (induction cs arbitrary: d)
  case (Cons c cs)
  show ?case
    by (cases "run_state (config_line c) d")
      (simp add: run_config_lines_Cons run_config_line_status Cons split: option.splits)
qed simp

lemma run_load_config_status:
  "run_state (load_config path) (with_status s d) =
     apsnd (with_status s) (run_state (load_config path) d)"
proof (cases d path rule: load_config_cases)
  case absent
  then show ?thesis
    by (simp add: run_load_config_no_file with_status_log)
next
  case (present content)
  then have "fopen_file (env (with_status s d)) (now (with_status s d)) path = Some content"
    by simp
  from run_load_config_file [OF this] run_load_config_file [OF present] show ?thesis
    by (cases "run_state (config_lines (chunks content)) (log (Fopen path ''r'') d)")
      (simp add: with_status_log run_config_lines_status split: option.splits)
qed

subsection \<open>The calls of a run\<close>

lemma gpio_status [simp]:
  "gpio_calls (e\<lparr>status := s\<rparr>) n g = gpio_calls e n g"
  "gpio_level (e\<lparr>status := s\<rparr>) n g = gpio_level e n g"
  "export_calls (e\<lparr>status := s\<rparr>) n g = export_calls e n g"
  by (simp_all add: gpio_calls_def gpio_level_def export_calls_def Let_def)

lemma export_all_status [simp]: "export_all (e\<lparr>status := s\<rparr>) n tbl = export_all e n tbl"
  by (induction tbl arbitrary: n) simp_all

lemma button_calls_status [simp]:
  "button_calls (e\<lparr>status := s\<rparr>) n ufd t tbl = button_calls e n ufd t tbl"
  by (induction tbl arbitrary: n) simp_all

lemma cycle_calls_status [simp]:
  "cycle_calls (e\<lparr>status := s\<rparr>) n spi_fd ufd tbl = cycle_calls e n spi_fd ufd tbl"
  by (simp add: cycle_calls_def axis_events_def adc_at_def)

lemma loop_calls_status [simp]:
  "loop_calls k (e\<lparr>status := s\<rparr>) n spi_fd ufd tbl = loop_calls k e n spi_fd ufd tbl"
  by (induction k arbitrary: n) simp_all

lemma startup_calls_status [simp]:
  "startup_calls (e\<lparr>status := s\<rparr>) n tbl = startup_calls e n tbl"
  by (simp add: startup_calls_def uinput_fd_def)

lemma run_main_status:
  assumes "table_ok d"
  shows "run_state (main n) (with_status s d) = apsnd (with_status s) (run_state (main n) d)"
proof -
  from assms have "table_ok (with_status s d)"
    by simp
  from run_main [OF this, of n] run_main [OF assms, of n] show ?thesis
    by (simp add: exec_def eval_def run_load_config_status Let_def with_status_logs uinput_fd_def
        split: option.splits)
qed

subsection \<open>Properties\<close>

text \<open>
  C16 (safety). The driver does not notice a failed call. Whatever \<^verbatim>\<open>write\<close>, \<^verbatim>\<open>close\<close>,
  \<^verbatim>\<open>usleep\<close>, \<^verbatim>\<open>printf\<close>, \<^verbatim>\<open>fclose\<close> and the requests to the devices return, \<open>main\<close> ends
  with the same result and has made the same calls with the same arguments, and so has
  written the same events: the results of these calls have no influence on the run.
\<close>

theorem main_ignores_status:
  "eval (main n) (init_driver (e\<lparr>status := s\<rparr>)) = eval (main n) (init_driver e) \<and>
   trace (exec (main n) (init_driver (e\<lparr>status := s\<rparr>))) = trace (exec (main n) (init_driver e)) \<and>
   reports n (e\<lparr>status := s\<rparr>) = reports n e"
proof -
  have r: "run_state (main n) (init_driver (e\<lparr>status := s\<rparr>)) =
      apsnd (with_status s) (run_state (main n) (init_driver e))"
    by (simp add: with_status_init run_main_status)
  have l: "run_state (load_config CONFIG_PATH) (init_driver (e\<lparr>status := s\<rparr>)) =
      apsnd (with_status s) (run_state (load_config CONFIG_PATH) (init_driver e))"
    by (simp add: with_status_init run_load_config_status)
  have "ufd_of (e\<lparr>status := s\<rparr>) = ufd_of e"
    by (simp add: ufd_of_def uinput_fd_def loaded_def exec_def l)
  with r show ?thesis
    by (simp add: eval_def exec_def reports_def)
qed

end
