(* ===== verification/Report_Frames.thy ===== *)
theory Report_Frames
  imports Event_Loop "HOL-Library.Sublist"
begin

text \<open>
  What a reader of the virtual device sees while the driver runs. The reader takes the
  events in frames: a frame ends with a synchronisation event, and the events after the
  last synchronisation event are not yet visible. \<open>frames\<close> cuts a list of events into its
  complete frames. The loop of \<^verbatim>\<open>main\<close> in \<^verbatim>\<open>src/gamepad_driver.c\<close> writes the events of a
  batch one by one, so that between two writes the device holds a part of a batch; the
  lemmas here show that at every such moment, that is for every prefix of the events
  written, the frames that the reader sees are whole batches, the first ones of the run.
\<close>

definition is_syn :: "input_event \<Rightarrow> bool" where
  "is_syn ev \<longleftrightarrow> kind ev = (u16_of_int EV_SYN, u16_of_int SYN_REPORT)"

fun frames_from :: "input_event list \<Rightarrow> input_event list \<Rightarrow> input_event list list" where
  "frames_from acc [] = []"
| "frames_from acc (ev # es) =
     (if is_syn ev then (acc @ [ev]) # frames_from [] es else frames_from (acc @ [ev]) es)"

definition frames :: "input_event list \<Rightarrow> input_event list list" where
  "frames es = frames_from [] es"

definition whole :: "input_event list \<Rightarrow> bool" where
  "whole b \<longleftrightarrow> b \<noteq> [] \<and> is_syn (last b) \<and> list_all (\<lambda>ev. \<not> is_syn ev) (butlast b)"

subsection \<open>Frames of whole batches\<close>

lemma frames_from_open:
  "list_all (\<lambda>ev. \<not> is_syn ev) r \<Longrightarrow> frames_from acc r = []"
  by (induction r arbitrary: acc) simp_all

lemma frames_from_whole:
  "whole b \<Longrightarrow> frames_from acc (b @ es) = (acc @ b) # frames_from [] es"
proof (induction b arbitrary: acc)
  case (Cons ev b)
  show ?case
  proof (cases "b = []")
    case True
    with Cons.prems show ?thesis by (simp add: whole_def)
  next
    case False
    with Cons.prems have "whole b" and "\<not> is_syn ev"
      by (simp_all add: whole_def)
    with Cons.IH [of "acc @ [ev]"] show ?thesis by simp
  qed
qed (simp add: whole_def)

lemma frames_from_batches:
  assumes "list_all whole bs" and "list_all (\<lambda>ev. \<not> is_syn ev) r"
  shows "frames_from [] (concat bs @ r) = bs"
  using assms by (induction bs) (simp_all add: frames_from_open frames_from_whole)

lemma prefix_whole:
  assumes "whole b" and "prefix p b"
  shows "p = b \<or> list_all (\<lambda>ev. \<not> is_syn ev) p"
proof (cases "p = b")
  case False
  with assms(2) have "prefix p (butlast b)"
    by (metis prefix_snoc append_butlast_last_id assms(1) whole_def)
  then obtain q where "butlast b = p @ q"
    by (auto simp: prefix_def)
  with assms(1) show ?thesis
    by (simp add: whole_def)
qed simp

lemma prefix_batches:
  assumes "list_all whole bs" and "prefix p (concat bs)"
  shows "\<exists>j r. p = concat (take j bs) @ r \<and> list_all (\<lambda>ev. \<not> is_syn ev) r"
  using assms
proof (induction bs arbitrary: p)
  case Nil
  then show ?case
    by (intro exI [of _ 0] exI [of _ "[]"]) simp
next
  case (Cons b bs)
  from Cons.prems(2) consider "prefix p b" | q where "p = b @ q" "prefix q (concat bs)"
    by (auto simp: prefix_append)
  then show ?case
  proof cases
    case 1
    with Cons.prems(1) prefix_whole [of b p] consider "p = b" | "list_all (\<lambda>ev. \<not> is_syn ev) p"
      by auto
    then show ?thesis
    proof cases
      case 1
      then show ?thesis
        by (intro exI [of _ 1] exI [of _ "[]"]) simp
    next
      case 2
      then show ?thesis
        by (intro exI [of _ 0] exI [of _ p]) simp
    qed
  next
    case 2
    from Cons.prems(1) have "list_all whole bs" by simp
    from Cons.IH [OF this 2(2)]
    obtain j r where "q = concat (take j bs) @ r" and r: "list_all (\<lambda>ev. \<not> is_syn ev) r"
      by blast
    with 2(1) Cons.prems(1) show ?thesis
      by (intro exI [of _ "Suc j"] exI [of _ r]) simp
  qed
qed

lemma frames_prefix:
  assumes "list_all whole bs" and "prefix p (concat bs)"
  shows "prefix (frames p) bs"
proof -
  from prefix_batches [OF assms] obtain j r
    where p: "p = concat (take j bs) @ r" and r: "list_all (\<lambda>ev. \<not> is_syn ev) r"
    by blast
  from assms(1) have "list_all whole (take j bs)"
    by (auto simp: list_all_iff dest: in_set_takeD)
  from frames_from_batches [OF this r] have "frames p = take j bs"
    by (simp add: frames_def p)
  then show ?thesis
    by (simp add: take_is_prefix)
qed

subsection \<open>The batches of the loop\<close>

lemma is_syn_event [simp]:
  "is_syn (event t EV_SYN SYN_REPORT v)" "\<not> is_syn (event t EV_ABS c v)"
  "\<not> is_syn (event t EV_KEY c v)"
  by (simp_all add: is_syn_def EV_SYN_def EV_ABS_def EV_KEY_def u16_of_int_def)

lemma open_key_events [simp]: "list_all (\<lambda>ev. \<not> is_syn ev) (key_events e n t tbl)"
  by (induction tbl arbitrary: n) simp_all

lemma whole_cycle_events: "whole (cycle_events e n spi_fd tbl)"
  by (simp add: whole_def cycle_events_def axis_events_def butlast_append)

lemma concat_chop_loop_events:
  "concat (chop k (5 + length tbl) (loop_events k e n spi_fd ufd tbl)) =
     loop_events k e n spi_fd ufd tbl"
  by (induction k arbitrary: n) simp_all

lemma idle_env_table: "table (loaded idle_env) = []"
  and idle_env_None: "eval (load_config CONFIG_PATH) (init_driver idle_env) = None"
  and idle_env_spi: "spi_of idle_env = 3"
  by (simp_all add: loaded_def exec_def eval_def run_load_config_no_file spi_of_def)

subsection \<open>Properties\<close>

text \<open>
  C17 (safety). A reader never sees a part of a batch. At every moment of the loop, that
  is for every prefix of the events that \<open>main\<close> writes to the device in \<open>n\<close> passes, the
  complete frames of the prefix are the first batches of the run, each with the kinds of
  a batch: the events of a pass that is under way stay invisible until its
  synchronisation event is written.
\<close>

theorem frames_atomic:
  assumes "eval (load_config CONFIG_PATH) (init_driver e) = None" and "0 \<le> spi_of e"
    and "prefix p (reports n e)"
  shows "prefix (frames p) (chop n (5 + length (table (loaded e))) (reports n e)) \<and>
         list_all (\<lambda>f. map kind f = batch_kinds (table (loaded e))) (frames p)"
proof -
  let ?tbl = "table (loaded e)"
  let ?es = "loop_events n e (loop_start e) (spi_of e) (ufd_of e) ?tbl"
  let ?bs = "chop n (5 + length ?tbl) ?es"
  from assms(1,2) have r: "reports n e = ?es"
    by (simp add: exec_def reports_def run_main_init)
  have "list_all whole ?bs"
    by (rule chop_loop_events_all) (rule whole_cycle_events)
  moreover from assms(3) have "prefix p (concat ?bs)"
    by (simp only: r concat_chop_loop_events)
  ultimately have f: "prefix (frames p) ?bs"
    by (rule frames_prefix)
  then have "set (frames p) \<subseteq> set ?bs"
    by (rule set_mono_prefix)
  with chop_loop_events [of ?tbl n e "loop_start e" "spi_of e" "ufd_of e"] f show ?thesis
    by (auto simp: r list_all_iff)
qed

theorem frames_atomic_witness:
  "eval (load_config CONFIG_PATH) (init_driver idle_env) = None \<and> 0 \<le> spi_of idle_env \<and>
   prefix (take 7 (reports 2 idle_env)) (reports 2 idle_env) \<and>
   prefix (frames (take 7 (reports 2 idle_env))) (chop 2 5 (reports 2 idle_env)) \<and>
   list_all (\<lambda>f. map kind f = batch_kinds []) (frames (take 7 (reports 2 idle_env)))"
  using frames_atomic [of idle_env "take 7 (reports 2 idle_env)" 2]
  by (simp add: idle_env_table idle_env_None idle_env_spi take_is_prefix)

end
