(* ===== verification/Time_Stamps.thy ===== *)
theory Time_Stamps
  imports Event_Loop "HOL-Library.Product_Lexorder"
begin

text \<open>
  The time stamps of the events. \<^verbatim>\<open>main\<close> in \<^verbatim>\<open>src/gamepad_driver.c\<close> reads the clock once
  at the start of a pass and stamps every event of the pass with it. \<^verbatim>\<open>struct timeval\<close>
  is ordered as \<^verbatim>\<open>timercmp\<close> orders it, by seconds and then by microseconds; with that
  order the stamps of the events never go back when the clock does not.
\<close>

instantiation timeval_ext :: (linorder) linorder
begin

definition less_eq_timeval_ext :: "'a timeval_ext \<Rightarrow> 'a timeval_ext \<Rightarrow> bool" where
  "less_eq_timeval_ext a b \<longleftrightarrow>
     (tv_sec a, tv_usec a, timeval.more a) \<le> (tv_sec b, tv_usec b, timeval.more b)"

definition less_timeval_ext :: "'a timeval_ext \<Rightarrow> 'a timeval_ext \<Rightarrow> bool" where
  "less_timeval_ext a b \<longleftrightarrow>
     (tv_sec a, tv_usec a, timeval.more a) < (tv_sec b, tv_usec b, timeval.more b)"

instance
proof
  fix a b c :: "'a timeval_ext"
  show "a < b \<longleftrightarrow> a \<le> b \<and> \<not> b \<le> a"
    unfolding less_timeval_ext_def less_eq_timeval_ext_def by (rule less_le_not_le)
  show "a \<le> a"
    unfolding less_eq_timeval_ext_def by (rule order_refl)
  show "a \<le> b \<Longrightarrow> b \<le> c \<Longrightarrow> a \<le> c"
    unfolding less_eq_timeval_ext_def by (rule order_trans)
  show "a \<le> b \<Longrightarrow> b \<le> a \<Longrightarrow> a = b"
    unfolding less_eq_timeval_ext_def by (cases a, cases b) (auto dest: antisym)
  show "a \<le> b \<or> b \<le> a"
    unfolding less_eq_timeval_ext_def by (rule linear)
qed

end

subsection \<open>The order of the stamps\<close>

lemma timeval_le_iff:
  "a \<le> b \<longleftrightarrow> tv_sec a < tv_sec b \<or> tv_sec a = tv_sec b \<and> tv_usec a \<le> tv_usec b"
  for a b :: timeval
  by (auto simp: less_eq_timeval_ext_def less_eq_prod_def)

lemma loop_events_from:
  assumes "\<And>m. n \<le> m \<Longrightarrow> list_all P (cycle_events e m spi_fd tbl)"
  shows "list_all P (loop_events k e n spi_fd ufd tbl)"
  using assms
proof (induction k arbitrary: n)
  case (Suc k)
  have "list_all P (loop_events k e (n + length (cycle_calls e n spi_fd ufd tbl)) spi_fd ufd tbl)"
    by (rule Suc.IH) (simp add: Suc.prems)
  with Suc.prems [of n] show ?case by simp
qed simp

lemma map_constant:
  "list_all (\<lambda>x. f x = c) xs \<Longrightarrow> map f xs = replicate (length xs) c"
  by (induction xs) simp_all

lemma sorted_loop_events:
  assumes "mono (clock e)"
  shows "sorted (map ev_time (loop_events k e n spi_fd ufd tbl))"
proof (induction k arbitrary: n)
  case (Suc k)
  let ?n' = "n + length (cycle_calls e n spi_fd ufd tbl)"
  let ?A = "cycle_events e n spi_fd tbl"
  let ?B = "loop_events k e ?n' spi_fd ufd tbl"
  have A: "map ev_time ?A = replicate (length ?A) (clock e n)"
    by (rule map_constant) (rule time_cycle_events)
  have "list_all (\<lambda>ev. clock e n \<le> ev_time ev) ?B"
  proof (rule loop_events_from)
    fix m
    assume "?n' \<le> m"
    then have "n \<le> m" by simp
    then have "clock e n \<le> clock e m"
      by (rule monoD [OF assms])
    with time_cycle_events [of e m spi_fd tbl]
    show "list_all (\<lambda>ev. clock e n \<le> ev_time ev) (cycle_events e m spi_fd tbl)"
      by (simp add: list_all_iff)
  qed
  then have B: "\<forall>y \<in> set (map ev_time ?B). clock e n \<le> y"
    by (simp add: list_all_iff)
  have "sorted (map ev_time ?A @ map ev_time ?B)"
    unfolding sorted_append A using B Suc.IH [of ?n'] by simp
  then show ?case
    by (simp only: loop_events.simps map_append)
qed simp

subsection \<open>Properties\<close>

text \<open>
  C38 (safety). The stamps never go back. If the clock of the environment never goes
  back, the time stamps of the events that the device receives are in order: all events
  of a pass carry the time read at its start, and a later pass reads a later time.
\<close>

theorem stamps_sorted:
  assumes "mono (clock e)" and "eval (load_config CONFIG_PATH) (init_driver e) = None"
    and "0 \<le> spi_of e"
  shows "sorted (map ev_time (reports n e))"
  using assms(2,3) sorted_loop_events [OF assms(1)]
  by (simp add: exec_def reports_def run_main_init)

theorem stamps_sorted_witness:
  "mono (clock idle_env) \<and> eval (load_config CONFIG_PATH) (init_driver idle_env) = None \<and>
   0 \<le> spi_of idle_env \<and> sorted (map ev_time (reports 3 idle_env))"
  using stamps_sorted [of idle_env 3]
  by (simp add: mono_def eval_def run_load_config_no_file spi_of_def)

end
