(* ===== verification/Spec2Isabelle.thy ===== *)
theory Spec2Isabelle
  imports
    Gamepad_Prelude Linux_Input C_String Sys_World Axis_Scaler Adc_Reader Button_Config
    Config_Loader Gpio_Lines Event_Loop Driver_Steps Driver_Run Descriptors Steady_Reports
    Uinput_Protocol Discarded_Results Report_Frames Time_Stamps
begin

text \<open>
  \<^bold>\<open>A verification development for the MAX186 gamepad driver\<close>
  (\<^verbatim>\<open>src/gamepad_driver.c\<close>).

  \<^bold>\<open>The program.\<close> A single-threaded user-space driver. \<^verbatim>\<open>main\<close> reads a configuration
  file into a global table of buttons (\<^verbatim>\<open>load_config\<close>, with \<^verbatim>\<open>map_button_name\<close>), opens the
  SPI device, exports one GPIO line per button (\<^verbatim>\<open>export_gpio\<close>) and registers a virtual
  input device with the key codes of the table and four axes. Then it loops for ever: it
  reads the time, reads four channels of the converter over SPI (\<^verbatim>\<open>read_adc\<close>), scales the
  samples (\<^verbatim>\<open>scale_axis\<close>), writes four axis events, reads the level of every button
  (\<^verbatim>\<open>read_gpio\<close>) and writes a key event for it, writes a synchronisation event, and
  sleeps one millisecond.

  \<^bold>\<open>The model.\<close> C's \<^verbatim>\<open>int\<close> is a mathematical integer with the range predicate \<open>is_cint\<close>
  (lemmas show that computed values stay in the range); \<^verbatim>\<open>uint8_t\<close>, \<^verbatim>\<open>__u16\<close> and \<^verbatim>\<open>uint32_t\<close>
  are words, so that the shift in \<^verbatim>\<open>read_adc\<close> and the store of a key code into an event
  lose bits as in C. Strings are lists of bytes. Functions that call the system are
  computations of the state monad over a record: \<open>world\<close> holds the environment and the
  trace of calls, \<open>driver\<close> extends it by the globals \<^verbatim>\<open>buttons\<close> and \<^verbatim>\<open>button_count\<close>. A call
  appends itself to the trace and takes its result from the environment, which answers as
  a function of the number of calls made so far; theorems hold for every environment.
  Behaviour that C leaves undefined is a value of type \<open>fault\<close>, returned instead of being
  given a meaning.

  \<^bold>\<open>The theories\<close>, in the order of their imports.
  \<^item> \<open>Gamepad_Prelude\<close>: the integer types, \<open>is_cint\<close>, truncating division \<open>c_div\<close>, the
    lemma collections \<open>gp_consts\<close> and \<open>gp_eval\<close>, and list and division lemmas.
  \<^item> \<open>Linux_Input\<close>: the constants and structures of the kernel headers that the source
    uses; the key codes are distinct and fit into 16 bits.
  \<^item> \<open>C_String\<close>: \<^verbatim>\<open>fgets\<close>, \<^verbatim>\<open>strcspn\<close>, \<^verbatim>\<open>strchr\<close>, \<^verbatim>\<open>strlen\<close>, \<^verbatim>\<open>strncpy\<close>, \<^verbatim>\<open>atoi\<close>, \<^verbatim>\<open>%d\<close> and
    \<^verbatim>\<open>snprintf\<close>; \<^verbatim>\<open>fgets\<close> makes progress, \<^verbatim>\<open>atoi\<close> inverts \<^verbatim>\<open>%d\<close>.
  \<^item> \<open>Sys_World\<close>: the calls (\<open>sys_open\<close>, \<open>sys_write\<close>, \<open>\<dots>\<close>), the trace, the loop combinator
    \<open>for_each\<close>, the observations \<open>writes_to\<close> and \<open>events_to\<close> of a trace; a call whose
    result the source drops takes it from the environment (\<open>call_status\<close>) and drops it
    (\<open>discard\<close>).
  \<^item> \<open>Axis_Scaler\<close>: \<^verbatim>\<open>scale_axis\<close>; its range and its exact image on the assumed range of
    samples, monotonicity, complement, absence of overflow.
  \<^item> \<open>Adc_Reader\<close>: \<^verbatim>\<open>read_adc\<close>; the control byte, the reconstruction of the sample, the
    single transaction, the failed transfer.
  \<^item> \<open>Button_Config\<close>: \<^verbatim>\<open>struct ButtonConfig\<close>, the globals, \<^verbatim>\<open>map_button_name\<close>, and the body
    of the loop of \<^verbatim>\<open>load_config\<close> (\<open>parse_line\<close>, \<open>add_button\<close>); the invariants \<open>wf_driver\<close>
    and \<open>table_ok\<close>; different names have different keys.
  \<^item> \<open>Config_Loader\<close>: \<^verbatim>\<open>load_config\<close> with its loop; the table it builds, the overflow of
    the array, the split of long lines.
  \<^item> \<open>Gpio_Lines\<close>: \<^verbatim>\<open>export_gpio\<close> and \<^verbatim>\<open>read_gpio\<close>; the two buffers, every branch.
  \<^item> \<open>Event_Loop\<close>: \<^verbatim>\<open>main\<close>: start-up, registration, the loop body \<open>cycle\<close> and the loop;
    the batch, the number of batches, the outcome.
  \<^item> \<open>Driver_Steps\<close>: the run of \<^verbatim>\<open>main\<close> as a step relation over the phases of the program,
    with the condition of \<^verbatim>\<open>while (1)\<close> (\<open>loop_condition\<close>) and the statements after the loop
    (\<open>teardown\<close>, the step \<open>leave\<close>); the invariant of the reachable configurations, and
    the shape of the machine (deterministic, final exactly when terminated or faulted).
  \<^item> \<open>Driver_Run\<close>: the step relation as a function (\<open>next_config\<close>) and the run as a stream
    of configurations (\<open>run\<close>); the run agrees with \<open>main n\<close> for every \<open>n\<close>, the loop
    delivers one report per step for ever, the statements after the loop are never
    reached, and every operation of the driver (\<open>operation\<close>, \<open>perform\<close>) keeps the state
    well formed.
  \<^item> \<open>Descriptors\<close>: the replay of a trace that keeps the open descriptors (\<open>track\<close>); the
    descriptors that \<^verbatim>\<open>export_gpio\<close> and \<^verbatim>\<open>read_gpio\<close> open are closed again, and after any
    number of passes exactly the two descriptors of \<^verbatim>\<open>main\<close> are open.
  \<^item> \<open>Steady_Reports\<close>: the batch as a function without state (\<open>report\<close>); in an
    environment whose answers do not depend on time the loop writes one \<open>report\<close> per pass.
  \<^item> \<open>Uinput_Protocol\<close>: the virtual device as an automaton over the requests of the
    driver (\<open>request_of\<close>, \<open>serve\<close>); the device serves every request of a run.
  \<^item> \<open>Report_Frames\<close>: the frames that a reader of the device sees (\<open>frames\<close>); for every
    prefix of the events written, they are whole batches.
  \<^item> \<open>Time_Stamps\<close>: \<^verbatim>\<open>struct timeval\<close> as a linear order (seconds, then microseconds); the
    stamps of the events are sorted when the clock is monotone.
  \<^item> \<open>Discarded_Results\<close>: every part of the program commutes with a change of the results
    that the source drops (\<open>with_status\<close>); the run of \<open>main\<close> does not depend on them.
  \<^item> This theory: properties that span the components. \<open>pad_env\<close> is the environment of
    the scenario with the two buttons A and B on the lines 17 and 27, \<open>full_scale_env\<close> one
    in which the converter delivers its largest sample, \<open>registered_kinds\<close> the event kinds
    that a list of calls registers on a descriptor, \<open>in_declared_range\<close> an event whose value
    lies in the range that the description of the device declares for its code.

  \<^bold>\<open>Loops and bounds.\<close> The loop of \<^verbatim>\<open>load_config\<close> is a total function: \<^verbatim>\<open>fgets\<close> consumes at
  least one byte of a finite file, and the termination proof uses just that. The three
  \<^verbatim>\<open>for\<close> loops run over the indices below \<^verbatim>\<open>button_count\<close>. \<^verbatim>\<open>while (1)\<close> has no exit; it is
  modelled by \<open>main_loop n\<close>, the first \<open>n\<close> passes, and \<open>main n\<close> is the program observed
  after \<open>n\<close> passes. No bound is chosen: the theorems on \<open>main_loop\<close> and \<open>main\<close> hold for
  every \<open>n\<close>, and so for every finite prefix of the run. \<open>Driver_Run\<close> gives the run
  itself, as the stream \<open>run e\<close> of the configurations that the program passes, and shows
  that its element \<open>4 + n\<close> is the end of \<open>main n\<close>: four is the number of steps of the
  start-up (load, open the SPI device, export, create the device), and a run that stops
  earlier stays in its final configuration.

  \<^bold>\<open>Contracts.\<close> Five definitions are specifications and not translations of the source:
  \<open>report\<close> (what one pass promises), \<open>track\<close> (which descriptors are open after a trace),
  \<open>serve\<close> (which requests the virtual device accepts, and when), \<open>frames\<close> (what a
  reader of the device sees) and \<open>in_declared_range\<close> (what the declared limits of an axis
  promise to a reader). The theorems on them say
  that the translated program meets them; \<open>serve\<close> refuses what the kernel would reject or
  drop, and is stricter than the kernel in that it refuses an event whose code was not
  declared, which the kernel drops silently.

  \<^bold>\<open>Where the model is coarser than the program.\<close>
  \<^item> \<^verbatim>\<open>scale_axis\<close> computes on mathematical integers. It agrees with the arithmetic on \<^verbatim>\<open>int\<close>
    as long as the product \<^verbatim>\<open>val * UINPUT_AXIS_MAX\<close> is a value of \<^verbatim>\<open>int\<close>, that is for samples
    of absolute value up to 8421504 (\<open>product_is_cint_iff\<close>); every sample that \<^verbatim>\<open>read_adc\<close>
    returns is at most 4095 (\<open>scale_axis_no_overflow\<close>).
  \<^item> Undefined behaviour stops the model. The store past the end of \<^verbatim>\<open>buttons\<close> (the guard of
    \<open>add_button\<close>, which is not a test of the source) and a number outside \<^verbatim>\<open>int\<close> given to
    \<^verbatim>\<open>atoi\<close> are faults, and \<open>load_config\<close> returns a fault at once, without the \<^verbatim>\<open>fclose\<close>
    that the source would reach. The compiled program goes on in some state (the \<^verbatim>\<open>atoi\<close>
    of the usual C library returns a truncated number); the development says nothing
    about a run after a fault, and the bound on \<^verbatim>\<open>button_count\<close> in \<open>wf_driver\<close> holds because
    the model stops where the source would overwrite what follows the array.
  \<^item> The functions of the C library are modelled after the C standard, not after an
    implementation; an error while reading the file is not modelled (\<^verbatim>\<open>fgets\<close> reads the
    content that \<^verbatim>\<open>fopen\<close> delivered up to its end).
  \<^item> The three \<^verbatim>\<open>for\<close> loops read \<^verbatim>\<open>button_count\<close> once, at their entry; the source reads it
    before every pass. The bodies do not change it, so the passes are the same.
  \<^item> The environment answers by the number of the call and its arguments; there is no
    state of a kernel behind it. So the answer to the \<^verbatim>\<open>open\<close> of a value file does not
    depend on whether the line was exported, and the theorems hold also for environments
    that no kernel produces. \<^verbatim>\<open>gettimeofday\<close> always delivers a time. A failed SPI
    transfer leaves the receive buffer as \<^verbatim>\<open>read_adc\<close> initialised it (the buffer is not a
    field of \<open>spi_ioc_transfer\<close>; its content after the call is the answer \<open>spi_rx\<close> of the
    environment, or zero when the call fails).

  \<^bold>\<open>Not modelled.\<close> The kernel behind the calls: an environment answers in its place, and
  the theorems quantify over it. The binary layout of the structures written to
  the device. Time: \<^verbatim>\<open>usleep\<close> is a call in the trace, and the rate of the loop is not a
  subject of the development. Signals: the process ends only when it is killed, which no
  statement of the source handles; the statements after \<^verbatim>\<open>while (1)\<close> are modelled and
  shown to be unreachable.
\<close>

subsection \<open>Two environments\<close>

definition pad_env :: "(int \<Rightarrow> char) \<Rightarrow> environment" where
  "pad_env level =
     quiet_env
       \<lparr>fopen_file := \<lambda>_ p. if p = CONFIG_PATH then Some (unlines [''A=17'', ''B=27'']) else None,
        access_ok := \<lambda>_ _. True,
        open_fd := \<lambda>_ p.
          if p = SPI_PATH then 3 else if p = ''/dev/uinput'' then 4
          else if p = gpio_value_path 17 then 5 else if p = gpio_value_path 27 then 6 else - 1,
        read_byte := \<lambda>_ fd. if fd = 5 then Some (level 17) else if fd = 6 then Some (level 27) else None\<rparr>"

definition full_scale_env :: environment where
  "full_scale_env = quiet_env\<lparr>open_fd := \<lambda>_ _. 3, spi_rx := \<lambda>_ _ _. Some (0, 0xFF, 0xF0)\<rparr>"

definition registered_kinds :: "int \<Rightarrow> sys_call list \<Rightarrow> (u16 \<times> u16) list" where
  "registered_kinds fd cs =
     map (\<lambda>c. (u16_of_int EV_ABS, u16_of_int c)) (List.map_filter (abs_bit fd) cs) @
     map (\<lambda>k. (u16_of_int EV_KEY, u16_of_int k)) (List.map_filter (key_bit fd) cs) @
     [(u16_of_int EV_SYN, u16_of_int SYN_REPORT)]"

definition in_declared_range :: "input_event \<Rightarrow> bool" where
  "in_declared_range ev \<longleftrightarrow>
     ud_absmin uidev ! unat (ev_code ev) \<le> ev_value ev \<and>
     ev_value ev \<le> ud_absmax uidev ! unat (ev_code ev)"

subsection \<open>The scenario of two buttons\<close>

lemma pad_env_simps [simp]:
  "fopen_file (pad_env level) n CONFIG_PATH = Some (unlines [''A=17'', ''B=27''])"
  "access_ok (pad_env level) n p = True"
  "open_fd (pad_env level) n SPI_PATH = 3"
  "open_fd (pad_env level) n ''/dev/uinput'' = 4"
  "open_fd (pad_env level) n (gpio_value_path 17) = 5"
  "open_fd (pad_env level) n (gpio_value_path 27) = 6"
  "read_byte (pad_env level) n 5 = Some (level 17)"
  "read_byte (pad_env level) n 6 = Some (level 27)"
  "spi_rx (pad_env level) n fd tx = None"
  by (simp_all add: pad_env_def gp_consts gpio_value_path_def gp_eval)

lemma pad_env_loaded:
  "eval (load_config CONFIG_PATH) (init_driver (pad_env level)) = None"
  "table (loaded (pad_env level)) =
     [\<lparr>name = ''A'', gpio = 17, keycode = BTN_A\<rparr>, \<lparr>name = ''B'', gpio = 27, keycode = BTN_B\<rparr>]"
proof -
  let ?c = "unlines [''A=17'', ''B=27'']"
  have c: "chunks ?c = [''A=17\<newline>'', ''B=27\<newline>'']"
    by (simp add: chunks_unlines MAX_LINE_def)
  have p: "parse_line ''A=17\<newline>'' = Binding ''A'' 17 BTN_A"
    "parse_line ''B=27\<newline>'' = Binding ''B'' 27 BTN_B"
    by (simp_all add: parse_line_def chomp_eq eol_def map_button_name_def is_cint_def
        gp_consts gp_eval)
  have f: "faultless (chunks ?c)" "bindings_of (chunks ?c) =
      [\<lparr>name = ''A'', gpio = 17, keycode = BTN_A\<rparr>, \<lparr>name = ''B'', gpio = 27, keycode = BTN_B\<rparr>]"
    by (simp_all add: c p binding_def strncpy_def)
  have r: "run_state (load_config CONFIG_PATH) (init_driver (pad_env level)) =
      (case run_state (config_lines (chunks ?c)) (log (Fopen CONFIG_PATH ''r'') (init_driver (pad_env level))) of
         (Some f, d') \<Rightarrow> (Some f, d') | (None, d') \<Rightarrow> (None, log Fclose d'))"
    by (rule run_load_config_file) simp
  from config_lines_fits [of "log (Fopen CONFIG_PATH ''r'') (init_driver (pad_env level))" "chunks ?c"] f
  show "eval (load_config CONFIG_PATH) (init_driver (pad_env level)) = None"
    and "table (loaded (pad_env level)) =
     [\<lparr>name = ''A'', gpio = 17, keycode = BTN_A\<rparr>, \<lparr>name = ''B'', gpio = 27, keycode = BTN_B\<rparr>]"
    by (auto simp: loaded_def eval_def exec_def r MAX_BUTTONS_def split: prod.splits)
qed

lemma pad_env_cycle_events:
  "cycle_events (pad_env level) m spi_fd
     [\<lparr>name = ''A'', gpio = 17, keycode = BTN_A\<rparr>, \<lparr>name = ''B'', gpio = 27, keycode = BTN_B\<rparr>] =
   [event (clock (pad_env level) m) EV_ABS ABS_X 0, event (clock (pad_env level) m) EV_ABS ABS_Y 0,
    event (clock (pad_env level) m) EV_ABS ABS_RX 255, event (clock (pad_env level) m) EV_ABS ABS_RY 255,
    event (clock (pad_env level) m) EV_KEY BTN_A (c_bool (level 17 = CHR ''1'')),
    event (clock (pad_env level) m) EV_KEY BTN_B (c_bool (level 27 = CHR ''1'')),
    event (clock (pad_env level) m) EV_SYN SYN_REPORT 0]"
  by (simp add: cycle_events_def axis_events_def adc_at_def scale_axis_nonneg_arg gpio_level_def
      gpio_calls_def)

text \<open>
  C2 (functional). The scenario of two buttons, end to end. The configuration file holds
  the lines \<^verbatim>\<open>A=17\<close> and \<^verbatim>\<open>B=27\<close>, every device opens, and the SPI transfer fails (so that the
  axes rest). Then \<open>main\<close> builds the table of the two bindings and enters the loop, and
  after any number \<open>n\<close> of passes the device has received \<open>n\<close> batches of seven events: the
  four axes, the key \<^verbatim>\<open>BTN_A\<close> with the level of line 17, the key \<^verbatim>\<open>BTN_B\<close> with the level of
  line 27, and the synchronisation event.
\<close>

theorem two_button_scenario:
  "table (loaded (pad_env level)) =
     [\<lparr>name = ''A'', gpio = 17, keycode = BTN_A\<rparr>, \<lparr>name = ''B'', gpio = 27, keycode = BTN_B\<rparr>] \<and>
   eval (main n) (init_driver (pad_env level)) = Looping \<and>
   ufd_of (pad_env level) = 4 \<and>
   length (reports n (pad_env level)) = n * 7 \<and>
   list_all (\<lambda>es. map (\<lambda>ev. (kind ev, ev_value ev)) es =
       [((3, 0), 0), ((3, 1), 0), ((3, 3), 255), ((3, 4), 255),
        ((1, 0x130), c_bool (level 17 = CHR ''1'')), ((1, 0x131), c_bool (level 27 = CHR ''1'')),
        ((0, 0), 0)])
     (chop n 7 (reports n (pad_env level)))"
proof -
  let ?e = "pad_env level"
  let ?tbl = "[\<lparr>name = ''A'', gpio = 17, keycode = BTN_A\<rparr>, \<lparr>name = ''B'', gpio = 27, keycode = BTN_B\<rparr>]"
  have spi: "0 \<le> spi_of ?e"
    by (simp add: spi_of_def)
  have r: "reports n ?e = loop_events n ?e (loop_start ?e) (spi_of ?e) (ufd_of ?e) ?tbl"
    using spi by (simp add: reports_def exec_def [of "main _"] run_main_init pad_env_loaded)
  have "list_all (\<lambda>es. map (\<lambda>ev. (kind ev, ev_value ev)) es =
       [((3, 0), 0), ((3, 1), 0), ((3, 3), 255), ((3, 4), 255),
        ((1, 0x130), c_bool (level 17 = CHR ''1'')), ((1, 0x131), c_bool (level 27 = CHR ''1'')),
        ((0, 0), 0)])
     (chop n (5 + length ?tbl) (loop_events n ?e (loop_start ?e) (spi_of ?e) (ufd_of ?e) ?tbl))"
    by (rule chop_loop_events_all)
      (simp only: pad_env_cycle_events, simp add: u16_of_int_def gp_consts)
  moreover have "ufd_of ?e = 4"
    by (simp add: ufd_of_def uinput_fd_def)
  moreover have "eval (main n) (init_driver ?e) = Looping"
    using spi by (simp add: eval_def [of "main _"] run_main_init pad_env_loaded)
  ultimately show ?thesis
    by (simp add: r pad_env_loaded)
qed


subsection \<open>Inputs and reports\<close>

lemma steady_pad_env: "steady (pad_env level)"
  by (simp add: steady_def pad_env_def)

text \<open>
  C19 (functional). What is held is reported in every pass. In a steady environment, for
  every button of the table and every pass \<open>i\<close> of \<open>n\<close>, the device has received the key
  event of the button with the level of its line (1 when the line reads \<^verbatim>\<open>1\<close>, else 0), and
  the event of the left stick's X axis with the scaled sample of channel 0, both stamped
  with the time of that pass.
\<close>

theorem steady_inputs_reported:
  assumes "steady e" and "eval (load_config CONFIG_PATH) (init_driver e) = None"
    and "0 \<le> spi_of e" and "i < n" and "b \<in> set (table (loaded e))"
  shows "event (clock e (loop_start e + i * period e (spi_of e) (ufd_of e) (table (loaded e))))
           EV_KEY (keycode b) (gpio_level e 0 (gpio b)) \<in> set (reports n e) \<and>
         event (clock e (loop_start e + i * period e (spi_of e) (ufd_of e) (table (loaded e))))
           EV_ABS ABS_X (scale_axis (adc_at e 0 (spi_of e) 0) 0) \<in> set (reports n e)"
proof -
  let ?t = "clock e (loop_start e + i * period e (spi_of e) (ufd_of e) (table (loaded e)))"
  let ?r = "report ?t (adc_at e 0 (spi_of e)) (gpio_level e 0) (table (loaded e))"
  from assms(4) have "set ?r \<subseteq> set (reports n e)"
    by (simp only: reports_loop_events [OF assms(2,3)] steady_loop_events [OF assms(1)]
        set_concat set_map set_upt) force
  moreover from assms(5) have "event ?t EV_KEY (keycode b) (gpio_level e 0 (gpio b)) \<in> set ?r"
    and "event ?t EV_ABS ABS_X (scale_axis (adc_at e 0 (spi_of e) 0) 0) \<in> set ?r"
    by (simp_all add: report_def)
  ultimately show ?thesis by blast
qed

theorem steady_inputs_reported_witness:
  "steady (pad_env (\<lambda>_. CHR ''1'')) \<and>
   eval (load_config CONFIG_PATH) (init_driver (pad_env (\<lambda>_. CHR ''1''))) = None \<and>
   0 \<le> spi_of (pad_env (\<lambda>_. CHR ''1'')) \<and> (0::nat) < 1 \<and>
   \<lparr>name = ''A'', gpio = 17, keycode = BTN_A\<rparr> \<in> set (table (loaded (pad_env (\<lambda>_. CHR ''1'')))) \<and>
   event (clock (pad_env (\<lambda>_. CHR ''1'')) (loop_start (pad_env (\<lambda>_. CHR ''1''))))
     EV_KEY BTN_A 1 \<in> set (reports 1 (pad_env (\<lambda>_. CHR ''1''))) \<and>
   event (clock (pad_env (\<lambda>_. CHR ''1'')) (loop_start (pad_env (\<lambda>_. CHR ''1''))))
     EV_ABS ABS_X 0 \<in> set (reports 1 (pad_env (\<lambda>_. CHR ''1'')))"
  using steady_inputs_reported [of "pad_env (\<lambda>_. CHR ''1'')" 0 1
      "\<lparr>name = ''A'', gpio = 17, keycode = BTN_A\<rparr>"]
  by (simp add: steady_pad_env pad_env_loaded spi_of_def gpio_level_def adc_at_def
      scale_axis_nonneg_arg)


subsection \<open>Registration against emission\<close>

lemma registered_kinds_startup:
  "registered_kinds (uinput_fd e n tbl) (startup_calls e n tbl) = batch_kinds tbl"
  by (simp add: registered_kinds_def bits_startup_calls batch_kinds_def)

text \<open>
  C22 (invariant). Every event that the device receives was registered before the device
  was created. When \<open>main\<close> reaches its loop, the calls it has made after \<open>load_config\<close> are
  the start-up calls followed by the calls of the loop; the axis and key codes that the
  start-up calls register on the descriptor of the device, together with the
  synchronisation event, are exactly the kinds of a batch; and every event written to the
  device in \<open>n\<close> passes has one of these kinds.
\<close>

theorem registration_covers_reports:
  assumes "eval (load_config CONFIG_PATH) (init_driver e) = None" and "0 \<le> spi_of e"
  shows "trace (exec (main n) (init_driver e)) =
           trace (loaded e) @ startup_calls e (now (loaded e)) (table (loaded e)) @
           loop_calls n e (loop_start e) (spi_of e) (ufd_of e) (table (loaded e)) \<and>
         registered_kinds (ufd_of e) (startup_calls e (now (loaded e)) (table (loaded e))) =
           batch_kinds (table (loaded e)) \<and>
         list_all (\<lambda>ev. kind ev \<in>
             set (registered_kinds (ufd_of e) (startup_calls e (now (loaded e)) (table (loaded e)))))
           (reports n e)"
  using assms kinds_loop_events [of "table (loaded e)" n e "loop_start e" "spi_of e" "ufd_of e"]
  by (simp add: reports_def exec_def [of "main _"] run_main_init ufd_of_def registered_kinds_startup)

theorem registration_covers_reports_witness:
  "eval (load_config CONFIG_PATH) (init_driver (pad_env (\<lambda>_. CHR ''1''))) = None \<and>
   registered_kinds 4 (startup_calls (pad_env (\<lambda>_. CHR ''1'')) (now (loaded (pad_env (\<lambda>_. CHR ''1''))))
       (table (loaded (pad_env (\<lambda>_. CHR ''1''))))) =
     [(3, 0), (3, 1), (3, 3), (3, 4), (1, 0x130), (1, 0x131), (0, 0)]"
  using registration_covers_reports [of "pad_env (\<lambda>_. CHR ''1'')" 1]
  by (simp add: pad_env_loaded spi_of_def ufd_of_def uinput_fd_def batch_kinds_def u16_of_int_def
      EV_ABS_def EV_KEY_def EV_SYN_def SYN_REPORT_def ABS_X_def ABS_Y_def ABS_RX_def ABS_RY_def
      BTN_A_def BTN_B_def)

subsection \<open>The declared range of the axes\<close>

lemma uidev_axis_range:
  "c \<in> {ABS_X, ABS_Y, ABS_RX, ABS_RY} \<Longrightarrow>
     ud_absmin uidev ! unat (u16_of_int c) = 0 \<and> ud_absmax uidev ! unat (u16_of_int c) = UINPUT_AXIS_MAX"
proof -
  assume c: "c \<in> {ABS_X, ABS_Y, ABS_RX, ABS_RY}"
  then have "unat (u16_of_int c) = nat c"
    by (auto simp: gp_consts u16_of_int_def)
  with c show ?thesis
    by (auto simp: uidev_def gp_consts numeral_eq_Suc)
qed

text \<open>
  C10 (bounds). When a batch respects the declared range. The device declares the range
  \<open>[0, UINPUT_AXIS_MAX]\<close> for the four axes (\<open>uidev\<close>). In every environment and every pass,
  the four axis events of the pass lie in the range declared for their codes exactly when
  each of the four samples of the pass is at most 2056: a sample in the upper half of the
  range of the converter takes a plain axis above the declared maximum and an inverted
  axis below the declared minimum.
\<close>

theorem axes_in_declared_range_iff:
  "list_all in_declared_range (axis_events e n spi_fd) \<longleftrightarrow>
     adc_at e (n + 1) spi_fd 0 \<le> 2056 \<and> adc_at e (n + 2) spi_fd 4 \<le> 2056 \<and>
     adc_at e (n + 3) spi_fd 1 \<le> 2056 \<and> adc_at e (n + 4) spi_fd 5 \<le> 2056"
  using adc_at_bounds [of e _ spi_fd]
  by (simp add: axis_events_def in_declared_range_def event_def uidev_axis_range
      scale_axis_in_range_iff)

theorem axes_in_declared_range_iff_witness:
  "\<not> list_all in_declared_range (axis_events full_scale_env 0 3) \<and>
   list_all in_declared_range (axis_events quiet_env 0 3)"
  using axes_in_declared_range_iff [of full_scale_env 0 3] axes_in_declared_range_iff [of quiet_env 0 3]
  by (simp add: adc_at_def adc_sample_eq full_scale_env_def)

text \<open>
  C23 (bounds). The device is declared with the range 0 to 255 for every axis, and the
  events leave that range. With a converter that delivers its full-scale sample 4095, the
  first batch carries 509 for X and Y and \<open>- 254\<close> for RX and RY. The scaling divides by
  2048 while the converter delivers 12 bits.
\<close>

theorem declared_range_exceeded:
  "map ev_value (reports 1 full_scale_env) = [509, 509, - 254, - 254, 0] \<and>
   map (\<lambda>c. ud_absmax uidev ! nat c) [ABS_X, ABS_Y, ABS_RX, ABS_RY] = [255, 255, 255, 255] \<and>
   map (\<lambda>c. ud_absmin uidev ! nat c) [ABS_X, ABS_Y, ABS_RX, ABS_RY] = [0, 0, 0, 0]"
proof -
  have l: "eval (load_config CONFIG_PATH) (init_driver full_scale_env) = None"
    "table (loaded full_scale_env) = []"
    by (simp_all add: loaded_def eval_def exec_def run_load_config_no_file full_scale_env_def)
  have "0 \<le> spi_of full_scale_env"
    by (simp add: spi_of_def full_scale_env_def)
  with l have "reports 1 full_scale_env =
      cycle_events full_scale_env (loop_start full_scale_env) 3 []"
    by (simp add: reports_def exec_def [of "main _"] run_main_init spi_of_def full_scale_env_def)
  then have "map ev_value (reports 1 full_scale_env) = [509, 509, - 254, - 254, 0]"
    by (simp add: cycle_events_def axis_events_def adc_at_def adc_sample_eq scale_axis_nonneg_arg
        full_scale_env_def)
  moreover have "map (\<lambda>c. ud_absmax uidev ! nat c) [ABS_X, ABS_Y, ABS_RX, ABS_RY] =
      [255, 255, 255, 255]"
    and "map (\<lambda>c. ud_absmin uidev ! nat c) [ABS_X, ABS_Y, ABS_RX, ABS_RY] = [0, 0, 0, 0]"
    by (simp_all add: uidev_def gp_consts numeral_eq_Suc)
  ultimately show ?thesis
    by simp
qed

end
